theory Spec2Isabelle
  imports Complex_Main "HOL-Library.Word" "HOL-Library.Signed_Division"
begin

chapter \<open>The micarray processing core: capture ring, denoiser, localizer, mixer\<close>

text \<open>
  A shallow embedding of the C sources of the microphone-array library
  (\<^verbatim>\<open>i2s.c\<close>, \<^verbatim>\<open>libmicarray.c\<close>, \<^verbatim>\<open>localization.c\<close>, \<^verbatim>\<open>noise_reduction.c\<close>,
  \<^verbatim>\<open>audio_output.c\<close>) and the properties of the specification that were checked
  against it.

  Conventions of the embedding.
  \<^item> \<^verbatim>\<open>int16_t\<close> is \<open>16 word\<close>, read through \<open>sint\<close>; \<^verbatim>\<open>int32_t\<close> and \<^verbatim>\<open>int\<close> are
    \<open>32 word\<close> where the code computes in them and a wrap-around could matter.
  \<^item> \<^verbatim>\<open>size_t\<close> counters are \<open>nat\<close>; the increment and the decrement of the ring
    buffer's counter wrap at \<open>2 ^ 64\<close> as in C (\<open>size_inc\<close>, \<open>size_dec\<close>).
  \<^item> \<^verbatim>\<open>float\<close> is a type parameter \<open>'f\<close>, and the floating-point arithmetic of the
    platform is a parameter of every function that computes in \<^verbatim>\<open>float\<close> (see the
    section on floating-point arithmetic): the model performs the operations of the source
    expression, in the order of the source, and says nothing about their results.
    What is proved for every arithmetic holds of IEEE binary32 with its rounding,
    infinities, NaN and signed zeros. Closed instances are evaluated in exact
    arithmetic, on inputs where rounding does not change the outcome.
  \<^item> Pointers that the code tests against \<^verbatim>\<open>NULL\<close> are \<open>option\<close> values or flags; the
    outcome of a call into the operating system or an external library is a field of
    an environment record or a parameter of the model.
  \<^item> A C function that returns a status code and writes through pointers returns the
    status together with the values written.
\<close>

section \<open>Status codes (\<^verbatim>\<open>libmicarray.h\<close>)\<close>

definition MICARRAY_SUCCESS :: int where "MICARRAY_SUCCESS = 0"
definition MICARRAY_ERROR_INIT :: int where "MICARRAY_ERROR_INIT = -1"
definition MICARRAY_ERROR_I2S :: int where "MICARRAY_ERROR_I2S = -3"
definition MICARRAY_ERROR_AUDIO_OUTPUT :: int where "MICARRAY_ERROR_AUDIO_OUTPUT = -5"
definition MICARRAY_ERROR_MEMORY :: int where "MICARRAY_ERROR_MEMORY = -6"
definition MICARRAY_ERROR_INVALID_PARAM :: int where "MICARRAY_ERROR_INVALID_PARAM = -7"

type_synonym int16 = "16 word"

section \<open>Floating-point arithmetic\<close>

text \<open>
  The operations that the sources apply to \<^verbatim>\<open>float\<close> values, as a record over the
  type \<open>'f\<close> of these values.
  \<^item> \<open>f_real r\<close> is the \<^verbatim>\<open>float\<close> that stands for the number \<open>r\<close>: a literal such as
    \<^verbatim>\<open>0.5f\<close> or \<^verbatim>\<open>1e-10f\<close>, or the conversion of an integer (\<^verbatim>\<open>(float)delay\<close>, an
    \<^verbatim>\<open>int16_t\<close> or a \<^verbatim>\<open>size_t\<close> operand of a \<^verbatim>\<open>float\<close> operation).
  \<^item> \<open>f_add\<close>, \<open>f_sub\<close>, \<open>f_mul\<close>, \<open>f_div\<close> are \<^verbatim>\<open>+\<close>, \<^verbatim>\<open>-\<close>, \<^verbatim>\<open>*\<close>, \<^verbatim>\<open>/\<close>; \<open>f_lt a b\<close> is
    \<^verbatim>\<open>a < b\<close> (and \<^verbatim>\<open>b > a\<close>), \<open>f_le a b\<close> is \<^verbatim>\<open>a <= b\<close>.
  \<^item> \<open>f_abs\<close>, \<open>f_sqrt\<close>, \<open>f_cos\<close>, \<open>f_sin\<close>, \<open>f_atan2\<close>, \<open>f_max\<close>, \<open>f_min\<close> are
    \<^verbatim>\<open>fabsf\<close>, \<^verbatim>\<open>sqrtf\<close>, \<^verbatim>\<open>cosf\<close>, \<^verbatim>\<open>sinf\<close>, \<^verbatim>\<open>atan2f\<close>, \<^verbatim>\<open>fmaxf\<close>, \<^verbatim>\<open>fminf\<close>.
  \<^item> \<open>f_int\<close>, \<open>f_int16\<close>, \<open>f_size\<close> are the conversions of a \<^verbatim>\<open>float\<close> to \<^verbatim>\<open>int\<close>, to
    \<^verbatim>\<open>int16_t\<close> and to \<^verbatim>\<open>size_t\<close>.
  \<^item> \<open>f_div_pi a\<close> is \<^verbatim>\<open>a / M_PI\<close> and \<open>f_circle i n\<close> is \<^verbatim>\<open>2.0f * M_PI * i / n\<close> for
    integers \<open>i\<close> and \<open>n\<close>: the constant is a \<^verbatim>\<open>double\<close>, so C evaluates these
    expressions in \<^verbatim>\<open>double\<close> and converts the result to \<^verbatim>\<open>float\<close>.

  Every operation of a source expression is one application of an operation of
  the record, in the order in which C evaluates the expression (a product and
  the sum that consumes it are two operations, not a fused one).
\<close>

record 'f fpu =
  f_real :: "real \<Rightarrow> 'f"
  f_add :: "'f \<Rightarrow> 'f \<Rightarrow> 'f"
  f_sub :: "'f \<Rightarrow> 'f \<Rightarrow> 'f"
  f_mul :: "'f \<Rightarrow> 'f \<Rightarrow> 'f"
  f_div :: "'f \<Rightarrow> 'f \<Rightarrow> 'f"
  f_lt :: "'f \<Rightarrow> 'f \<Rightarrow> bool"
  f_le :: "'f \<Rightarrow> 'f \<Rightarrow> bool"
  f_abs :: "'f \<Rightarrow> 'f"
  f_sqrt :: "'f \<Rightarrow> 'f"
  f_cos :: "'f \<Rightarrow> 'f"
  f_sin :: "'f \<Rightarrow> 'f"
  f_atan2 :: "'f \<Rightarrow> 'f \<Rightarrow> 'f"
  f_max :: "'f \<Rightarrow> 'f \<Rightarrow> 'f"
  f_min :: "'f \<Rightarrow> 'f \<Rightarrow> 'f"
  f_int :: "'f \<Rightarrow> int"
  f_int16 :: "'f \<Rightarrow> int16"
  f_size :: "'f \<Rightarrow> nat"
  f_div_pi :: "'f \<Rightarrow> 'f"
  f_circle :: "int \<Rightarrow> int \<Rightarrow> 'f"

subsection \<open>Properties of an arithmetic that some theorems assume\<close>


text \<open>
  Counts up to \<open>2 ^ 24\<close> survive the detour through \<^verbatim>\<open>float\<close> that
  \<^verbatim>\<open>size_t n = fminf(a, b)\<close> makes: both are converted exactly, \<^verbatim>\<open>fminf\<close> returns the
  smaller one, and the conversion back gives it. (In binary32 every integer of
  magnitude at most \<open>2 ^ 24\<close> is a \<^verbatim>\<open>float\<close>; larger ones are rounded.)
\<close>

definition exact_counts :: "'f fpu \<Rightarrow> bool" where
  "exact_counts fp \<longleftrightarrow>
     (\<forall>a b :: nat. a \<le> 2 ^ 24 \<longrightarrow> b \<le> 2 ^ 24 \<longrightarrow>
        f_size fp (f_min fp (f_real fp (real a)) (f_real fp (real b))) = min a b)"


subsection \<open>Exact arithmetic\<close>

text \<open>The conversion \<^verbatim>\<open>(int)f\<close> of a number: towards zero.\<close>

definition c_trunc :: "real \<Rightarrow> int" where
  "c_trunc f = (if 0 \<le> f then \<lfloor>f\<rfloor> else \<lceil>f\<rceil>)"

text \<open>The angle of the point \<open>(a, b)\<close> in \<open>(-\<pi>, \<pi>]\<close>, and \<open>0\<close> at the origin.\<close>

definition c_atan2 :: "real \<Rightarrow> real \<Rightarrow> real" where
  "c_atan2 b a =
     (if 0 < a then arctan (b / a)
      else if a < 0 then (if 0 \<le> b then arctan (b / a) + pi else arctan (b / a) - pi)
      else if 0 < b then pi / 2
      else if b < 0 then - pi / 2
      else 0)"

text \<open>
  The arithmetic of the real numbers, without rounding and without infinities, NaN
  or a negative zero; a conversion to an integer type truncates towards zero, and
  the one to \<^verbatim>\<open>int16_t\<close> keeps the low 16 bits. It is not the arithmetic of the
  platform. It serves to evaluate the model on inputs where the \<^verbatim>\<open>float\<close> operations
  of the path taken are exact, or where rounding does not reach a comparison or
  a truncation; there binary32 computes the same values.
\<close>

definition exact_fpu :: "real fpu" where
  "exact_fpu =
     \<lparr> f_real = (\<lambda>r. r), f_add = (+), f_sub = (-), f_mul = (*), f_div = (/),
       f_lt = (<), f_le = (\<le>), f_abs = abs, f_sqrt = sqrt, f_cos = cos, f_sin = sin,
       f_atan2 = c_atan2, f_max = max, f_min = min, f_int = c_trunc,
       f_int16 = (\<lambda>v. word_of_int (c_trunc v)), f_size = (\<lambda>v. nat (c_trunc v)),
       f_div_pi = (\<lambda>a. a / pi),
       f_circle = (\<lambda>i n. 2 * pi * real_of_int i / real_of_int n) \<rparr>"


section \<open>The capture ring buffer (\<^verbatim>\<open>i2s.c\<close>)\<close>

record i2s_config =
  bus_id :: int
  i2s_sample_rate :: int
  channels :: int
  bits_per_sample :: int
  buffer_size :: int

text \<open>
  \<^verbatim>\<open>struct i2s_context\<close>, without the device handle, the thread, the mutex and the
  callback. The mutex serialises the writer's loop and \<^verbatim>\<open>i2s_read_samples\<close>, so each
  of them is one atomic step on this record.
\<close>

record i2s_context =
  i2s_conf :: i2s_config
  i2s_running :: bool
  ring_buffer :: "int16 list"
  ring_buffer_size :: nat
  write_pos :: nat
  read_pos :: nat
  available_samples :: nat

text \<open>What the calls into libc, pthreads and the kernel answer during \<^verbatim>\<open>i2s_init\<close>
  and \<^verbatim>\<open>i2s_start\<close>.\<close>

record i2s_env =
  ctx_alloc_ok :: bool
  mutex_init_ok :: bool
  ring_alloc_ok :: bool
  device_open_ok :: bool
  ioctl_ok :: bool
  thread_create_ok :: bool

text \<open>The conversion of an \<^verbatim>\<open>int\<close> to \<^verbatim>\<open>size_t\<close>, the two counter updates, and the
  conversion \<^verbatim>\<open>(int)samples_to_read\<close> of the return value.\<close>

definition size_of_int :: "int \<Rightarrow> nat" where
  "size_of_int i = nat (i mod 2 ^ 64)"

definition size_dec :: "nat \<Rightarrow> nat" where
  "size_dec a = (if a = 0 then 2 ^ 64 - 1 else a - 1)"

definition size_inc :: "nat \<Rightarrow> nat" where
  "size_inc a = (a + 1) mod 2 ^ 64"

definition int_of_size :: "nat \<Rightarrow> int" where
  "int_of_size n = sint (word_of_nat n :: 32 word)"

text \<open>\<^verbatim>\<open>i2s_init\<close>: the ring has \<^verbatim>\<open>config->buffer_size * 4\<close> samples, zeroed by
  \<^verbatim>\<open>calloc\<close>, as are the three counters.\<close>

definition i2s_init :: "i2s_env \<Rightarrow> i2s_config option \<Rightarrow> int \<times> i2s_context option" where
  "i2s_init env cfg =
     (case cfg of
        None \<Rightarrow> (MICARRAY_ERROR_INVALID_PARAM, None)
      | Some c \<Rightarrow>
          if \<not> ctx_alloc_ok env then (MICARRAY_ERROR_MEMORY, None)
          else if \<not> mutex_init_ok env then (MICARRAY_ERROR_INIT, None)
          else if \<not> ring_alloc_ok env then (MICARRAY_ERROR_MEMORY, None)
          else if \<not> device_open_ok env then (MICARRAY_ERROR_I2S, None)
          else if \<not> ioctl_ok env then (MICARRAY_ERROR_I2S, None)
          else (MICARRAY_SUCCESS,
                Some \<lparr> i2s_conf = c, i2s_running = False,
                       ring_buffer = replicate (size_of_int (buffer_size c * 4)) 0,
                       ring_buffer_size = size_of_int (buffer_size c * 4),
                       write_pos = 0, read_pos = 0, available_samples = 0 \<rparr>))"

definition i2s_start :: "i2s_env \<Rightarrow> i2s_context \<Rightarrow> int \<times> i2s_context" where
  "i2s_start env ctx =
     (if i2s_running ctx then (MICARRAY_SUCCESS, ctx)
      else let ctx' = ctx\<lparr> i2s_running := True, write_pos := 0, read_pos := 0,
                            available_samples := 0 \<rparr>
           in if \<not> thread_create_ok env then (MICARRAY_ERROR_INIT, ctx'\<lparr> i2s_running := False \<rparr>)
              else (MICARRAY_SUCCESS, ctx'))"

text \<open>
  The writer's loop of \<^verbatim>\<open>i2s_read_thread\<close> on one chunk read from the device:
  \<^verbatim>\<open>for (i = 0; i < samples_read && available_samples < ring_buffer_size; i++)\<close>.
  The loop stops at the first sample that finds the ring full; the rest of the chunk
  is not stored. (With a ring of size 0 the body, and its \<^verbatim>\<open>% ring_buffer_size\<close>, is
  never reached.)
\<close>

fun ring_push :: "int16 list \<Rightarrow> i2s_context \<Rightarrow> i2s_context" where
  "ring_push [] ctx = ctx"
| "ring_push (x # xs) ctx =
     (if available_samples ctx < ring_buffer_size ctx
      then ring_push xs
             (ctx\<lparr> ring_buffer := (ring_buffer ctx)[write_pos ctx := x],
                   write_pos := (write_pos ctx + 1) mod ring_buffer_size ctx,
                   available_samples := size_inc (available_samples ctx) \<rparr>)
      else ctx)"

text \<open>The reader's loop of \<^verbatim>\<open>i2s_read_samples\<close>, run \<open>samples_to_read\<close> times; the
  samples stored into the caller's buffer are collected in order.\<close>

fun read_loop :: "nat \<Rightarrow> i2s_context \<Rightarrow> int16 list \<Rightarrow> i2s_context \<times> int16 list" where
  "read_loop 0 ctx buffer = (ctx, buffer)"
| "read_loop (Suc k) ctx buffer =
     read_loop k
       (ctx\<lparr> read_pos := (read_pos ctx + 1) mod ring_buffer_size ctx,
             available_samples := size_dec (available_samples ctx) \<rparr>)
       (buffer @ [ring_buffer ctx ! read_pos ctx])"

text \<open>\<^verbatim>\<open>i2s_read_samples ctx buffer samples\<close>: the status or count returned, the
  samples written to \<^verbatim>\<open>buffer[0..count)\<close>, and the context afterwards. The flag says
  whether \<^verbatim>\<open>buffer\<close> is non-null.\<close>

definition i2s_read_samples ::
  "i2s_context option \<Rightarrow> bool \<Rightarrow> nat \<Rightarrow> int \<times> int16 list \<times> i2s_context option" where
  "i2s_read_samples ctx buffer_given samples =
     (case ctx of
        None \<Rightarrow> (MICARRAY_ERROR_INVALID_PARAM, [], None)
      | Some c \<Rightarrow>
          if \<not> buffer_given then (MICARRAY_ERROR_INVALID_PARAM, [], Some c)
          else let samples_to_read =
                     (if samples < available_samples c then samples else available_samples c);
                   (c', buffer) = read_loop samples_to_read c []
               in (int_of_size samples_to_read, buffer, Some c'))"

definition i2s_get_buffer_level :: "i2s_context option \<Rightarrow> int" where
  "i2s_get_buffer_level ctx =
     (case ctx of None \<Rightarrow> 0 | Some c \<Rightarrow> int_of_size (available_samples c))"

text \<open>A run of the ring is a sequence of the two operations that take the mutex.\<close>

datatype ring_op = Push "int16 list" | Pop nat

fun ring_step :: "i2s_context \<Rightarrow> ring_op \<Rightarrow> i2s_context" where
  "ring_step ctx (Push xs) = ring_push xs ctx"
| "ring_step ctx (Pop n) =
     (case i2s_read_samples (Some ctx) True n of
        (_, _, Some c') \<Rightarrow> c' | (_, _, None) \<Rightarrow> ctx)"

text \<open>
  The representation invariant of the ring, and the queue it represents: the
  \<open>available_samples\<close> cells from \<open>read_pos\<close> on, cyclically.
\<close>

definition ring_inv :: "i2s_context \<Rightarrow> bool" where
  "ring_inv ctx \<longleftrightarrow>
     length (ring_buffer ctx) = ring_buffer_size ctx \<and>
     ring_buffer_size ctx < 2 ^ 31 \<and>
     available_samples ctx \<le> ring_buffer_size ctx \<and>
     read_pos ctx < max 1 (ring_buffer_size ctx) \<and>
     write_pos ctx = (read_pos ctx + available_samples ctx) mod ring_buffer_size ctx"

definition ring_contents :: "i2s_context \<Rightarrow> int16 list" where
  "ring_contents ctx =
     map (\<lambda>i. ring_buffer ctx ! ((read_pos ctx + i) mod ring_buffer_size ctx))
         [0..<available_samples ctx]"

text \<open>A small instance used to exercise the theorems: a ring of four samples.\<close>

definition ring_env_ok :: i2s_env where
  "ring_env_ok = \<lparr> ctx_alloc_ok = True, mutex_init_ok = True, ring_alloc_ok = True,
                   device_open_ok = True, ioctl_ok = True, thread_create_ok = True \<rparr>"

definition ring_cfg1 :: i2s_config where
  "ring_cfg1 = \<lparr> bus_id = 0, i2s_sample_rate = 16000, channels = 1,
                 bits_per_sample = 16, buffer_size = 1 \<rparr>"

definition ring4 :: "bool \<Rightarrow> i2s_context" where
  "ring4 r = \<lparr> i2s_conf = ring_cfg1, i2s_running = r, ring_buffer = [0, 0, 0, 0],
               ring_buffer_size = 4, write_pos = 0, read_pos = 0, available_samples = 0 \<rparr>"

definition ring4_used :: i2s_context where
  "ring4_used = \<lparr> i2s_conf = ring_cfg1, i2s_running = True, ring_buffer = [11, 12, 13, 14],
                  ring_buffer_size = 4, write_pos = 1, read_pos = 2, available_samples = 3 \<rparr>"


section \<open>The mono downmix of the processing loop (\<^verbatim>\<open>libmicarray.c\<close>)\<close>

type_synonym c_int = "32 word"

text \<open>
  One execution of the inner loop's body in \<^verbatim>\<open>processing_thread_func\<close>:
  \<^verbatim>\<open>int32_t sum = processed_buffer[j] + mic_buffers[i][j];\<close>
  \<^verbatim>\<open>processed_buffer[j] = (int16_t)(sum / ctx->config.num_microphones);\<close>
  The two samples are promoted to \<^verbatim>\<open>int\<close>, the division truncates towards zero, and the
  cast keeps the low 16 bits.
\<close>

definition downmix_sample :: "c_int \<Rightarrow> int16 \<Rightarrow> int16 \<Rightarrow> int16" where
  "downmix_sample n_mics acc s =
     (let sum = (scast acc :: c_int) + scast s
      in word_of_int (sint sum sdiv sint n_mics))"

text \<open>The inner loop over \<open>j < buffer_size\<close> for one microphone, and the whole
  downmix: \<^verbatim>\<open>memset\<close> of \<^verbatim>\<open>processed_buffer\<close>, then the loop over the microphones
  \<open>i < num_microphones\<close>. Every lane has \<open>buffer_size\<close> samples and there are
  \<open>num_microphones\<close> lanes, as \<^verbatim>\<open>micarray_init\<close> allocates them.\<close>

definition downmix_lane :: "c_int \<Rightarrow> nat \<Rightarrow> int16 list \<Rightarrow> int16 list \<Rightarrow> int16 list" where
  "downmix_lane n_mics n_samples lane processed_buffer =
     fold (\<lambda>j p. p[j := downmix_sample n_mics (p ! j) (lane ! j)])
          [0..<n_samples] processed_buffer"

definition downmix :: "c_int \<Rightarrow> nat \<Rightarrow> int16 list list \<Rightarrow> int16 list" where
  "downmix n_mics n_samples mic_buffers =
     fold (\<lambda>i p. downmix_lane n_mics n_samples (mic_buffers ! i) p)
          [0..<nat (sint n_mics)] (replicate n_samples 0)"

text \<open>The arithmetic mean of the samples of all lanes at index \<open>j\<close>, with C's
  truncating division: what the specification asks of the downmix.\<close>

definition spec_lane_mean :: "c_int \<Rightarrow> int16 list list \<Rightarrow> nat \<Rightarrow> int" where
  "spec_lane_mean n_mics mic_buffers j =
     (\<Sum>i \<leftarrow> [0..<nat (sint n_mics)]. sint (mic_buffers ! i ! j))
       sdiv sint n_mics"


section \<open>The localizer (\<^verbatim>\<open>localization.c\<close>)\<close>

record 'f sound_location =
  loc_x :: 'f
  loc_y :: 'f
  loc_z :: 'f
  confidence :: 'f

record 'f microphone_position =
  pos_x :: 'f
  pos_y :: 'f
  pos_z :: 'f

text \<open>\<^verbatim>\<open>localization_config_t\<close>; the pointer \<^verbatim>\<open>mic_positions\<close> may be null.\<close>

record 'f localization_config =
  num_microphones :: c_int
  mic_positions :: "'f microphone_position list option"
  mic_spacing :: 'f
  sample_rate :: c_int
  speed_of_sound :: 'f
  correlation_window_size :: c_int
  min_confidence_threshold :: 'f

text \<open>\<^verbatim>\<open>struct localization_context\<close>; the correlation buffers are allocated and
  never used, and are left out.\<close>

record 'f localization_context =
  loc_config :: "'f localization_config"
  ctx_mic_positions :: "'f microphone_position list"
  delay_estimates :: "'f list"
  confidence_values :: "'f list"

definition MAX_DELAY_SAMPLES :: int where "MAX_DELAY_SAMPLES = 1000"
definition DEFAULT_SPEED_OF_SOUND :: "'f fpu \<Rightarrow> 'f" where
  "DEFAULT_SPEED_OF_SOUND fp = f_real fp 343"

text \<open>The four assignments of \<^verbatim>\<open>0.0f\<close> to \<^verbatim>\<open>*location\<close>.\<close>

definition zero_location :: "'f fpu \<Rightarrow> 'f sound_location" where
  "zero_location fp =
     \<lparr> loc_x = f_real fp 0, loc_y = f_real fp 0, loc_z = f_real fp 0,
       confidence = f_real fp 0 \<rparr>"

text \<open>
  \<^verbatim>\<open>cross_correlate(sig1, sig2, len, delay)\<close>. The loop bound
  \<^verbatim>\<open>len - abs(delay)\<close> is computed in \<^verbatim>\<open>size_t\<close> and wraps when \<^verbatim>\<open>abs(delay) > len\<close>;
  the two indices are computed in \<^verbatim>\<open>size_t\<close> and converted to \<^verbatim>\<open>int\<close>; the guard keeps
  the indices inside the signals. A sample is scaled by \<^verbatim>\<open>1 / 32768.0f\<close>.
\<close>

definition cc_bound :: "nat \<Rightarrow> int \<Rightarrow> nat" where
  "cc_bound len delay = nat ((int len - \<bar>delay\<bar>) mod 2 ^ 64)"

definition cc_step ::
  "'f fpu \<Rightarrow> int16 list \<Rightarrow> int16 list \<Rightarrow> nat \<Rightarrow> int \<Rightarrow> nat \<Rightarrow> 'f \<times> 'f \<times> 'f
   \<Rightarrow> 'f \<times> 'f \<times> 'f" where
  "cc_step fp sig1 sig2 len delay i acc =
     (case acc of (correlation, norm1, norm2) \<Rightarrow>
        let idx1 = int_of_size (if 0 \<le> delay then i else nat ((int i - delay) mod 2 ^ 64));
            idx2 = int_of_size (if 0 \<le> delay then nat ((int i + delay) mod 2 ^ 64) else i)
        in if 0 \<le> idx1 \<and> nat idx1 < len \<and> 0 \<le> idx2 \<and> nat idx2 < len
           then let s1 = f_div fp (f_real fp (real_of_int (sint (sig1 ! nat idx1))))
                                   (f_real fp 32768);
                    s2 = f_div fp (f_real fp (real_of_int (sint (sig2 ! nat idx2))))
                                   (f_real fp 32768)
                in (f_add fp correlation (f_mul fp s1 s2), f_add fp norm1 (f_mul fp s1 s1),
                    f_add fp norm2 (f_mul fp s2 s2))
           else acc)"

definition cross_correlate ::
  "'f fpu \<Rightarrow> int16 list \<Rightarrow> int16 list \<Rightarrow> nat \<Rightarrow> int \<Rightarrow> 'f" where
  "cross_correlate fp sig1 sig2 len delay =
     (case fold (cc_step fp sig1 sig2 len delay) [0..<cc_bound len delay]
             (f_real fp 0, f_real fp 0, f_real fp 0) of
        (correlation, norm1, norm2) \<Rightarrow>
          let denominator = f_sqrt fp (f_mul fp norm1 norm2)
          in if f_lt fp (f_real fp 0) denominator then f_div fp correlation denominator
             else f_real fp 0)"

text \<open>\<^verbatim>\<open>estimate_delay\<close>: the delay in \<open>[-max_delay, max_delay]\<close> with the largest
  correlation, the first of them when several are equal; the running maximum
  starts at \<open>-1\<close>, and the delay at \<open>0\<close>.\<close>

definition estimate_delay ::
  "'f fpu \<Rightarrow> int16 list \<Rightarrow> int16 list \<Rightarrow> nat \<Rightarrow> int \<Rightarrow> 'f" where
  "estimate_delay fp ref_signal target_signal samples max_delay =
     snd (fold (\<lambda>delay (max_correlation, best_delay).
                  let correlation = cross_correlate fp ref_signal target_signal samples delay
                  in if f_lt fp max_correlation correlation
                     then (correlation, f_real fp (real_of_int delay))
                     else (max_correlation, best_delay))
               [- max_delay..max_delay] (f_real fp (- 1), f_real fp 0))"

text \<open>The second pass of \<^verbatim>\<open>localization_process\<close> over the same delays, which keeps
  the largest correlation only.\<close>

definition peak_correlation ::
  "'f fpu \<Rightarrow> int16 list \<Rightarrow> int16 list \<Rightarrow> nat \<Rightarrow> int \<Rightarrow> 'f" where
  "peak_correlation fp ref_signal target_signal samples max_delay =
     fold (\<lambda>delay max_correlation.
             let correlation = cross_correlate fp ref_signal target_signal samples delay
             in if f_lt fp max_correlation correlation then correlation else max_correlation)
          [- max_delay..max_delay] (f_real fp (- 1))"

text \<open>The mean of \<^verbatim>\<open>confidence_values[0..num_microphones)\<close>, accumulated from \<open>0\<close>
  in index order and divided by \<^verbatim>\<open>num_microphones\<close>.\<close>

definition mean_confidence :: "'f fpu \<Rightarrow> 'f localization_context \<Rightarrow> 'f" where
  "mean_confidence fp ctx =
     f_div fp
       (fold (\<lambda>i avg. f_add fp avg (confidence_values ctx ! i))
             [0..<nat (sint (num_microphones (loc_config ctx)))] (f_real fp 0))
       (f_real fp (real_of_int (sint (num_microphones (loc_config ctx)))))"

subsection \<open>Trilateration\<close>

text \<open>The rows \<open>A[0..num_equations)\<close> that \<^verbatim>\<open>trilaterate_3d\<close> builds from the
  microphones \<open>1, 2, 3\<close> (as many of them as exist).\<close>

definition equation_row ::
  "'f fpu \<Rightarrow> 'f localization_context \<Rightarrow> 'f list \<Rightarrow> nat \<Rightarrow> 'f list" where
  "equation_row fp ctx delays i =
     (let dx = f_sub fp (pos_x (ctx_mic_positions ctx ! i)) (pos_x (ctx_mic_positions ctx ! 0));
          dy = f_sub fp (pos_y (ctx_mic_positions ctx ! i)) (pos_y (ctx_mic_positions ctx ! 0));
          dz = f_sub fp (pos_z (ctx_mic_positions ctx ! i)) (pos_z (ctx_mic_positions ctx ! 0));
          distance_diff = f_mul fp (delays ! i) (speed_of_sound (loc_config ctx))
      in [f_mul fp (f_real fp 2) dx, f_mul fp (f_real fp 2) dy, f_mul fp (f_real fp 2) dz,
          f_sub fp (f_mul fp distance_diff distance_diff)
                   (f_add fp (f_add fp (f_mul fp dx dx) (f_mul fp dy dy)) (f_mul fp dz dz))])"

definition equations ::
  "'f fpu \<Rightarrow> 'f localization_context \<Rightarrow> 'f list \<Rightarrow> 'f list list" where
  "equations fp ctx delays =
     map (equation_row fp ctx delays)
         (take 3 [1..<nat (sint (num_microphones (loc_config ctx)))])"

text \<open>One round \<open>i\<close> of the elimination on the \<open>3 \<times> 4\<close> matrix: choose the pivot row
  (\<^verbatim>\<open>fabsf(A[j][i]) > fabsf(A[max_row][i])\<close>), swap it into place, give up when
  \<^verbatim>\<open>fabsf(A[i][i]) < 1e-10f\<close>, else clear column \<open>i\<close> below the pivot
  (\<^verbatim>\<open>A[j][k] -= factor * A[i][k]\<close> for \<open>k = i, ..., 3\<close>, a product and a difference).\<close>

definition find_max_row :: "'f fpu \<Rightarrow> 'f list list \<Rightarrow> nat \<Rightarrow> nat" where
  "find_max_row fp A i =
     fold (\<lambda>j max_row. if f_lt fp (f_abs fp (A ! max_row ! i)) (f_abs fp (A ! j ! i))
                        then j else max_row)
          [i + 1..<3] i"

definition swap_rows :: "'f list list \<Rightarrow> nat \<Rightarrow> nat \<Rightarrow> 'f list list" where
  "swap_rows A i max_row =
     (if max_row \<noteq> i then A[i := A ! max_row, max_row := A ! i] else A)"

definition eliminate_below :: "'f fpu \<Rightarrow> 'f list list \<Rightarrow> nat \<Rightarrow> 'f list list" where
  "eliminate_below fp A i =
     fold (\<lambda>j B. let factor = f_div fp (B ! j ! i) (B ! i ! i)
                  in B[j := fold (\<lambda>k row. row[k := f_sub fp (row ! k)
                                                      (f_mul fp factor (B ! i ! k))])
                                 [i..<4] (B ! j)])
          [i + 1..<3] A"

text \<open>The test that makes \<^verbatim>\<open>trilaterate_3d\<close> give up in round \<open>i\<close>, on the matrix
  after the swap.\<close>

definition pivot_too_small :: "'f fpu \<Rightarrow> 'f list list \<Rightarrow> nat \<Rightarrow> bool" where
  "pivot_too_small fp B i \<longleftrightarrow> f_lt fp (f_abs fp (B ! i ! i)) (f_real fp (1 / 10 ^ 10))"

definition pivot_round :: "'f fpu \<Rightarrow> nat \<Rightarrow> 'f list list \<Rightarrow> 'f list list option" where
  "pivot_round fp i A =
     (let B = swap_rows A i (find_max_row fp A i)
      in if pivot_too_small fp B i then None else Some (eliminate_below fp B i))"

definition gauss_eliminate :: "'f fpu \<Rightarrow> 'f list list \<Rightarrow> 'f list list option" where
  "gauss_eliminate fp A =
     (case pivot_round fp 0 A of None \<Rightarrow> None
      | Some A1 \<Rightarrow> (case pivot_round fp 1 A1 of None \<Rightarrow> None
      | Some A2 \<Rightarrow> pivot_round fp 2 A2))"

text \<open>Back substitution, for \<open>i = 2, 1, 0\<close>; every \<open>x[i]\<close> is written before it is
  read.\<close>

definition back_substitute :: "'f fpu \<Rightarrow> 'f list list \<Rightarrow> 'f list" where
  "back_substitute fp A =
     fold (\<lambda>i x. let xi = fold (\<lambda>j v. f_sub fp v (f_mul fp (A ! i ! j) (x ! j)))
                               [i + 1..<3] (A ! i ! 3)
                  in x[i := f_div fp xi (A ! i ! i)])
          [2, 1, 0] [f_real fp 0, f_real fp 0, f_real fp 0]"

definition trilaterate_3d ::
  "'f fpu \<Rightarrow> 'f localization_context \<Rightarrow> 'f list \<Rightarrow> 'f sound_location" where
  "trilaterate_3d fp ctx delays =
     (let A = equations fp ctx delays; num_equations = length A
      in if num_equations < 3 then zero_location fp
         else case gauss_eliminate fp A of
                None \<Rightarrow> zero_location fp
              | Some U \<Rightarrow>
                  let x = back_substitute fp U
                  in \<lparr> loc_x = x ! 0, loc_y = x ! 1, loc_z = x ! 2,
                       confidence = mean_confidence fp ctx \<rparr>)"

subsection \<open>Initialisation and the processing entry point\<close>

text \<open>\<^verbatim>\<open>localization_init\<close>, called with a non-null \<^verbatim>\<open>ctx\<close>; the flag says whether
  every allocation succeeds. The
  arrays of delays and confidences come from \<^verbatim>\<open>malloc\<close>; they are written before
  they are read, and start as zeros here.\<close>

definition default_position ::
  "'f fpu \<Rightarrow> 'f localization_config \<Rightarrow> nat \<Rightarrow> 'f microphone_position" where
  "default_position fp cfg i =
     (let angle = f_circle fp (int i) (sint (num_microphones cfg))
      in \<lparr> pos_x = f_mul fp (mic_spacing cfg) (f_cos fp angle),
           pos_y = f_mul fp (mic_spacing cfg) (f_sin fp angle),
           pos_z = f_real fp 0 \<rparr>)"

definition localization_init ::
  "'f fpu \<Rightarrow> bool \<Rightarrow> 'f localization_config option
   \<Rightarrow> int \<times> 'f localization_context option" where
  "localization_init fp alloc_ok cfg0 =
     (case cfg0 of
        None \<Rightarrow> (MICARRAY_ERROR_INVALID_PARAM, None)
      | Some cfg \<Rightarrow>
          if \<not> alloc_ok then (MICARRAY_ERROR_MEMORY, None)
          else
            let m = nat (sint (num_microphones cfg));
                cfg' = (if f_le fp (speed_of_sound cfg) (f_real fp 0)
                        then cfg\<lparr> speed_of_sound := DEFAULT_SPEED_OF_SOUND fp \<rparr> else cfg)
            in (MICARRAY_SUCCESS,
                Some \<lparr> loc_config = cfg',
                       ctx_mic_positions =
                         (case mic_positions cfg of
                            Some ps \<Rightarrow> take m ps
                          | None \<Rightarrow> map (default_position fp cfg) [0..<m]),
                       delay_estimates = replicate m (f_real fp 0),
                       confidence_values = replicate m (f_real fp 0) \<rparr>))"

text \<open>The loop of \<^verbatim>\<open>localization_process\<close> that fills \<^verbatim>\<open>delay_estimates\<close> and
  \<^verbatim>\<open>confidence_values\<close>: microphone 0 is the reference.\<close>

definition correlate_microphones ::
  "'f fpu \<Rightarrow> 'f localization_context \<Rightarrow> int16 list list \<Rightarrow> nat \<Rightarrow> int
   \<Rightarrow> 'f localization_context" where
  "correlate_microphones fp ctx mic_data samples max_delay =
     fold (\<lambda>i c.
             if i = 0
             then c\<lparr> delay_estimates := (delay_estimates c)[i := f_real fp 0],
                     confidence_values := (confidence_values c)[i := f_real fp 1] \<rparr>
             else c\<lparr> delay_estimates :=
                       (delay_estimates c)
                         [i := estimate_delay fp (mic_data ! 0) (mic_data ! i) samples max_delay],
                     confidence_values :=
                       (confidence_values c)
                         [i := peak_correlation fp (mic_data ! 0) (mic_data ! i) samples
                                 max_delay] \<rparr>)
          [0..<nat (sint (num_microphones (loc_config ctx)))] ctx"

text \<open>
  The two statements that compute \<^verbatim>\<open>max_delay\<close>:
  \<^verbatim>\<open>(int)(mic_spacing * 2.0f / speed_of_sound * sample_rate)\<close>, then
  \<^verbatim>\<open>max_delay = fminf(max_delay, MAX_DELAY_SAMPLES)\<close>, which converts both integers
  to \<^verbatim>\<open>float\<close> and the smaller one back to \<^verbatim>\<open>int\<close>.
\<close>

definition max_delay_of :: "'f fpu \<Rightarrow> 'f localization_config \<Rightarrow> int" where
  "max_delay_of fp cfg =
     (let max_delay = f_int fp (f_mul fp (f_div fp (f_mul fp (mic_spacing cfg) (f_real fp 2))
                                                    (speed_of_sound cfg))
                                         (f_real fp (real_of_int (sint (sample_rate cfg)))))
      in f_int fp (f_min fp (f_real fp (real_of_int max_delay))
                            (f_real fp (real_of_int MAX_DELAY_SAMPLES))))"

text \<open>The loop \<^verbatim>\<open>delay_estimates[i] /= sample_rate\<close> that turns sample delays into
  seconds.\<close>

definition delays_in_seconds :: "'f fpu \<Rightarrow> 'f localization_context \<Rightarrow> 'f localization_context" where
  "delays_in_seconds fp c =
     c\<lparr> delay_estimates :=
          fold (\<lambda>i des. des[i := f_div fp (des ! i)
                                    (f_real fp (real_of_int (sint (sample_rate (loc_config c)))))])
               [0..<nat (sint (num_microphones (loc_config c)))] (delay_estimates c) \<rparr>"

text \<open>
  \<^verbatim>\<open>localization_process(ctx, mic_data, samples, location)\<close>. The arguments are the
  context, the signals, the sample count and the caller's \<^verbatim>\<open>*location\<close> (\<open>None\<close> for
  a null pointer); the result is the status, \<^verbatim>\<open>*location\<close> and the context after the
  call. \<^verbatim>\<open>samples < correlation_window_size\<close> compares in \<^verbatim>\<open>size_t\<close>.
\<close>

definition localization_process ::
  "'f fpu \<Rightarrow> 'f localization_context option \<Rightarrow> int16 list list option \<Rightarrow> nat
   \<Rightarrow> 'f sound_location option
   \<Rightarrow> int \<times> 'f sound_location option \<times> 'f localization_context option" where
  "localization_process fp ctx mic_data samples location =
     (case (ctx, mic_data, location) of
        (Some c, Some d, Some _) \<Rightarrow>
          if samples < size_of_int (sint (correlation_window_size (loc_config c)))
          then (MICARRAY_SUCCESS, Some (zero_location fp), Some c)
          else
            let c1 = correlate_microphones fp c d samples (max_delay_of fp (loc_config c));
                avg_confidence = mean_confidence fp c1
            in if f_lt fp avg_confidence (min_confidence_threshold (loc_config c))
               then (MICARRAY_SUCCESS,
                     Some \<lparr> loc_x = f_real fp 0, loc_y = f_real fp 0, loc_z = f_real fp 0,
                            confidence = avg_confidence \<rparr>,
                     Some c1)
               else
                 let c2 = delays_in_seconds fp c1
                 in (MICARRAY_SUCCESS, Some (trilaterate_3d fp c2 (delay_estimates c2)),
                     Some c2)
      | _ \<Rightarrow> (MICARRAY_ERROR_INVALID_PARAM, location, ctx))"

text \<open>The average confidence that a call computes before its confidence gate, and
  the context that it hands to \<^verbatim>\<open>trilaterate_3d\<close> when the gate is passed.\<close>

definition avg_confidence_of ::
  "'f fpu \<Rightarrow> 'f localization_context \<Rightarrow> int16 list list \<Rightarrow> nat \<Rightarrow> 'f" where
  "avg_confidence_of fp c d samples =
     mean_confidence fp
       (correlate_microphones fp c d samples (max_delay_of fp (loc_config c)))"

definition trilateration_context ::
  "'f fpu \<Rightarrow> 'f localization_context \<Rightarrow> int16 list list \<Rightarrow> nat \<Rightarrow> 'f localization_context" where
  "trilateration_context fp c d samples =
     delays_in_seconds fp
       (correlate_microphones fp c d samples (max_delay_of fp (loc_config c)))"

text \<open>Instances used to exercise the theorems: three microphones on the corners of
  a 10 mm right triangle (the geometry of the repository's position test) at
  8 kHz, so that the largest delay searched is 0 samples.\<close>

definition tri_positions :: "real microphone_position list" where
  "tri_positions =
     [\<lparr> pos_x = 0, pos_y = 0, pos_z = 0 \<rparr>,
      \<lparr> pos_x = 1 / 100, pos_y = 0, pos_z = 0 \<rparr>,
      \<lparr> pos_x = 0, pos_y = 1 / 100, pos_z = 0 \<rparr>]"

definition tri_config :: "real localization_config" where
  "tri_config = \<lparr> num_microphones = 3, mic_positions = Some tri_positions,
                  mic_spacing = 1 / 100, sample_rate = 8000, speed_of_sound = 343,
                  correlation_window_size = 2, min_confidence_threshold = 3 / 10 \<rparr>"

definition tri_ctx :: "real localization_context" where
  "tri_ctx = \<lparr> loc_config = tri_config, ctx_mic_positions = tri_positions,
               delay_estimates = [0, 0, 0], confidence_values = [0, 0, 0] \<rparr>"

definition same_signals :: "int16 list list" where
  "same_signals = [[1, 1], [1, 1], [1, 1]]"

definition opposed_signals :: "int16 list list" where
  "opposed_signals = [[1, 1], [- 1, - 1], [- 1, - 1]]"

text \<open>Four microphones on a line, 10 mm apart.\<close>

definition line_positions :: "real microphone_position list" where
  "line_positions =
     [\<lparr> pos_x = 0, pos_y = 0, pos_z = 0 \<rparr>,
      \<lparr> pos_x = 1 / 100, pos_y = 0, pos_z = 0 \<rparr>,
      \<lparr> pos_x = 2 / 100, pos_y = 0, pos_z = 0 \<rparr>,
      \<lparr> pos_x = 3 / 100, pos_y = 0, pos_z = 0 \<rparr>]"

definition line_config :: "real localization_config" where
  "line_config = tri_config\<lparr> num_microphones := 4, mic_positions := Some line_positions \<rparr>"

definition line_ctx :: "real localization_context" where
  "line_ctx = \<lparr> loc_config = line_config, ctx_mic_positions = line_positions,
                delay_estimates = [0, 0, 0, 0], confidence_values = [0, 0, 0, 0] \<rparr>"

definition line_signals :: "int16 list list" where
  "line_signals = [[1, 1], [1, 1], [1, 1], [1, 1]]"


section \<open>The spatial mixer (\<^verbatim>\<open>audio_output.c\<close>)\<close>

text \<open>\<^verbatim>\<open>struct audio_output_context\<close>: the volume of the configuration, the running
  flag and the interleaved output buffer handed to the sound device.\<close>

record 'f audio_output_context =
  volume :: 'f
  ao_running :: bool
  output_buffer :: "int16 list"

definition EPIPE :: int where "EPIPE = 32"

text \<open>
  What \<^verbatim>\<open>apply_stereo_panning\<close> computes before its loop.
  The pan: \<^verbatim>\<open>atan2f(y, x) / M_PI\<close>, clamped by \<^verbatim>\<open>fmaxf(-1.0f, fminf(1.0f, pan))\<close>.
  The attenuation: \<^verbatim>\<open>1.0f / (1.0f + distance * 0.1f)\<close> for the distance
  \<^verbatim>\<open>sqrtf(x * x + y * y)\<close>, clamped by \<^verbatim>\<open>fmaxf(0.1f, fminf(1.0f, ...))\<close>.
  The gains: \<^verbatim>\<open>(1.0f - pan) * 0.5f + 0.5f\<close> on the left and
  \<^verbatim>\<open>(1.0f + pan) * 0.5f + 0.5f\<close> on the right, each multiplied by
  \<^verbatim>\<open>distance_attenuation * location->confidence\<close>. The volume is not part of them.
\<close>

definition stereo_pan :: "'f fpu \<Rightarrow> 'f sound_location \<Rightarrow> 'f" where
  "stereo_pan fp location =
     (let angle = f_atan2 fp (loc_y location) (loc_x location);
          pan = f_div_pi fp angle
      in f_max fp (f_real fp (- 1)) (f_min fp (f_real fp 1) pan))"

definition stereo_attenuation :: "'f fpu \<Rightarrow> 'f sound_location \<Rightarrow> 'f" where
  "stereo_attenuation fp location =
     (let distance = f_sqrt fp (f_add fp (f_mul fp (loc_x location) (loc_x location))
                                         (f_mul fp (loc_y location) (loc_y location)));
          distance_attenuation =
            f_div fp (f_real fp 1)
                     (f_add fp (f_real fp 1) (f_mul fp distance (f_real fp (1 / 10))))
      in f_max fp (f_real fp (1 / 10)) (f_min fp (f_real fp 1) distance_attenuation))"

definition stereo_gains :: "'f fpu \<Rightarrow> 'f sound_location \<Rightarrow> 'f \<times> 'f" where
  "stereo_gains fp location =
     (let pan = stereo_pan fp location;
          distance_attenuation = stereo_attenuation fp location;
          left_gain = f_add fp (f_mul fp (f_sub fp (f_real fp 1) pan) (f_real fp (1 / 2)))
                               (f_real fp (1 / 2));
          right_gain = f_add fp (f_mul fp (f_add fp (f_real fp 1) pan) (f_real fp (1 / 2)))
                                (f_real fp (1 / 2))
      in (f_mul fp left_gain (f_mul fp distance_attenuation (confidence location)),
          f_mul fp right_gain (f_mul fp distance_attenuation (confidence location))))"

text \<open>\<^verbatim>\<open>apply_stereo_panning\<close>: the contents of \<^verbatim>\<open>left_out\<close> and \<^verbatim>\<open>right_out\<close> after
  the loop \<^verbatim>\<open>left_out[i] = (int16_t)(mono_data[i] * left_gain)\<close>.\<close>

definition apply_stereo_panning ::
  "'f fpu \<Rightarrow> int16 list \<Rightarrow> nat \<Rightarrow> 'f sound_location \<Rightarrow> int16 list \<times> int16 list" where
  "apply_stereo_panning fp mono_data samples location =
     (case stereo_gains fp location of (left_gain, right_gain) \<Rightarrow>
        (map (\<lambda>i. f_int16 fp (f_mul fp (f_real fp (real_of_int (sint (mono_data ! i))))
                                        left_gain)) [0..<samples],
         map (\<lambda>i. f_int16 fp (f_mul fp (f_real fp (real_of_int (sint (mono_data ! i))))
                                        right_gain)) [0..<samples]))"

text \<open>
  \<^verbatim>\<open>audio_output_write_stereo\<close>: the loop
  \<^verbatim>\<open>output_buffer[i * 2] = (int16_t)(left_channel[i] * ctx->config.volume)\<close> (and the
  same for the right channel at \<open>i * 2 + 1\<close>), then the write to the device, whose
  answer is the last argument: a broken pipe is recovered and reported as success.
\<close>

definition write_frames ::
  "'f fpu \<Rightarrow> 'f \<Rightarrow> int16 list \<Rightarrow> int16 list \<Rightarrow> nat \<Rightarrow> int16 list \<Rightarrow> int16 list" where
  "write_frames fp vol left_channel right_channel samples buf =
     fold (\<lambda>i b. b[i * 2 := f_int16 fp (f_mul fp (f_real fp (real_of_int (sint (left_channel ! i))))
                                               vol),
                   i * 2 + 1 := f_int16 fp (f_mul fp (f_real fp (real_of_int (sint (right_channel ! i))))
                                                   vol)])
          [0..<samples] buf"

definition audio_output_write_stereo ::
  "'f fpu \<Rightarrow> 'f audio_output_context option \<Rightarrow> int16 list option \<Rightarrow> int16 list option \<Rightarrow> nat
   \<Rightarrow> int \<Rightarrow> int \<times> 'f audio_output_context option" where
  "audio_output_write_stereo fp ctx left_channel right_channel samples frames_written =
     (case (ctx, left_channel, right_channel) of
        (Some c, Some l, Some r) \<Rightarrow>
          if \<not> ao_running c then (MICARRAY_ERROR_AUDIO_OUTPUT, Some c)
          else
            let c' = c\<lparr> output_buffer := write_frames fp (volume c) l r samples (output_buffer c) \<rparr>
            in if frames_written < 0
               then (if frames_written = - EPIPE then (MICARRAY_SUCCESS, Some c')
                     else (MICARRAY_ERROR_AUDIO_OUTPUT, Some c'))
               else (MICARRAY_SUCCESS, Some c')
      | _ \<Rightarrow> (MICARRAY_ERROR_INVALID_PARAM, ctx))"

text \<open>\<^verbatim>\<open>audio_output_write_localized\<close>; the flag says whether the two temporary
  channels could be allocated.\<close>

definition audio_output_write_localized ::
  "'f fpu \<Rightarrow> 'f audio_output_context option \<Rightarrow> int16 list option \<Rightarrow> nat
   \<Rightarrow> 'f sound_location option \<Rightarrow> bool \<Rightarrow> int \<Rightarrow> int \<times> 'f audio_output_context option" where
  "audio_output_write_localized fp ctx audio_data samples location alloc_ok frames_written =
     (case (ctx, audio_data, location) of
        (Some c, Some d, Some l) \<Rightarrow>
          if \<not> alloc_ok then (MICARRAY_ERROR_MEMORY, Some c)
          else (case apply_stereo_panning fp d samples l of
                  (left_channel, right_channel) \<Rightarrow>
                    audio_output_write_stereo fp (Some c) (Some left_channel)
                      (Some right_channel) samples frames_written)
      | _ \<Rightarrow> (MICARRAY_ERROR_INVALID_PARAM, ctx))"

text \<open>\<^verbatim>\<open>audio_output_set_volume\<close> stores \<^verbatim>\<open>fmaxf(0.0f, fminf(1.0f, volume))\<close>.\<close>

definition audio_output_set_volume ::
  "'f fpu \<Rightarrow> 'f audio_output_context option \<Rightarrow> 'f \<Rightarrow> int \<times> 'f audio_output_context option" where
  "audio_output_set_volume fp ctx v =
     (case ctx of
        None \<Rightarrow> (MICARRAY_ERROR_INVALID_PARAM, None)
      | Some c \<Rightarrow>
          (MICARRAY_SUCCESS,
           Some (c\<lparr> volume := f_max fp (f_real fp 0) (f_min fp (f_real fp 1) v) \<rparr>)))"

text \<open>
  The left and right samples as the specification words them, over the real
  numbers: the mono sample times the gain, the volume included in the gain, the
  product computed at full precision, converted once and clipped to the range of
  \<^verbatim>\<open>int16_t\<close>.
\<close>

definition spec_clip_i16 :: "real \<Rightarrow> int" where
  "spec_clip_i16 v = max (- 32768) (min 32767 (c_trunc v))"

definition spec_stereo_sample :: "int16 \<Rightarrow> real sound_location \<Rightarrow> real \<Rightarrow> int \<times> int" where
  "spec_stereo_sample m location vol =
     (case stereo_gains exact_fpu location of (gl, gr) \<Rightarrow>
        (spec_clip_i16 (real_of_int (sint m) * (gl * vol)),
         spec_clip_i16 (real_of_int (sint m) * (gr * vol))))"

text \<open>An instance: a source at the origin with confidence one half, the volume at
  three quarters, and a device buffer of one frame.\<close>

definition half_location :: "real sound_location" where
  "half_location = \<lparr> loc_x = 0, loc_y = 0, loc_z = 0, confidence = 1 / 2 \<rparr>"

definition mixer_ctx :: "real audio_output_context" where
  "mixer_ctx = \<lparr> volume = 3 / 4, ao_running = True, output_buffer = [0, 0] \<rparr>"

section \<open>The denoiser (\<^verbatim>\<open>noise_reduction.c\<close>)\<close>

record 'f noise_reduction_config =
  algorithm :: string
  noise_threshold :: 'f
  frame_size :: c_int
  overlap :: c_int
  alpha :: 'f
  beta :: 'f
  nr_sample_rate :: c_int

text \<open>
  \<^verbatim>\<open>struct noise_reduction_context\<close>. An \<^verbatim>\<open>fftwf_complex\<close> is a pair of floats, the
  real and the imaginary part. The two FFTW plans are the functions they compute
  when executed: the forward plan reads the first \<open>frame_size\<close> floats of
  \<^verbatim>\<open>fft_input\<close> and writes the bins \<open>0 .. frame_size / 2\<close> of \<^verbatim>\<open>fft_output\<close>, the inverse
  plan reads those bins and writes \<open>frame_size\<close> floats to \<^verbatim>\<open>fft_input\<close>. Only these
  bins of \<^verbatim>\<open>fft_output\<close> are ever read, and \<open>fft_output\<close> holds them. The array
  \<^verbatim>\<open>output_buffer\<close> of the C context is never used and is left out.
\<close>

record 'f noise_reduction_context =
  nr_config :: "'f noise_reduction_config"
  window :: "'f list"
  input_buffer :: "'f list"
  overlap_buffer :: "'f list"
  fft_input :: "'f list"
  fft_output :: "('f \<times> 'f) list"
  forward_plan :: "'f list \<Rightarrow> ('f \<times> 'f) list"
  inverse_plan :: "('f \<times> 'f) list \<Rightarrow> 'f list"
  noise_spectrum :: "'f list"
  magnitude_spectrum :: "'f list"
  phase_spectrum :: "'f list"
  buffer_pos :: int
  noise_profile_ready :: bool

text \<open>The planner of the FFTW library: for a transform size it gives a plan, or
  fails.\<close>

record 'f fftw_library =
  plan_dft_r2c_1d :: "int \<Rightarrow> ('f list \<Rightarrow> ('f \<times> 'f) list) option"
  plan_dft_c2r_1d :: "int \<Rightarrow> (('f \<times> 'f) list \<Rightarrow> 'f list) option"

text \<open>
  The array loop \<^verbatim>\<open>for (i = 0; i < n; i++) a[off + i] = f(i, a[off + i])\<close>, which is
  the shape of every loop over a buffer in this file (\<^verbatim>\<open>memcpy\<close>, \<^verbatim>\<open>memmove\<close> and
  \<^verbatim>\<open>memset\<close> included, with the source read before the loop).
\<close>

definition for_update :: "nat \<Rightarrow> nat \<Rightarrow> (nat \<Rightarrow> 'a \<Rightarrow> 'a) \<Rightarrow> 'a list \<Rightarrow> 'a list" where
  "for_update off n f a = fold (\<lambda>i b. b[off + i := f i (b ! (off + i))]) [0..<n] a"

text \<open>The window coefficient \<^verbatim>\<open>0.5f * (1.0f - cosf(2.0f * PI * i / (size - 1)))\<close>, and
  \<^verbatim>\<open>apply_hanning_window\<close>, which multiplies \<^verbatim>\<open>data[i]\<close> by it.\<close>

definition hann :: "'f fpu \<Rightarrow> int \<Rightarrow> nat \<Rightarrow> 'f" where
  "hann fp sz i =
     f_mul fp (f_real fp (1 / 2))
              (f_sub fp (f_real fp 1) (f_cos fp (f_circle fp (int i) (sz - 1))))"

definition apply_hanning_window :: "'f fpu \<Rightarrow> 'f list \<Rightarrow> int \<Rightarrow> 'f list" where
  "apply_hanning_window fp data sz =
     for_update 0 (nat sz) (\<lambda>i v. f_mul fp v (hann fp sz i)) data"

subsection \<open>Spectral subtraction\<close>

text \<open>
  The gain of one bin when the noise profile is ready:
  \<^verbatim>\<open>snr = magnitude / (noise + 1e-10f)\<close>; the gain is
  \<^verbatim>\<open>1.0f - alpha * (noise / magnitude)\<close> if \<^verbatim>\<open>snr > noise_threshold\<close> and \<^verbatim>\<open>beta\<close>
  otherwise; then \<^verbatim>\<open>gain = fmaxf(gain, beta); gain = fminf(gain, 1.0f)\<close>.
\<close>

definition bin_snr :: "'f fpu \<Rightarrow> 'f \<Rightarrow> 'f \<Rightarrow> 'f" where
  "bin_snr fp noise magnitude = f_div fp magnitude (f_add fp noise (f_real fp (1 / 10 ^ 10)))"

definition bin_gain :: "'f fpu \<Rightarrow> 'f noise_reduction_config \<Rightarrow> 'f \<Rightarrow> 'f \<Rightarrow> 'f" where
  "bin_gain fp cfg noise magnitude =
     (let snr = bin_snr fp noise magnitude;
          gain = (if f_lt fp (noise_threshold cfg) snr
                  then f_sub fp (f_real fp 1)
                                (f_mul fp (alpha cfg) (f_div fp noise magnitude))
                  else beta cfg);
          gain_floored = f_max fp gain (beta cfg)
      in f_min fp gain_floored (f_real fp 1))"

text \<open>The magnitude and the phase that \<^verbatim>\<open>spectral_subtraction\<close> computes of a bin:
  \<^verbatim>\<open>sqrtf(re * re + im * im)\<close> and \<^verbatim>\<open>atan2f(im, re)\<close>.\<close>

definition bin_magnitude :: "'f fpu \<Rightarrow> 'f \<times> 'f \<Rightarrow> 'f" where
  "bin_magnitude fp X = f_sqrt fp (f_add fp (f_mul fp (fst X) (fst X)) (f_mul fp (snd X) (snd X)))"

definition bin_phase :: "'f fpu \<Rightarrow> 'f \<times> 'f \<Rightarrow> 'f" where
  "bin_phase fp X = f_atan2 fp (snd X) (fst X)"

text \<open>The body of the loop of \<^verbatim>\<open>spectral_subtraction\<close> for bin \<open>i\<close>, and the loop
  over the bins \<open>i < size / 2 + 1\<close>.\<close>

definition subtract_bin ::
  "'f fpu \<Rightarrow> nat \<Rightarrow> 'f noise_reduction_context \<Rightarrow> 'f noise_reduction_context" where
  "subtract_bin fp i ctx =
     (let magnitude = bin_magnitude fp (fft_output ctx ! i);
          phase = bin_phase fp (fft_output ctx ! i);
          magnitude' = (if noise_profile_ready ctx
                        then f_mul fp magnitude
                               (bin_gain fp (nr_config ctx) (noise_spectrum ctx ! i) magnitude)
                        else magnitude)
      in ctx\<lparr> magnitude_spectrum := (magnitude_spectrum ctx)[i := magnitude],
              phase_spectrum := (phase_spectrum ctx)[i := phase],
              fft_output := (fft_output ctx)[i := (f_mul fp magnitude' (f_cos fp phase),
                                                   f_mul fp magnitude' (f_sin fp phase))] \<rparr>)"

definition num_bins :: "int \<Rightarrow> nat" where
  "num_bins sz = nat (sz sdiv 2 + 1)"

definition spectral_subtraction ::
  "'f fpu \<Rightarrow> 'f noise_reduction_context \<Rightarrow> int \<Rightarrow> 'f noise_reduction_context" where
  "spectral_subtraction fp ctx sz = fold (subtract_bin fp) [0..<num_bins sz] ctx"

subsection \<open>Initialisation\<close>

text \<open>\<^verbatim>\<open>noise_reduction_init\<close>, called with a non-null \<^verbatim>\<open>ctx\<close>; the flag says whether
  every allocation succeeds. The buffers from \<^verbatim>\<open>calloc\<close> hold \<^verbatim>\<open>0.0f\<close>. Buffers that
  \<^verbatim>\<open>fftwf_alloc_complex\<close> leaves uninitialised start as zeros; they are written
  before they are read.\<close>

definition noise_reduction_init ::
  "'f fpu \<Rightarrow> bool \<Rightarrow> 'f fftw_library \<Rightarrow> 'f noise_reduction_config option
   \<Rightarrow> int \<times> 'f noise_reduction_context option" where
  "noise_reduction_init fp alloc_ok fftw cfg0 =
     (case cfg0 of
        None \<Rightarrow> (MICARRAY_ERROR_INVALID_PARAM, None)
      | Some cfg \<Rightarrow>
          if \<not> alloc_ok then (MICARRAY_ERROR_MEMORY, None)
          else
            (case (plan_dft_r2c_1d fftw (sint (frame_size cfg)),
                   plan_dft_c2r_1d fftw (sint (frame_size cfg))) of
               (Some r2c, Some c2r) \<Rightarrow>
                 (MICARRAY_SUCCESS,
                  Some \<lparr> nr_config = cfg,
                         window = map (hann fp (sint (frame_size cfg)))
                                      [0..<nat (sint (frame_size cfg))],
                         input_buffer = replicate (nat (sint (frame_size cfg))) (f_real fp 0),
                         overlap_buffer = replicate (nat (sint (overlap cfg))) (f_real fp 0),
                         fft_input = replicate (nat (sint (frame_size cfg))) (f_real fp 0),
                         fft_output = replicate (num_bins (sint (frame_size cfg)))
                                        (f_real fp 0, f_real fp 0),
                         forward_plan = r2c,
                         inverse_plan = c2r,
                         noise_spectrum = replicate (num_bins (sint (frame_size cfg)))
                                            (f_real fp 0),
                         magnitude_spectrum = replicate (num_bins (sint (frame_size cfg)))
                                                (f_real fp 0),
                         phase_spectrum = replicate (num_bins (sint (frame_size cfg)))
                                            (f_real fp 0),
                         buffer_pos = 0,
                         noise_profile_ready = False \<rparr>)
             | _ \<Rightarrow> (MICARRAY_ERROR_INIT, None)))"

subsection \<open>Processing\<close>

text \<open>The conversion of an input sample, \<^verbatim>\<open>input[k] / 32768.0f\<close>, and of an output
  sample, \<^verbatim>\<open>(int16_t)(fmaxf(-1.0f, fminf(1.0f, sample)) * 32767.0f)\<close>.\<close>

definition scale_sample :: "'f fpu \<Rightarrow> int16 \<Rightarrow> 'f" where
  "scale_sample fp s = f_div fp (f_real fp (real_of_int (sint s))) (f_real fp 32768)"

definition quantize :: "'f fpu \<Rightarrow> 'f \<Rightarrow> int16" where
  "quantize fp sample =
     f_int16 fp (f_mul fp (f_max fp (f_real fp (- 1)) (f_min fp (f_real fp 1) sample))
                          (f_real fp 32767))"

text \<open>
  What \<^verbatim>\<open>noise_reduction_process\<close> does once the accumulator is full, up to the
  overlap-add: copy the accumulator, window, forward transform, spectral
  subtraction if and only if the algorithm's name is \<^verbatim>\<open>"spectral_subtraction"\<close>,
  inverse transform, division by the frame size, window again, add the saved
  overlap.
\<close>

definition process_frame :: "'f fpu \<Rightarrow> 'f noise_reduction_context \<Rightarrow> 'f noise_reduction_context" where
  "process_frame fp ctx =
     (let F = sint (frame_size (nr_config ctx));
          c1 = ctx\<lparr> fft_input :=
                      for_update 0 (nat F) (\<lambda>i _. input_buffer ctx ! i) (fft_input ctx) \<rparr>;
          c2 = c1\<lparr> fft_input := apply_hanning_window fp (fft_input c1) F \<rparr>;
          c3 = c2\<lparr> fft_output := forward_plan c2 (fft_input c2) \<rparr>;
          c4 = (if algorithm (nr_config c3) = ''spectral_subtraction''
                then spectral_subtraction fp c3 F else c3);
          c5 = c4\<lparr> fft_input := inverse_plan c4 (fft_output c4) \<rparr>;
          c6 = c5\<lparr> fft_input :=
                      for_update 0 (nat F) (\<lambda>i v. f_div fp v (f_real fp (real_of_int F)))
                        (fft_input c5) \<rparr>;
          c7 = c6\<lparr> fft_input := apply_hanning_window fp (fft_input c6) F \<rparr>
      in c7\<lparr> fft_input :=
                for_update 0 (nat (sint (overlap (nr_config ctx))))
                  (\<lambda>i v. f_add fp v (overlap_buffer c7 ! i)) (fft_input c7) \<rparr>)"

text \<open>
  One turn of the \<^verbatim>\<open>while (processed < samples)\<close> loop. The state is the context,
  \<^verbatim>\<open>processed\<close>, and the output array; \<open>in_place\<close> says that \<^verbatim>\<open>input\<close> and \<^verbatim>\<open>output\<close> are
  the same array (as the pipeline driver calls it), so that reads of the input see
  the samples already written. The two counts \<^verbatim>\<open>to_copy\<close> and \<^verbatim>\<open>output_samples\<close> are
  results of \<^verbatim>\<open>fminf\<close>, whose arguments are converted to \<^verbatim>\<open>float\<close> and whose result is
  converted to \<^verbatim>\<open>size_t\<close>.
\<close>

definition process_iteration ::
  "'f fpu \<Rightarrow> int16 list \<Rightarrow> bool \<Rightarrow> nat \<Rightarrow> 'f noise_reduction_context \<times> nat \<times> int16 list
   \<Rightarrow> 'f noise_reduction_context \<times> nat \<times> int16 list" where
  "process_iteration fp input in_place samples st =
     (case st of (ctx, processed, output) \<Rightarrow>
        let F = sint (frame_size (nr_config ctx));
            hop_size = F - sint (overlap (nr_config ctx));
            to_copy = f_size fp (f_min fp (f_real fp (real (samples - processed)))
                                          (f_real fp (real_of_int (F - buffer_pos ctx))));
            src = (if in_place then output else input);
            c1 = ctx\<lparr> input_buffer :=
                        for_update (nat (buffer_pos ctx)) to_copy
                          (\<lambda>i _. scale_sample fp (src ! (processed + i)))
                          (input_buffer ctx),
                      buffer_pos := buffer_pos ctx + int to_copy \<rparr>;
            processed' = processed + to_copy
        in if F \<le> buffer_pos c1
           then
             let c2 = process_frame fp c1;
                 output_samples =
                   f_size fp (f_min fp (f_real fp (real_of_int hop_size))
                                       (f_real fp (real (samples - (processed' - to_copy)))));
                 output' = for_update (processed' - to_copy) output_samples
                             (\<lambda>i _. quantize fp (fft_input c2 ! i)) output;
                 c3 = c2\<lparr> overlap_buffer :=
                             for_update 0 (nat (sint (overlap (nr_config ctx))))
                               (\<lambda>i _. fft_input c2 ! (nat hop_size + i)) (overlap_buffer c2),
                           input_buffer :=
                             for_update 0 (nat (F - hop_size))
                               (\<lambda>i _. input_buffer c2 ! (nat hop_size + i)) (input_buffer c2),
                           buffer_pos := buffer_pos c2 - hop_size \<rparr>
             in (c3, processed', output')
           else (c1, processed', output))"

text \<open>The loop itself. With an overlap that is not smaller than the frame size it
  need not end; \<open>None\<close> is a call that does not return.\<close>

partial_function (option) process_loop ::
  "'f fpu \<Rightarrow> int16 list \<Rightarrow> bool \<Rightarrow> nat \<Rightarrow> 'f noise_reduction_context \<times> nat \<times> int16 list
   \<Rightarrow> ('f noise_reduction_context \<times> nat \<times> int16 list) option" where
  "process_loop fp input in_place samples st =
     (if fst (snd st) < samples
      then process_loop fp input in_place samples
             (process_iteration fp input in_place samples st)
      else Some st)"

text \<open>\<^verbatim>\<open>noise_reduction_process(ctx, input, output, samples)\<close>: the status, the
  output array and the context after the call.\<close>

definition noise_reduction_process ::
  "'f fpu \<Rightarrow> 'f noise_reduction_context option \<Rightarrow> int16 list option \<Rightarrow> int16 list option
   \<Rightarrow> bool \<Rightarrow> nat
   \<Rightarrow> (int \<times> int16 list option \<times> 'f noise_reduction_context option) option" where
  "noise_reduction_process fp ctx input output in_place samples =
     (case (ctx, input, output) of
        (Some c, Some inp, Some out) \<Rightarrow>
          (case process_loop fp inp in_place samples (c, 0, out) of
             None \<Rightarrow> None
           | Some (c', _, out') \<Rightarrow> Some (MICARRAY_SUCCESS, Some out', Some c'))
      | _ \<Rightarrow> Some (MICARRAY_ERROR_INVALID_PARAM, output, ctx))"

subsection \<open>Training the noise profile\<close>

text \<open>One turn of the loop of \<^verbatim>\<open>noise_reduction_update_noise_profile\<close>: load a
  frame, window it, transform it, add the magnitudes of its bins to the noise
  spectrum; then \<^verbatim>\<open>num_frames++\<close> and \<^verbatim>\<open>processed += frame_size / 2\<close>.\<close>

definition profile_iteration ::
  "'f fpu \<Rightarrow> int16 list \<Rightarrow> 'f noise_reduction_context \<times> int \<times> nat
   \<Rightarrow> 'f noise_reduction_context \<times> int \<times> nat" where
  "profile_iteration fp noise_samples st =
     (case st of (ctx, num_frames, processed) \<Rightarrow>
        let F = sint (frame_size (nr_config ctx));
            c1 = ctx\<lparr> fft_input :=
                        for_update 0 (nat F)
                          (\<lambda>i _. scale_sample fp (noise_samples ! (processed + i)))
                          (fft_input ctx) \<rparr>;
            c2 = c1\<lparr> fft_input := apply_hanning_window fp (fft_input c1) F \<rparr>;
            c3 = c2\<lparr> fft_output := forward_plan c2 (fft_input c2) \<rparr>;
            c4 = c3\<lparr> noise_spectrum :=
                       for_update 0 (num_bins F)
                         (\<lambda>i v. f_add fp v (bin_magnitude fp (fft_output c3 ! i)))
                         (noise_spectrum c3) \<rparr>
        in (c4, num_frames + 1, (processed + size_of_int (F sdiv 2)) mod 2 ^ 64))"

text \<open>The loop \<^verbatim>\<open>while (processed + frame_size <= samples)\<close>, the sum computed in
  \<^verbatim>\<open>size_t\<close>. With a frame size of 0 or 1 it does not end.\<close>

partial_function (option) profile_loop ::
  "'f fpu \<Rightarrow> int16 list \<Rightarrow> nat \<Rightarrow> 'f noise_reduction_context \<times> int \<times> nat
   \<Rightarrow> ('f noise_reduction_context \<times> int \<times> nat) option" where
  "profile_loop fp noise_samples samples st =
     (if (snd (snd st) + size_of_int (sint (frame_size (nr_config (fst st))))) mod 2 ^ 64
           \<le> samples
      then profile_loop fp noise_samples samples (profile_iteration fp noise_samples st)
      else Some st)"

text \<open>\<^verbatim>\<open>noise_reduction_update_noise_profile\<close>; the \<^verbatim>\<open>memset\<close> writes \<^verbatim>\<open>0.0f\<close> to every
  bin.\<close>

definition noise_reduction_update_noise_profile ::
  "'f fpu \<Rightarrow> 'f noise_reduction_context option \<Rightarrow> int16 list option \<Rightarrow> nat
   \<Rightarrow> (int \<times> 'f noise_reduction_context option) option" where
  "noise_reduction_update_noise_profile fp ctx noise_samples samples =
     (case (ctx, noise_samples) of
        (Some c, Some d) \<Rightarrow>
          (let F = sint (frame_size (nr_config c));
               c0 = c\<lparr> noise_spectrum :=
                         for_update 0 (num_bins F) (\<lambda>_ _. f_real fp 0) (noise_spectrum c) \<rparr>
           in case profile_loop fp d samples (c0, 0, 0) of
                None \<Rightarrow> None
              | Some (c1, num_frames, _) \<Rightarrow>
                  if 0 < num_frames
                  then Some (MICARRAY_SUCCESS,
                             Some (c1\<lparr> noise_spectrum :=
                                         for_update 0 (num_bins F)
                                           (\<lambda>_ v. f_div fp v (f_real fp (real_of_int num_frames)))
                                           (noise_spectrum c1),
                                       noise_profile_ready := True \<rparr>))
                  else Some (MICARRAY_SUCCESS, Some c1))
      | _ \<Rightarrow> Some (MICARRAY_ERROR_INVALID_PARAM, ctx))"

definition noise_reduction_set_threshold ::
  "'f noise_reduction_context option \<Rightarrow> 'f \<Rightarrow> int \<times> 'f noise_reduction_context option" where
  "noise_reduction_set_threshold ctx threshold =
     (case ctx of
        None \<Rightarrow> (MICARRAY_ERROR_INVALID_PARAM, None)
      | Some c \<Rightarrow>
          (MICARRAY_SUCCESS,
           Some (c\<lparr> nr_config := (nr_config c)\<lparr> noise_threshold := threshold \<rparr> \<rparr>)))"

subsection \<open>Well-formed denoiser states\<close>

text \<open>
  What holds of a context between two calls, once \<^verbatim>\<open>noise_reduction_init\<close> has built it
  for a frame size of at least 2 and an overlap in \<open>[0, frame_size)\<close>, with plans
  whose inverse writes \<open>frame_size\<close> floats: the buffers have the sizes they were
  allocated with, and the accumulator holds fewer samples than a frame. The frame
  size is at most \<open>2 ^ 24\<close>, so that its conversion to \<^verbatim>\<open>float\<close> can be exact.
\<close>

definition nr_inv :: "'f noise_reduction_context \<Rightarrow> bool" where
  "nr_inv c \<longleftrightarrow>
     2 \<le> sint (frame_size (nr_config c)) \<and>
     sint (frame_size (nr_config c)) \<le> 2 ^ 24 \<and>
     0 \<le> sint (overlap (nr_config c)) \<and>
     sint (overlap (nr_config c)) < sint (frame_size (nr_config c)) \<and>
     length (input_buffer c) = nat (sint (frame_size (nr_config c))) \<and>
     length (overlap_buffer c) = nat (sint (overlap (nr_config c))) \<and>
     length (fft_input c) = nat (sint (frame_size (nr_config c))) \<and>
     0 \<le> buffer_pos c \<and> buffer_pos c < sint (frame_size (nr_config c)) \<and>
     (\<forall>X. length (inverse_plan c X) = nat (sint (frame_size (nr_config c))))"

text \<open>
  The frame that a turn of the loop synthesises when the algorithm is not
  \<^verbatim>\<open>"spectral_subtraction"\<close>, written as one expression: \<open>acc\<close> is the accumulator
  once the turn has copied its samples in, \<open>F\<close> the frame size and \<open>ov\<close> the saved
  overlap tail. The accumulator is windowed, transformed forth and back, divided
  by \<open>F\<close> and windowed again; the first \<open>length ov\<close> samples have the saved tail
  added.
\<close>

definition resynthesis ::
  "'f fpu \<Rightarrow> ('f list \<Rightarrow> ('f \<times> 'f) list) \<Rightarrow> (('f \<times> 'f) list \<Rightarrow> 'f list) \<Rightarrow> int \<Rightarrow> 'f list
   \<Rightarrow> 'f list \<Rightarrow> nat \<Rightarrow> 'f" where
  "resynthesis fp r2c c2r F acc ov i =
     (let y = c2r (r2c (map (\<lambda>j. f_mul fp (acc ! j) (hann fp F j)) [0..<nat F]));
          v = f_mul fp (f_div fp (y ! i) (f_real fp (real_of_int F))) (hann fp F i)
      in if i < length ov then f_add fp v (ov ! i) else v)"

subsection \<open>The transforms of FFTW, and small instances\<close>

text \<open>
  The unnormalised real-to-complex and complex-to-real discrete Fourier transforms
  of size \<open>n\<close>, as the FFTW manual defines what the two plans compute, over the real
  numbers. They serve as the library in the instances below.
\<close>

definition dft_r2c :: "nat \<Rightarrow> real list \<Rightarrow> (real \<times> real) list" where
  "dft_r2c n xs =
     map (\<lambda>k. let z = (\<Sum>j < n. of_real (xs ! j) * cis (- (2 * pi * real j * real k / real n)))
              in (Re z, Im z))
         [0..<n div 2 + 1]"

definition dft_c2r :: "nat \<Rightarrow> (real \<times> real) list \<Rightarrow> real list" where
  "dft_c2r n X =
     map (\<lambda>j. \<Sum>k < n. Re ((if 2 * k \<le> n then Complex (fst (X ! k)) (snd (X ! k))
                              else cnj (Complex (fst (X ! (n - k))) (snd (X ! (n - k)))))
                             * cis (2 * pi * real j * real k / real n)))
         [0..<n]"

definition dft_library :: "real fftw_library" where
  "dft_library = \<lparr> plan_dft_r2c_1d = (\<lambda>n. Some (dft_r2c (nat n))),
                   plan_dft_c2r_1d = (\<lambda>n. Some (dft_c2r (nat n))) \<rparr>"

text \<open>The configuration of the pipeline driver (threshold 0.05, \<open>\<alpha> = 2\<close>,
  \<open>\<beta> = 0.1\<close>), with frames of four samples and an overlap of two.\<close>

definition ss_config :: "real noise_reduction_config" where
  "ss_config = \<lparr> algorithm = ''spectral_subtraction'', noise_threshold = 1 / 20,
                 frame_size = 4, overlap = 2, alpha = 2, beta = 1 / 10,
                 nr_sample_rate = 16000 \<rparr>"

definition bypass_config :: "real noise_reduction_config" where
  "bypass_config = ss_config\<lparr> algorithm := ''none'' \<rparr>"

text \<open>A context of four-sample frames whose noise profile has been trained, for a
  given configuration and spectrum.\<close>

definition trained_ctx ::
  "real noise_reduction_config \<Rightarrow> (real \<times> real) list \<Rightarrow> real noise_reduction_context" where
  "trained_ctx cfg X =
     \<lparr> nr_config = cfg, window = map (hann exact_fpu 4) [0..<4], input_buffer = [0, 0, 0, 0],
       overlap_buffer = [0, 0], fft_input = [0, 0, 0, 0], fft_output = X,
       forward_plan = dft_r2c 4, inverse_plan = dft_c2r 4, noise_spectrum = [100, 2, 3],
       magnitude_spectrum = [0, 0, 0], phase_spectrum = [0, 0, 0], buffer_pos = 0,
       noise_profile_ready = True \<rparr>"

definition fresh_ctx :: "real noise_reduction_config \<Rightarrow> real noise_reduction_context" where
  "fresh_ctx cfg =
     (trained_ctx cfg [(0, 0), (0, 0), (0, 0)])
       \<lparr> noise_spectrum := [0, 0, 0], noise_profile_ready := False \<rparr>"

text \<open>The status and the output array of a call of \<^verbatim>\<open>noise_reduction_process\<close> that
  returns.\<close>

definition status_of ::
  "(int \<times> int16 list option \<times> 'f noise_reduction_context option) option \<Rightarrow> int option" where
  "status_of r = map_option fst r"

definition output_of ::
  "(int \<times> int16 list option \<times> 'f noise_reduction_context option) option \<Rightarrow> int16 list" where
  "output_of r = (case r of Some (_, Some out, _) \<Rightarrow> out | _ \<Rightarrow> [])"

section \<open>Verified properties\<close>

subsection \<open>Exact arithmetic\<close>

lemma exact_fpu_simps [simp]:
  "f_real exact_fpu r = r"
  "f_add exact_fpu a b = a + b"
  "f_sub exact_fpu a b = a - b"
  "f_mul exact_fpu a b = a * b"
  "f_div exact_fpu a b = a / b"
  "f_lt exact_fpu a b \<longleftrightarrow> a < b"
  "f_le exact_fpu a b \<longleftrightarrow> a \<le> b"
  "f_abs exact_fpu a = \<bar>a\<bar>"
  "f_sqrt exact_fpu a = sqrt a"
  "f_cos exact_fpu a = cos a"
  "f_sin exact_fpu a = sin a"
  "f_atan2 exact_fpu a b = c_atan2 a b"
  "f_max exact_fpu a b = max a b"
  "f_min exact_fpu a b = min a b"
  "f_int exact_fpu a = c_trunc a"
  "f_int16 exact_fpu a = word_of_int (c_trunc a)"
  "f_size exact_fpu a = nat (c_trunc a)"
  "f_div_pi exact_fpu a = a / pi"
  "f_circle exact_fpu i n = 2 * pi * real_of_int i / real_of_int n"
  by (simp_all add: exact_fpu_def)

lemma c_trunc_of_int [simp]: "c_trunc (real_of_int k) = k"
  by (simp add: c_trunc_def)

lemma c_trunc_of_nat [simp]: "c_trunc (real n) = int n"
  by (simp add: c_trunc_def)

lemma exact_counts_exact: "exact_counts exact_fpu"
  unfolding exact_counts_def
proof (intro allI impI)
  fix a b :: nat
  have "min (real a) (real b) = real (min a b)" by simp
  then show "f_size exact_fpu (f_min exact_fpu (f_real exact_fpu (real a))
               (f_real exact_fpu (real b))) = min a b"
    by (simp del: of_nat_min)
qed


text \<open>Outside the range of \<^verbatim>\<open>int16_t\<close> the conversion of exact arithmetic wraps; it
  does not saturate.\<close>

lemma exact_int16_wraps: "sint (f_int16 exact_fpu 40000) = - 25536"
  by (simp add: c_trunc_def)


lemma size_inc_small: "a < 2 ^ 31 \<Longrightarrow> size_inc a = a + 1"
  by (simp add: size_inc_def)

lemma size_dec_pos: "0 < a \<Longrightarrow> size_dec a = a - 1"
  by (simp add: size_dec_def)

lemma ring_push_size [simp]: "ring_buffer_size (ring_push xs ctx) = ring_buffer_size ctx"
  by (induction xs arbitrary: ctx) auto

lemma ring_push_available:
  "available_samples ctx \<le> ring_buffer_size ctx \<Longrightarrow> ring_buffer_size ctx < 2 ^ 31 \<Longrightarrow>
   available_samples (ring_push xs ctx) =
     min (ring_buffer_size ctx) (available_samples ctx + length xs)"
proof (induction xs arbitrary: ctx)
  case Nil
  then show ?case by simp
next
  case (Cons x xs)
  show ?case
  proof (cases "available_samples ctx < ring_buffer_size ctx")
    case True
    let ?c = "ctx\<lparr> ring_buffer := (ring_buffer ctx)[write_pos ctx := x],
                   write_pos := (write_pos ctx + 1) mod ring_buffer_size ctx,
                   available_samples := size_inc (available_samples ctx) \<rparr>"
    from True Cons.prems have inc: "size_inc (available_samples ctx) = available_samples ctx + 1"
      by (simp add: size_inc_small)
    with True Cons.prems have "available_samples ?c \<le> ring_buffer_size ?c" by simp
    moreover have "ring_buffer_size ?c < 2 ^ 31" using Cons.prems by simp
    ultimately have "available_samples (ring_push xs ?c) =
        min (ring_buffer_size ?c) (available_samples ?c + length xs)"
      by (rule Cons.IH)
    with True inc show ?thesis by simp
  next
    case False
    with Cons.prems show ?thesis by simp
  qed
qed

lemma read_loop_size [simp]:
  "ring_buffer_size (fst (read_loop k ctx buf)) = ring_buffer_size ctx"
  by (induction k arbitrary: ctx buf) auto

lemma read_loop_available:
  "k \<le> available_samples ctx \<Longrightarrow>
   available_samples (fst (read_loop k ctx buf)) = available_samples ctx - k"
proof (induction k arbitrary: ctx buf)
  case 0
  then show ?case by simp
next
  case (Suc k)
  then have "0 < available_samples ctx" by simp
  then have "size_dec (available_samples ctx) = available_samples ctx - 1"
    by (rule size_dec_pos)
  with Suc show ?case by simp
qed

lemma ring_step_size [simp]: "ring_buffer_size (ring_step ctx op) = ring_buffer_size ctx"
proof (cases op)
  case (Push xs)
  then show ?thesis by simp
next
  case (Pop n)
  then show ?thesis
    by (simp add: i2s_read_samples_def Let_def split: prod.splits)
       (metis fst_conv read_loop_size)
qed

lemma ring_step_available:
  assumes "available_samples ctx \<le> ring_buffer_size ctx" "ring_buffer_size ctx < 2 ^ 31"
  shows "available_samples (ring_step ctx op) \<le> ring_buffer_size ctx"
proof (cases op)
  case (Push xs)
  with assms show ?thesis by (simp add: ring_push_available)
next
  case (Pop n)
  have "available_samples (fst (read_loop (min n (available_samples ctx)) ctx [])) =
        available_samples ctx - min n (available_samples ctx)"
    by (rule read_loop_available) simp
  with assms Pop show ?thesis
    by (auto simp: i2s_read_samples_def Let_def min_def split: prod.splits if_splits)
qed

lemma foldl_ring_step_bounds:
  "available_samples ctx \<le> ring_buffer_size ctx \<Longrightarrow> ring_buffer_size ctx < 2 ^ 31 \<Longrightarrow>
   ring_buffer_size (foldl ring_step ctx ops) = ring_buffer_size ctx \<and>
   available_samples (foldl ring_step ctx ops) \<le> ring_buffer_size ctx"
proof (induction ops arbitrary: ctx)
  case Nil
  then show ?case by simp
next
  case (Cons op ops)
  have "available_samples (ring_step ctx op) \<le> ring_buffer_size (ring_step ctx op)"
    using Cons.prems by (simp add: ring_step_available)
  moreover have "ring_buffer_size (ring_step ctx op) < 2 ^ 31" using Cons.prems by simp
  ultimately show ?case using Cons.IH [of "ring_step ctx op"] by simp
qed

lemma foldl_push_available:
  "available_samples ctx \<le> ring_buffer_size ctx \<Longrightarrow> ring_buffer_size ctx < 2 ^ 31 \<Longrightarrow>
   available_samples (foldl ring_step ctx (map Push chunks)) =
     min (ring_buffer_size ctx) (available_samples ctx + sum_list (map length chunks)) \<and>
   ring_buffer_size (foldl ring_step ctx (map Push chunks)) = ring_buffer_size ctx"
proof (induction chunks arbitrary: ctx)
  case Nil
  then show ?case by simp
next
  case (Cons xs chunks)
  let ?c = "ring_push xs ctx"
  have a: "available_samples ?c = min (ring_buffer_size ctx) (available_samples ctx + length xs)"
    using Cons.prems by (rule ring_push_available)
  then have "available_samples ?c \<le> ring_buffer_size ?c" by simp
  moreover have "ring_buffer_size ?c < 2 ^ 31" using Cons.prems by simp
  ultimately have "available_samples (foldl ring_step ?c (map Push chunks)) =
     min (ring_buffer_size ?c) (available_samples ?c + sum_list (map length chunks)) \<and>
   ring_buffer_size (foldl ring_step ?c (map Push chunks)) = ring_buffer_size ?c"
    by (rule Cons.IH)
  with a show ?case by (auto simp: min_def)
qed

lemma mod_add_inj:
  fixes i j n r :: nat
  assumes "i < n" "j < n" "(r + i) mod n = (r + j) mod n"
  shows "i = j"
proof -
  have aux: "a = b" if "a \<le> b" "a < n" "b < n" "(r + a) mod n = (r + b) mod n" for a b
  proof -
    have "(r + b) mod n = (r + a) mod n" using that by simp
    moreover have "r + a \<le> r + b" using that by simp
    ultimately have "n dvd (r + b) - (r + a)" by (simp add: mod_eq_dvd_iff_nat)
    then have "n dvd b - a" by simp
    moreover have "b - a < n" using that by simp
    ultimately have "b - a = 0" using nat_dvd_not_less by blast
    with that show ?thesis by simp
  qed
  show ?thesis
  proof (cases "i \<le> j")
    case True
    with assms show ?thesis using aux [of i j] by simp
  next
    case False
    then have "j \<le> i" by simp
    with assms have "j = i" using aux [of j i] by simp
    then show ?thesis by simp
  qed
qed

lemma ring_push1_contents:
  fixes x :: int16
  assumes inv: "ring_inv ctx" and free: "available_samples ctx < ring_buffer_size ctx"
  defines "c' \<equiv> ctx\<lparr> ring_buffer := (ring_buffer ctx)[write_pos ctx := x],
                   write_pos := (write_pos ctx + 1) mod ring_buffer_size ctx,
                   available_samples := size_inc (available_samples ctx) \<rparr>"
  shows "ring_inv c' \<and> ring_contents c' = ring_contents ctx @ [x]"
proof -
  let ?n = "ring_buffer_size ctx" and ?a = "available_samples ctx" and ?r = "read_pos ctx"
  from inv have len: "length (ring_buffer ctx) = ?n" and small: "?n < 2 ^ 31"
    and rp: "?r < max 1 ?n" and wp: "write_pos ctx = (?r + ?a) mod ?n"
    by (simp_all add: ring_inv_def)
  from free have npos: "0 < ?n" by simp
  from free small have inc: "size_inc ?a = ?a + 1" by (simp add: size_inc_small)
  have wlt: "write_pos ctx < ?n" using wp npos by simp
  have "(write_pos ctx + 1) mod ?n = (?r + (?a + 1)) mod ?n"
    unfolding wp by (simp add: mod_Suc_eq add.assoc [symmetric])
  then have inv': "ring_inv c'"
    using len small rp free inc by (simp add: ring_inv_def c'_def)
  have old: "(ring_buffer ctx)[write_pos ctx := x] ! ((?r + i) mod ?n)
             = ring_buffer ctx ! ((?r + i) mod ?n)" if "i < ?a" for i
  proof -
    have "(?r + i) mod ?n \<noteq> (?r + ?a) mod ?n"
      using mod_add_inj [of i ?n ?a ?r] that free by auto
    then show ?thesis by (simp add: wp)
  qed
  have new: "(ring_buffer ctx)[write_pos ctx := x] ! ((?r + ?a) mod ?n) = x"
    using wlt len by (simp add: wp)
  have "ring_contents c' =
        map (\<lambda>i. (ring_buffer ctx)[write_pos ctx := x] ! ((?r + i) mod ?n)) [0..<?a + 1]"
    by (simp add: ring_contents_def c'_def inc)
  also have "\<dots> = map (\<lambda>i. (ring_buffer ctx)[write_pos ctx := x] ! ((?r + i) mod ?n)) [0..<?a] @ [x]"
    using new by simp
  also have "map (\<lambda>i. (ring_buffer ctx)[write_pos ctx := x] ! ((?r + i) mod ?n)) [0..<?a]
             = ring_contents ctx"
    unfolding ring_contents_def using old by (intro map_cong) auto
  finally show ?thesis using inv' by simp
qed

lemma ring_push_contents:
  "ring_inv ctx \<Longrightarrow>
   ring_inv (ring_push xs ctx) \<and>
   ring_contents (ring_push xs ctx) =
     ring_contents ctx @ take (ring_buffer_size ctx - available_samples ctx) xs"
proof (induction xs arbitrary: ctx)
  case Nil
  then show ?case by simp
next
  case (Cons x xs)
  show ?case
  proof (cases "available_samples ctx < ring_buffer_size ctx")
    case True
    let ?c = "ctx\<lparr> ring_buffer := (ring_buffer ctx)[write_pos ctx := x],
                   write_pos := (write_pos ctx + 1) mod ring_buffer_size ctx,
                   available_samples := size_inc (available_samples ctx) \<rparr>"
    from Cons.prems True have one: "ring_inv ?c \<and> ring_contents ?c = ring_contents ctx @ [x]"
      by (rule ring_push1_contents)
    from Cons.prems True have inc: "size_inc (available_samples ctx) = available_samples ctx + 1"
      by (simp add: size_inc_small ring_inv_def)
    from one have "ring_inv (ring_push xs ?c) \<and>
        ring_contents (ring_push xs ?c) =
        ring_contents ?c @ take (ring_buffer_size ?c - available_samples ?c) xs"
      by (intro Cons.IH) simp
    moreover have "ring_buffer_size ctx - available_samples ctx
                   = Suc (ring_buffer_size ctx - (available_samples ctx + 1))"
      using True by simp
    ultimately show ?thesis using True one inc by simp
  next
    case False
    with Cons.prems show ?thesis by (simp add: ring_inv_def)
  qed
qed

lemma read_loop_contents:
  "ring_inv ctx \<Longrightarrow> k \<le> available_samples ctx \<Longrightarrow>
   ring_inv (fst (read_loop k ctx buf)) \<and>
   snd (read_loop k ctx buf) = buf @ take k (ring_contents ctx) \<and>
   ring_contents (fst (read_loop k ctx buf)) = drop k (ring_contents ctx)"
proof (induction k arbitrary: ctx buf)
  case 0
  then show ?case by simp
next
  case (Suc k)
  let ?n = "ring_buffer_size ctx" and ?a = "available_samples ctx" and ?r = "read_pos ctx"
  let ?c = "ctx\<lparr> read_pos := (?r + 1) mod ?n, available_samples := size_dec ?a \<rparr>"
  from Suc.prems have apos: "0 < ?a" by simp
  then have dec: "size_dec ?a = ?a - 1" by (rule size_dec_pos)
  from Suc.prems have len: "length (ring_buffer ctx) = ?n" and small: "?n < 2 ^ 31"
    and le: "?a \<le> ?n" and rp: "?r < max 1 ?n" and wp: "write_pos ctx = (?r + ?a) mod ?n"
    unfolding ring_inv_def by blast+
  from apos le have npos: "0 < ?n" by simp
  have shift: "((?r + 1) mod ?n + i) mod ?n = (?r + Suc i) mod ?n" for i
    by (simp add: mod_add_left_eq)
  have "((?r + 1) mod ?n + (?a - 1)) mod ?n = (?r + ?a) mod ?n"
    using shift [of "?a - 1"] apos by simp
  then have inv': "ring_inv ?c"
    using len small le npos wp dec by (simp add: ring_inv_def)
  have cont: "ring_contents ctx = ring_buffer ctx ! ?r # ring_contents ?c"
  proof -
    have "[0..<?a] = 0 # map Suc [0..<?a - 1]"
      using apos by (metis Suc_pred' map_Suc_upt upt_conv_Cons)
    then have "ring_contents ctx =
        ring_buffer ctx ! (?r mod ?n) #
        map (\<lambda>i. ring_buffer ctx ! ((?r + Suc i) mod ?n)) [0..<?a - 1]"
      by (simp add: ring_contents_def comp_def)
    moreover have "?r mod ?n = ?r" using rp npos by simp
    ultimately show ?thesis by (simp add: ring_contents_def dec mod_add_left_eq)
  qed
  have "k \<le> available_samples ?c" using Suc.prems dec by simp
  with inv' have "ring_inv (fst (read_loop k ?c (buf @ [ring_buffer ctx ! ?r]))) \<and>
   snd (read_loop k ?c (buf @ [ring_buffer ctx ! ?r])) =
     (buf @ [ring_buffer ctx ! ?r]) @ take k (ring_contents ?c) \<and>
   ring_contents (fst (read_loop k ?c (buf @ [ring_buffer ctx ! ?r]))) = drop k (ring_contents ?c)"
    by (rule Suc.IH)
  then show ?case by (simp add: cont)
qed

lemma ring_contents_length [simp]: "length (ring_contents ctx) = available_samples ctx"
  by (simp add: ring_contents_def)

lemma int_of_size_small: "n < 2 ^ 31 \<Longrightarrow> int_of_size n = int n"
  unfolding int_of_size_def
  by (simp add: signed_of_nat signed_take_bit_int_eq_self)

subsection \<open>The ring buffer never holds more than its capacity\<close>

lemma i2s_init_ring:
  assumes "i2s_init env (Some cfg) = (MICARRAY_SUCCESS, Some c0)"
    and "0 \<le> buffer_size cfg" and "buffer_size cfg < 2 ^ 29"
  shows "ring_buffer_size c0 = 4 * nat (buffer_size cfg) \<and> ring_buffer_size c0 < 2 ^ 31"
proof -
  have "c0 = \<lparr> i2s_conf = cfg, i2s_running = False,
               ring_buffer = replicate (size_of_int (buffer_size cfg * 4)) 0,
               ring_buffer_size = size_of_int (buffer_size cfg * 4),
               write_pos = 0, read_pos = 0, available_samples = 0 \<rparr>"
    using assms(1) by (simp add: i2s_init_def split: if_splits)
  moreover have "buffer_size cfg * 4 mod 2 ^ 64 = buffer_size cfg * 4"
    using assms(2,3) by simp
  ultimately have "ring_buffer_size c0 = nat (buffer_size cfg * 4)"
    by (simp add: size_of_int_def)
  with assms(2,3) show ?thesis by (simp add: nat_mult_distrib)
qed

lemma i2s_start_ring:
  assumes "i2s_start env c0 = (MICARRAY_SUCCESS, c1)" and "\<not> i2s_running c0"
  shows "ring_buffer_size c1 = ring_buffer_size c0 \<and> available_samples c1 = 0"
  using assms
  by (auto simp: i2s_start_def Let_def MICARRAY_SUCCESS_def MICARRAY_ERROR_INIT_def
           split: if_splits)

lemma i2s_init_not_running:
  "i2s_init env cfg = (st, Some c0) \<Longrightarrow> \<not> i2s_running c0"
  by (auto simp: i2s_init_def split: option.splits if_splits)

text \<open>
  C5. Take a context as \<^verbatim>\<open>i2s_init\<close> and \<^verbatim>\<open>i2s_start\<close> leave it, for a buffer size
  \<open>B\<close> whose fourfold fits an \<^verbatim>\<open>int\<close>. Its ring has \<open>4 * B\<close> cells. After any sequence of
  pushes (the writer's loop on a chunk) and pops (\<^verbatim>\<open>i2s_read_samples\<close>), hence after
  every operation of the sequence, \<open>available_samples\<close> is at most the capacity; as
  the counter is unsigned and its decrement is modelled with C's wrap-around, this
  also says that it never goes below zero. When chunks of \<open>10 * capacity\<close> samples in
  total are pushed and nothing is popped, \<open>available_samples\<close> is exactly the capacity,
  so that the samples pushed and not stored (the code keeps no counter of them) are
  \<open>9 * capacity\<close>.
\<close>

theorem ring_available_bounded:
  assumes init: "i2s_init env (Some cfg) = (MICARRAY_SUCCESS, Some c0)"
    and start: "i2s_start env c0 = (MICARRAY_SUCCESS, c1)"
    and lo: "0 \<le> buffer_size cfg" and hi: "buffer_size cfg < 2 ^ 29"
  shows "ring_buffer_size c1 = 4 * nat (buffer_size cfg) \<and>
         available_samples (foldl ring_step c1 ops) \<le> ring_buffer_size c1 \<and>
         (sum_list (map length chunks) = 10 * ring_buffer_size c1 \<longrightarrow>
            available_samples (foldl ring_step c1 (map Push chunks)) = ring_buffer_size c1 \<and>
            sum_list (map length chunks)
              - available_samples (foldl ring_step c1 (map Push chunks))
              = 9 * ring_buffer_size c1)"
proof -
  from init lo hi have c0: "ring_buffer_size c0 = 4 * nat (buffer_size cfg)"
    and small0: "ring_buffer_size c0 < 2 ^ 31"
    using i2s_init_ring by blast+
  from init have "\<not> i2s_running c0" by (rule i2s_init_not_running)
  with start have c1: "ring_buffer_size c1 = ring_buffer_size c0" and empty: "available_samples c1 = 0"
    using i2s_start_ring by blast+
  from c1 small0 have small: "ring_buffer_size c1 < 2 ^ 31" by simp
  from empty have le: "available_samples c1 \<le> ring_buffer_size c1" by simp
  have bounded: "available_samples (foldl ring_step c1 ops) \<le> ring_buffer_size c1"
    using foldl_ring_step_bounds [OF le small] by simp
  have "available_samples (foldl ring_step c1 (map Push chunks)) =
          min (ring_buffer_size c1) (available_samples c1 + sum_list (map length chunks))"
    using foldl_push_available [OF le small] by simp
  then have full: "sum_list (map length chunks) = 10 * ring_buffer_size c1 \<Longrightarrow>
      available_samples (foldl ring_step c1 (map Push chunks)) = ring_buffer_size c1"
    using empty by simp
  from c0 c1 bounded full show ?thesis by simp
qed

lemma ring4_init: "i2s_init ring_env_ok (Some ring_cfg1) = (MICARRAY_SUCCESS, Some (ring4 False))"
  by (simp add: i2s_init_def ring_env_ok_def ring_cfg1_def ring4_def size_of_int_def
                numeral_eq_Suc)

lemma ring4_start: "i2s_start ring_env_ok (ring4 False) = (MICARRAY_SUCCESS, ring4 True)"
  by (simp add: i2s_start_def ring_env_ok_def ring4_def)

theorem ring_available_bounded_witness:
  "i2s_init ring_env_ok (Some ring_cfg1) = (MICARRAY_SUCCESS, Some (ring4 False)) \<and>
   i2s_start ring_env_ok (ring4 False) = (MICARRAY_SUCCESS, ring4 True) \<and>
   0 \<le> buffer_size ring_cfg1 \<and> buffer_size ring_cfg1 < 2 ^ 29 \<and>
   sum_list (map length [replicate 40 (7 :: int16)]) = 10 * ring_buffer_size (ring4 True) \<and>
   ring_buffer_size (ring4 True) = 4 \<and>
   available_samples (foldl ring_step (ring4 True) [Push [1, 2, 3], Pop 2, Push [4, 5, 6, 7]]) \<le> 4 \<and>
   available_samples (foldl ring_step (ring4 True) (map Push [replicate 40 7])) = 4 \<and>
   sum_list (map length [replicate 40 (7 :: int16)])
     - available_samples (foldl ring_step (ring4 True) (map Push [replicate 40 7])) = 36"
proof -
  have lo: "0 \<le> buffer_size ring_cfg1" and hi: "buffer_size ring_cfg1 < 2 ^ 29"
    by (simp_all add: ring_cfg1_def)
  have total: "sum_list (map length [replicate 40 (7 :: int16)]) = 10 * ring_buffer_size (ring4 True)"
    by (simp add: ring4_def)
  have size: "ring_buffer_size (ring4 True) = 4"
    by (simp add: ring4_def)
  from ring_available_bounded [OF ring4_init ring4_start lo hi,
        of "[Push [1, 2, 3], Pop 2, Push [4, 5, 6, 7]]" "[replicate 40 7]"]
  show ?thesis
    using ring4_init ring4_start lo hi total size by simp
qed

subsection \<open>Reading returns the oldest samples first\<close>

lemma ring_inv_start:
  assumes "i2s_init env (Some cfg) = (MICARRAY_SUCCESS, Some c0)"
    and "i2s_start env c0 = (MICARRAY_SUCCESS, c1)"
    and "0 \<le> buffer_size cfg" and "buffer_size cfg < 2 ^ 29"
  shows "ring_inv c1 \<and> ring_contents c1 = []"
proof -
  have c0: "c0 = \<lparr> i2s_conf = cfg, i2s_running = False,
               ring_buffer = replicate (size_of_int (buffer_size cfg * 4)) 0,
               ring_buffer_size = size_of_int (buffer_size cfg * 4),
               write_pos = 0, read_pos = 0, available_samples = 0 \<rparr>"
    using assms(1) by (simp add: i2s_init_def split: if_splits)
  have small: "ring_buffer_size c0 < 2 ^ 31"
    using i2s_init_ring [OF assms(1,3,4)] by simp
  have "c1 = c0\<lparr> i2s_running := True \<rparr>"
    using assms(2) c0
    by (auto simp: i2s_start_def Let_def MICARRAY_SUCCESS_def MICARRAY_ERROR_INIT_def
             split: if_splits)
  with c0 small show ?thesis by (simp add: ring_inv_def ring_contents_def)
qed

lemma ring_step_inv: "ring_inv ctx \<Longrightarrow> ring_inv (ring_step ctx op)"
proof (cases op)
  case (Push xs)
  assume "ring_inv ctx"
  with Push show ?thesis by (simp add: ring_push_contents)
next
  case (Pop n)
  assume inv: "ring_inv ctx"
  have "ring_inv (fst (read_loop (min n (available_samples ctx)) ctx []))"
    using read_loop_contents [OF inv, of "min n (available_samples ctx)" "[]"] by simp
  with Pop show ?thesis
    by (auto simp: i2s_read_samples_def Let_def min_def split: prod.splits if_splits)
qed

text \<open>
  C8. In a context that satisfies the ring's invariant (as every context reached from
  \<^verbatim>\<open>i2s_init\<close> and \<^verbatim>\<open>i2s_start\<close> by pushes and pops does), \<^verbatim>\<open>i2s_read_samples\<close> asked for
  \<open>n\<close> samples returns the count \<open>min n available_samples\<close> and stores that many
  samples: the first \<open>n\<close> of the queue the ring represents. The queue afterwards is
  the rest, \<open>available_samples\<close> has decreased by the count returned, and the
  invariant still holds. The queue is in the order of the pushes: pushing a chunk
  appends to it as much of the chunk as there is room for.
\<close>

theorem i2s_read_samples_fifo:
  assumes inv: "ring_inv ctx"
    and rd: "i2s_read_samples (Some ctx) True n = (ret, out, res)"
  shows "ret = int (min n (available_samples ctx)) \<and>
         length out = min n (available_samples ctx) \<and>
         out = take n (ring_contents ctx) \<and>
         (\<exists>c'. res = Some c' \<and> ring_inv c' \<and>
               available_samples c' = available_samples ctx - min n (available_samples ctx) \<and>
               ring_contents c' = drop n (ring_contents ctx)) \<and>
         ring_contents (ring_push xs ctx) =
           ring_contents ctx @ take (ring_buffer_size ctx - available_samples ctx) xs"
proof -
  let ?k = "min n (available_samples ctx)"
  have k: "(if n < available_samples ctx then n else available_samples ctx) = ?k"
    by (simp add: min_def)
  from rd have ret: "ret = int_of_size ?k" and out: "out = snd (read_loop ?k ctx [])"
    and res: "res = Some (fst (read_loop ?k ctx []))"
    by (simp_all add: i2s_read_samples_def Let_def k split: prod.splits)
  have "?k \<le> available_samples ctx" by simp
  with inv have loop: "ring_inv (fst (read_loop ?k ctx [])) \<and>
      snd (read_loop ?k ctx []) = [] @ take ?k (ring_contents ctx) \<and>
      ring_contents (fst (read_loop ?k ctx [])) = drop ?k (ring_contents ctx)"
    by (rule read_loop_contents)
  have tk: "take ?k (ring_contents ctx) = take n (ring_contents ctx)"
    by (simp add: min_def)
  have dk: "drop ?k (ring_contents ctx) = drop n (ring_contents ctx)"
    by (simp add: min_def)
  from inv have "?k < 2 ^ 31" by (simp add: ring_inv_def min_def)
  then have "int_of_size ?k = int ?k" by (rule int_of_size_small)
  with ret have 1: "ret = int ?k" by simp
  from out loop tk have 3: "out = take n (ring_contents ctx)" by simp
  then have 2: "length out = ?k" by (simp add: min.commute)
  have "available_samples (fst (read_loop ?k ctx [])) = available_samples ctx - ?k"
    by (rule read_loop_available) simp
  with res loop dk have 4: "\<exists>c'. res = Some c' \<and> ring_inv c' \<and>
               available_samples c' = available_samples ctx - ?k \<and>
               ring_contents c' = drop n (ring_contents ctx)"
    by simp
  from inv have 5: "ring_contents (ring_push xs ctx) =
           ring_contents ctx @ take (ring_buffer_size ctx - available_samples ctx) xs"
    by (simp add: ring_push_contents)
  from 1 2 3 4 5 show ?thesis by blast
qed

lemma ring4_used_inv: "ring_inv ring4_used"
  by (simp add: ring_inv_def ring4_used_def)

lemma ring4_used_read:
  "i2s_read_samples (Some ring4_used) True 2 =
     (2, [13, 14], Some (ring4_used\<lparr> read_pos := 0, available_samples := 1 \<rparr>))"
  by (simp add: i2s_read_samples_def ring4_used_def numeral_2_eq_2 size_dec_def
                int_of_size_def)

theorem i2s_read_samples_fifo_witness:
  "ring_inv ring4_used \<and>
   i2s_read_samples (Some ring4_used) True 2 =
     (2, [13, 14], Some (ring4_used\<lparr> read_pos := 0, available_samples := 1 \<rparr>)) \<and>
   ring_contents ring4_used = [13, 14, 11] \<and>
   ring_contents (ring4_used\<lparr> read_pos := 0, available_samples := 1 \<rparr>) = [11] \<and>
   ring_contents (ring_push [21, 22] ring4_used) = [13, 14, 11, 21]"
proof -
  have c: "ring_contents ring4_used = [13, 14, 11]"
    by (simp add: ring_contents_def ring4_used_def upt_rec)
  from i2s_read_samples_fifo [OF ring4_used_inv ring4_used_read, of "[21, 22]"]
  show ?thesis
    using ring4_used_inv ring4_used_read c by (auto simp: ring4_used_def)
qed


subsection \<open>The downmix is not the mean of the channels\<close>

text \<open>
  C1. The specification asks that the mono buffer be the arithmetic mean of the
  lanes. The loop divides the running value by the number of microphones after
  every lane instead of once after the last: with two lanes that both hold 100, it
  stores \<open>(0 + 100) / 2 = 50\<close> and then \<open>(50 + 100) / 2 = 75\<close>, where the mean is 100.
\<close>

theorem downmix_two_lanes:
  "downmix 2 1 [[100], [100]] = [75] \<and> spec_lane_mean 2 [[100], [100]] 0 = 100"
  by (simp add: downmix_def downmix_lane_def downmix_sample_def spec_lane_mean_def
                numeral_2_eq_2 signed_divide_int_def)


subsection \<open>Evaluating the localizer on small inputs\<close>

lemma tri_init:
  "localization_init exact_fpu True (Some tri_config) = (MICARRAY_SUCCESS, Some tri_ctx)"
  by (simp add: localization_init_def tri_config_def tri_ctx_def tri_positions_def
                numeral_3_eq_3)

lemma tri_loc_config: "loc_config tri_ctx = tri_config"
  by (simp add: tri_ctx_def)

lemma max_delay_tri: "max_delay_of exact_fpu tri_config = 0"
  by (simp add: max_delay_of_def tri_config_def MAX_DELAY_SAMPLES_def)
     (simp add: c_trunc_def)

lemma sqrt_two_samples: "sqrt (1 / 288230376151711744) = 1 / 536870912"
  by (rule real_sqrt_unique) (simp_all add: power2_eq_square)

lemma cc_same: "cross_correlate exact_fpu [1, 1] [1, 1] 2 0 = 1"
  by (simp add: cross_correlate_def cc_bound_def cc_step_def int_of_size_def upt_rec
                numeral_2_eq_2 sqrt_two_samples)

lemma cc_opposed: "cross_correlate exact_fpu [1, 1] [- 1, - 1] 2 0 = - 1"
  by (simp add: cross_correlate_def cc_bound_def cc_step_def int_of_size_def upt_rec
                numeral_2_eq_2 sqrt_two_samples)

lemma correlate_same:
  "correlate_microphones exact_fpu tri_ctx same_signals 2 0 =
     tri_ctx\<lparr> delay_estimates := [0, 0, 0], confidence_values := [1, 1, 1] \<rparr>"
  by (simp add: correlate_microphones_def tri_ctx_def tri_config_def same_signals_def
                estimate_delay_def peak_correlation_def cc_same upt_rec numeral_3_eq_3)

lemma correlate_opposed:
  "correlate_microphones exact_fpu tri_ctx opposed_signals 2 0 =
     tri_ctx\<lparr> delay_estimates := [0, 0, 0], confidence_values := [1, - 1, - 1] \<rparr>"
  by (simp add: correlate_microphones_def tri_ctx_def tri_config_def opposed_signals_def
                estimate_delay_def peak_correlation_def cc_opposed upt_rec numeral_3_eq_3)

lemma avg_same: "avg_confidence_of exact_fpu tri_ctx same_signals 2 = 1"
  by (simp add: avg_confidence_of_def tri_loc_config max_delay_tri correlate_same
                mean_confidence_def)
     (simp add: tri_ctx_def tri_config_def upt_rec numeral_3_eq_3)

lemma avg_opposed: "avg_confidence_of exact_fpu tri_ctx opposed_signals 2 = - 1 / 3"
  by (simp add: avg_confidence_of_def tri_loc_config max_delay_tri correlate_opposed
                mean_confidence_def)
     (simp add: tri_ctx_def tri_config_def upt_rec numeral_3_eq_3)

lemma tri_window: "size_of_int (sint (correlation_window_size tri_config)) = 2"
  by (simp add: tri_config_def size_of_int_def)

lemma line_ctx_config: "loc_config line_ctx = line_config"
  by (simp add: line_ctx_def)

lemma max_delay_line: "max_delay_of exact_fpu line_config = 0"
  by (simp add: max_delay_of_def line_config_def tri_config_def MAX_DELAY_SAMPLES_def)
     (simp add: c_trunc_def)

lemma correlate_line:
  "correlate_microphones exact_fpu line_ctx line_signals 2 0 =
     line_ctx\<lparr> delay_estimates := [0, 0, 0, 0], confidence_values := [1, 1, 1, 1] \<rparr>"
  by (simp add: correlate_microphones_def line_ctx_def line_config_def tri_config_def
                line_signals_def estimate_delay_def peak_correlation_def cc_same upt_rec)

lemma trilateration_line:
  "trilateration_context exact_fpu line_ctx line_signals 2 =
     line_ctx\<lparr> delay_estimates := [0, 0, 0, 0], confidence_values := [1, 1, 1, 1] \<rparr>"
  by (simp add: trilateration_context_def line_ctx_config max_delay_line correlate_line
                delays_in_seconds_def)
     (simp add: line_ctx_def line_config_def tri_config_def upt_rec)

lemma equations_line:
  "equations exact_fpu (line_ctx\<lparr> delay_estimates := [0, 0, 0, 0], confidence_values := [1, 1, 1, 1] \<rparr>)
     [0, 0, 0, 0] =
   [[1 / 50, 0, 0, - (1 / 10000)], [1 / 25, 0, 0, - (1 / 2500)], [3 / 50, 0, 0, - (9 / 10000)]]"
  by (simp add: equations_def equation_row_def line_ctx_def line_config_def tri_config_def
                line_positions_def upt_rec)

lemma gauss_line:
  "gauss_eliminate exact_fpu
     [[1 / 50, 0, 0, - (1 / 10000)], [1 / 25, 0, 0, - (1 / 2500)], [3 / 50, 0, 0, - (9 / 10000)]]
   = None"
  by (simp add: gauss_eliminate_def pivot_round_def pivot_too_small_def find_max_row_def
                swap_rows_def eliminate_below_def upt_rec)

lemma avg_line: "avg_confidence_of exact_fpu line_ctx line_signals 2 = 1"
  by (simp add: avg_confidence_of_def line_ctx_config max_delay_line correlate_line
                mean_confidence_def)
     (simp add: line_ctx_def line_config_def tri_config_def upt_rec)

lemma line_init:
  "localization_init exact_fpu True (Some line_config) = (MICARRAY_SUCCESS, Some line_ctx)"
  by (simp add: localization_init_def line_config_def tri_config_def line_ctx_def
                line_positions_def numeral_eq_Suc)

lemma line_window: "size_of_int (sint (correlation_window_size line_config)) = 2"
  by (simp add: line_config_def tri_config_def size_of_int_def)

lemma few_equations:
  "sint (num_microphones (loc_config c)) < 4 \<Longrightarrow> length (equations fp c ds) < 3"
  by (simp add: equations_def)

lemma fold_loc_config:
  fixes f :: "nat \<Rightarrow> 'f localization_context \<Rightarrow> 'f localization_context"
  assumes "\<And>i c'. loc_config (f i c') = loc_config c'"
  shows "loc_config (fold f xs c0) = loc_config c0"
  using assms by (induction xs arbitrary: c0) simp_all

lemma trilateration_context_config:
  "loc_config (trilateration_context fp c d samples) = loc_config c"
proof -
  have "loc_config (correlate_microphones fp c d samples (max_delay_of fp (loc_config c)))
        = loc_config c"
    unfolding correlate_microphones_def by (rule fold_loc_config) simp
  then show ?thesis by (simp add: trilateration_context_def delays_in_seconds_def)
qed

lemma trilaterate_few_microphones:
  "sint (num_microphones (loc_config c)) < 4 \<Longrightarrow> trilaterate_3d fp c ds = zero_location fp"
  using few_equations [of c fp ds] by (simp add: trilaterate_3d_def)

lemma process_past_gate:
  assumes "\<not> samples < size_of_int (sint (correlation_window_size (loc_config c)))"
    and "\<not> f_lt fp (avg_confidence_of fp c d samples) (min_confidence_threshold (loc_config c))"
  shows "localization_process fp (Some c) (Some d) samples (Some l) =
           (MICARRAY_SUCCESS,
            Some (trilaterate_3d fp (trilateration_context fp c d samples)
                    (delay_estimates (trilateration_context fp c d samples))),
            Some (trilateration_context fp c d samples))"
  using assms
  by (simp add: localization_process_def Let_def avg_confidence_of_def
                trilateration_context_def)

subsection \<open>Short input\<close>

text \<open>
  C9. A call of \<^verbatim>\<open>localization_process\<close> with non-null arguments and fewer samples
  than \<^verbatim>\<open>correlation_window_size\<close> returns \<^verbatim>\<open>MICARRAY_SUCCESS\<close> and writes the location
  \<open>{0, 0, 0}\<close> with confidence 0 (four assignments of \<^verbatim>\<open>0.0f\<close>), in every arithmetic.
  The context is returned as it was: no delay and no confidence has been computed
  and stored, and the position comes from no trilateration.
\<close>

theorem localization_process_short_input:
  assumes "int samples < sint (correlation_window_size (loc_config c))"
  shows "localization_process fp (Some c) (Some d) samples (Some l) =
           (MICARRAY_SUCCESS,
            Some \<lparr> loc_x = f_real fp 0, loc_y = f_real fp 0, loc_z = f_real fp 0,
                   confidence = f_real fp 0 \<rparr>, Some c)"
proof -
  let ?w = "sint (correlation_window_size (loc_config c))"
  have "?w < 2 ^ 31" using sint_lt [of "correlation_window_size (loc_config c)"] by simp
  moreover from assms have "0 \<le> ?w" by simp
  ultimately have "?w mod 2 ^ 64 = ?w" by simp
  with assms have "samples < size_of_int ?w" by (simp add: size_of_int_def)
  then show ?thesis by (simp add: localization_process_def zero_location_def)
qed

theorem localization_process_short_input_witness:
  "int (1 :: nat) < sint (correlation_window_size (loc_config tri_ctx)) \<and>
   localization_process exact_fpu (Some tri_ctx) (Some [[5], [6], [7]]) 1
       (Some \<lparr> loc_x = 1, loc_y = 2, loc_z = 3, confidence = 1 / 2 \<rparr>) =
     (MICARRAY_SUCCESS,
      Some \<lparr> loc_x = 0, loc_y = 0, loc_z = 0, confidence = 0 \<rparr>, Some tri_ctx)"
proof -
  have h: "int (1 :: nat) < sint (correlation_window_size (loc_config tri_ctx))"
    by (simp add: tri_ctx_def tri_config_def)
  from localization_process_short_input [OF h, of exact_fpu] h show ?thesis by simp
qed

subsection \<open>Degenerate trilateration\<close>

text \<open>
  C2, as the specification has it: when the confidence gate is passed and the
  trilateration is degenerate, the location is the origin and its confidence is
  the average confidence. The code writes confidence 0 there. Three microphones
  that all hear the signal \<open>1, 1\<close> (at 8 kHz, 10 mm apart, so that delay 0 is the only
  one searched): every correlation is 1, the average confidence 1 passes the gate
  of 0.3, there are two equations only, and the location written is \<open>{0, 0, 0}\<close>
  with confidence 0, not 1. Every value on this path is a power of two or a small
  integer, and exact in binary32.
\<close>

theorem degenerate_confidence_counterexample:
  "localization_init exact_fpu True (Some tri_config) = (MICARRAY_SUCCESS, Some tri_ctx) \<and>
   avg_confidence_of exact_fpu tri_ctx same_signals 2 = 1 \<and>
   \<not> f_lt exact_fpu (avg_confidence_of exact_fpu tri_ctx same_signals 2)
         (min_confidence_threshold (loc_config tri_ctx)) \<and>
   sint (num_microphones (loc_config tri_ctx)) < 4 \<and>
   fst (snd (localization_process exact_fpu (Some tri_ctx) (Some same_signals) 2
               (Some (zero_location exact_fpu))))
     = Some \<lparr> loc_x = 0, loc_y = 0, loc_z = 0, confidence = 0 \<rparr> \<and>
   confidence (the (fst (snd (localization_process exact_fpu
                  (Some tri_ctx) (Some same_signals) 2 (Some (zero_location exact_fpu))))))
     \<noteq> avg_confidence_of exact_fpu tri_ctx same_signals 2"
proof -
  have gate: "\<not> f_lt exact_fpu (avg_confidence_of exact_fpu tri_ctx same_signals 2)
                   (min_confidence_threshold (loc_config tri_ctx))"
    by (simp add: avg_same tri_loc_config) (simp add: tri_config_def)
  have m: "sint (num_microphones (loc_config tri_ctx)) < 4"
    by (simp add: tri_loc_config) (simp add: tri_config_def)
  have long: "\<not> 2 < size_of_int (sint (correlation_window_size (loc_config tri_ctx)))"
    by (simp add: tri_loc_config tri_window)
  have "trilaterate_3d exact_fpu (trilateration_context exact_fpu tri_ctx same_signals 2)
          (delay_estimates (trilateration_context exact_fpu tri_ctx same_signals 2))
        = zero_location exact_fpu"
    using m by (intro trilaterate_few_microphones) (simp add: trilateration_context_config)
  then have "fst (snd (localization_process exact_fpu (Some tri_ctx) (Some same_signals) 2
                         (Some (zero_location exact_fpu))))
          = Some (zero_location exact_fpu)"
    by (simp add: process_past_gate [OF long gate])
  then show ?thesis
    using gate m tri_init avg_same by (simp add: zero_location_def)
qed

text \<open>
  C2, amended to what the code does, in every floating-point arithmetic. For every
  call of \<^verbatim>\<open>localization_process\<close> with non-null arguments and at least
  \<^verbatim>\<open>correlation_window_size\<close> samples that passes the confidence gate (the average
  confidence that the call computes is not below the threshold): if there are
  fewer than four microphones (so fewer than three equations), or the pivot test
  \<^verbatim>\<open>fabsf(A[i][i]) < 1e-10f\<close> of the elimination fires in one of its three rounds, on
  the matrix as the call has computed it, then the call returns
  \<^verbatim>\<open>MICARRAY_SUCCESS\<close> and the location written is the origin with confidence 0
  (four assignments of \<^verbatim>\<open>0.0f\<close>), not the average confidence. The hypotheses are the
  tests of the code on the values it computes, so the statement does not depend
  on how the arithmetic rounds.
\<close>

theorem degenerate_trilateration_zero:
  assumes long: "\<not> samples < size_of_int (sint (correlation_window_size (loc_config c)))"
    and gate: "\<not> f_lt fp (avg_confidence_of fp c d samples)
                     (min_confidence_threshold (loc_config c))"
    and degenerate:
      "sint (num_microphones (loc_config c)) < 4 \<or>
       gauss_eliminate fp (equations fp (trilateration_context fp c d samples)
                             (delay_estimates (trilateration_context fp c d samples))) = None"
  shows "fst (localization_process fp (Some c) (Some d) samples (Some l)) = MICARRAY_SUCCESS \<and>
         fst (snd (localization_process fp (Some c) (Some d) samples (Some l)))
           = Some \<lparr> loc_x = f_real fp 0, loc_y = f_real fp 0, loc_z = f_real fp 0,
                    confidence = f_real fp 0 \<rparr>"
proof -
  let ?c2 = "trilateration_context fp c d samples"
  have "trilaterate_3d fp ?c2 (delay_estimates ?c2) = zero_location fp"
  proof (cases "sint (num_microphones (loc_config c)) < 4")
    case True
    then show ?thesis
      by (intro trilaterate_few_microphones) (simp add: trilateration_context_config)
  next
    case False
    with degenerate show ?thesis by (simp add: trilaterate_3d_def Let_def)
  qed
  then show ?thesis
    by (simp add: process_past_gate [OF long gate] zero_location_def)
qed

text \<open>The witness: four microphones on a line. The second and the third column
  of the matrix are zero and stay zero in the first round (\<open>0 - factor * 0\<close>), so the
  pivot test fires in the second round, in binary32 as in exact arithmetic.\<close>

theorem degenerate_trilateration_zero_witness:
  "localization_init exact_fpu True (Some line_config) = (MICARRAY_SUCCESS, Some line_ctx) \<and>
   \<not> 2 < size_of_int (sint (correlation_window_size (loc_config line_ctx))) \<and>
   \<not> f_lt exact_fpu (avg_confidence_of exact_fpu line_ctx line_signals 2)
         (min_confidence_threshold (loc_config line_ctx)) \<and>
   \<not> sint (num_microphones (loc_config line_ctx)) < 4 \<and>
   gauss_eliminate exact_fpu
      (equations exact_fpu (trilateration_context exact_fpu line_ctx line_signals 2)
         (delay_estimates (trilateration_context exact_fpu line_ctx line_signals 2))) = None \<and>
   fst (localization_process exact_fpu (Some line_ctx) (Some line_signals) 2
          (Some \<lparr> loc_x = 1, loc_y = 2, loc_z = 3, confidence = 1 / 2 \<rparr>))
     = MICARRAY_SUCCESS \<and>
   fst (snd (localization_process exact_fpu (Some line_ctx) (Some line_signals) 2
               (Some \<lparr> loc_x = 1, loc_y = 2, loc_z = 3, confidence = 1 / 2 \<rparr>)))
     = Some \<lparr> loc_x = 0, loc_y = 0, loc_z = 0, confidence = 0 \<rparr>"
proof -
  have long: "\<not> 2 < size_of_int (sint (correlation_window_size (loc_config line_ctx)))"
    by (simp add: line_ctx_config line_window)
  have gate: "\<not> f_lt exact_fpu (avg_confidence_of exact_fpu line_ctx line_signals 2)
                   (min_confidence_threshold (loc_config line_ctx))"
    by (simp add: avg_line line_ctx_config) (simp add: line_config_def tri_config_def)
  have m: "\<not> sint (num_microphones (loc_config line_ctx)) < 4"
    by (simp add: line_ctx_config) (simp add: line_config_def)
  have pivot: "gauss_eliminate exact_fpu
      (equations exact_fpu (trilateration_context exact_fpu line_ctx line_signals 2)
         (delay_estimates (trilateration_context exact_fpu line_ctx line_signals 2))) = None"
    by (simp add: trilateration_line equations_line gauss_line)
  from degenerate_trilateration_zero [OF long gate disjI2, OF pivot,
         of "\<lparr> loc_x = 1, loc_y = 2, loc_z = 3, confidence = 1 / 2 \<rparr>"]
  show ?thesis using long gate m pivot line_init by simp
qed

subsection \<open>A negative confidence\<close>

text \<open>
  C6. The specification, and the assertion of the repository's own localization
  test, put the confidence in \<open>[0, 1]\<close>. The running maximum of the correlations
  starts at \<open>-1\<close> and nothing clamps the result. Three microphones, the first hearing
  \<open>1, 1\<close> and the other two \<open>-1, -1\<close>: both correlations are \<open>-1\<close>, the average
  confidence is \<open>(1 - 1 - 1) / 3\<close>, it is below the gate of 0.3, and the location
  written has confidence \<open>-1/3\<close>.
\<close>

theorem negative_confidence:
  "localization_init exact_fpu True (Some tri_config) = (MICARRAY_SUCCESS, Some tri_ctx) \<and>
   fst (localization_process exact_fpu (Some tri_ctx) (Some opposed_signals) 2
          (Some (zero_location exact_fpu)))
     = MICARRAY_SUCCESS \<and>
   fst (snd (localization_process exact_fpu (Some tri_ctx) (Some opposed_signals) 2
               (Some (zero_location exact_fpu))))
     = Some \<lparr> loc_x = 0, loc_y = 0, loc_z = 0, confidence = - 1 / 3 \<rparr>"
proof -
  have gate: "f_lt exact_fpu (avg_confidence_of exact_fpu tri_ctx opposed_signals 2)
                (min_confidence_threshold (loc_config tri_ctx))"
    by (simp add: avg_opposed tri_loc_config) (simp add: tri_config_def)
  then have "localization_process exact_fpu (Some tri_ctx) (Some opposed_signals) 2
               (Some (zero_location exact_fpu)) =
      (MICARRAY_SUCCESS,
       Some \<lparr> loc_x = 0, loc_y = 0, loc_z = 0,
              confidence = avg_confidence_of exact_fpu tri_ctx opposed_signals 2 \<rparr>,
       Some (correlate_microphones exact_fpu tri_ctx opposed_signals 2
               (max_delay_of exact_fpu (loc_config tri_ctx))))"
    by (simp add: localization_process_def Let_def tri_loc_config tri_window
                  avg_confidence_of_def)
  then show ?thesis using tri_init by (simp add: avg_opposed)
qed

subsection \<open>The stereo samples are converted twice\<close>

lemma write_frames_length [simp]:
  "length (write_frames fp vol l r n buf) = length buf"
proof -
  have "length (fold f xs buf) = length buf"
    if "\<And>i b. length (f i b) = length b"
    for f :: "nat \<Rightarrow> int16 list \<Rightarrow> int16 list" and xs
    using that by (induction xs arbitrary: buf) simp_all
  then show ?thesis unfolding write_frames_def by simp
qed

lemma write_frames_Suc:
  "write_frames fp vol l r (Suc n) buf =
     (write_frames fp vol l r n buf)
       [n * 2 := f_int16 fp (f_mul fp (f_real fp (real_of_int (sint (l ! n)))) vol),
        n * 2 + 1 := f_int16 fp (f_mul fp (f_real fp (real_of_int (sint (r ! n)))) vol)]"
  by (simp add: write_frames_def)

lemma write_frames_nth:
  "i < n \<Longrightarrow> 2 * n \<le> length buf \<Longrightarrow>
   write_frames fp vol l r n buf ! (2 * i)
     = f_int16 fp (f_mul fp (f_real fp (real_of_int (sint (l ! i)))) vol) \<and>
   write_frames fp vol l r n buf ! (2 * i + 1)
     = f_int16 fp (f_mul fp (f_real fp (real_of_int (sint (r ! i)))) vol)"
proof (induction n)
  case 0
  then show ?case by simp
next
  case (Suc n)
  show ?case
  proof (cases "i = n")
    case True
    with Suc.prems show ?thesis
      by (simp add: write_frames_Suc mult.commute)
  next
    case False
    with Suc.prems have "i < n" by simp
    with Suc have IH: "write_frames fp vol l r n buf ! (2 * i) =
          f_int16 fp (f_mul fp (f_real fp (real_of_int (sint (l ! i)))) vol) \<and>
        write_frames fp vol l r n buf ! (2 * i + 1) =
          f_int16 fp (f_mul fp (f_real fp (real_of_int (sint (r ! i)))) vol)"
      by simp
    from \<open>i < n\<close> have "n * 2 \<noteq> 2 * i" "n * 2 + 1 \<noteq> 2 * i" "n * 2 \<noteq> 2 * i + 1"
      "n * 2 + 1 \<noteq> 2 * i + 1"
      by presburger+
    with IH show ?thesis by (simp add: write_frames_Suc)
  qed
qed

lemma write_frames_other:
  "2 * n \<le> k \<Longrightarrow> write_frames fp vol l r n buf ! k = buf ! k"
proof (induction n)
  case 0
  then show ?case by (simp add: write_frames_def)
next
  case (Suc n)
  then have "n * 2 \<noteq> k" "n * 2 + 1 \<noteq> k" "2 * n \<le> k" by simp_all
  with Suc.IH show ?case by (simp add: write_frames_Suc)
qed

lemma write_localized_buffer:
  assumes "ao_running c"
  shows "\<exists>st c'. audio_output_write_localized fp (Some c) (Some d) samples (Some l) True fw
                   = (st, Some c') \<and>
                 output_buffer c' =
                   write_frames fp (volume c) (fst (apply_stereo_panning fp d samples l))
                     (snd (apply_stereo_panning fp d samples l)) samples (output_buffer c) \<and>
                 volume c' = volume c \<and>
                 (0 \<le> fw \<or> fw = - EPIPE \<longrightarrow> st = MICARRAY_SUCCESS)"
  using assms
  by (auto simp: audio_output_write_localized_def audio_output_write_stereo_def Let_def
           split: prod.splits)

lemma panning_nth:
  "i < samples \<Longrightarrow>
   fst (apply_stereo_panning fp d samples l) ! i =
     f_int16 fp (f_mul fp (f_real fp (real_of_int (sint (d ! i)))) (fst (stereo_gains fp l))) \<and>
   snd (apply_stereo_panning fp d samples l) ! i =
     f_int16 fp (f_mul fp (f_real fp (real_of_int (sint (d ! i)))) (snd (stereo_gains fp l)))"
  by (simp add: apply_stereo_panning_def split: prod.splits)

lemma half_gains: "stereo_gains exact_fpu half_location = (1 / 2, 1 / 2)"
  by (simp add: stereo_gains_def stereo_pan_def stereo_attenuation_def half_location_def
                c_atan2_def)

lemma half_write:
  "audio_output_write_localized exact_fpu (Some mixer_ctx) (Some [3]) 1 (Some half_location)
       True 1
     = (MICARRAY_SUCCESS, Some (mixer_ctx\<lparr> output_buffer := [0, 0] \<rparr>))"
  by (simp add: audio_output_write_localized_def audio_output_write_stereo_def
                apply_stereo_panning_def half_gains write_frames_def mixer_ctx_def
                c_trunc_def)

text \<open>
  C3, as the specification has it: each stereo sample is the mono sample times a
  gain that includes the volume, the product computed at full precision and
  converted once. The code converts to \<^verbatim>\<open>int16_t\<close> after the panning gain and again
  after the volume. With the source at the origin, confidence 0.5 and volume 0.75,
  the gains are 0.5 and the mono sample 3 gives \<open>3 * 0.5 = 1.5\<close>, converted to 1, then
  \<open>1 * 0.75\<close>, converted to 0, on both channels; the specification's
  \<open>3 * 0.375 = 1.125\<close> gives 1. Every value on this path is exact in binary32.
\<close>

theorem stereo_sample_counterexample:
  "fst (audio_output_write_localized exact_fpu (Some mixer_ctx) (Some [3]) 1
          (Some half_location) True 1)
     = MICARRAY_SUCCESS \<and>
   map_option (map sint \<circ> output_buffer)
     (snd (audio_output_write_localized exact_fpu (Some mixer_ctx) (Some [3]) 1
             (Some half_location) True 1))
     = Some [0, 0] \<and>
   spec_stereo_sample 3 half_location (volume mixer_ctx) = (1, 1)"
  using half_write
  by (simp add: half_gains mixer_ctx_def c_trunc_def spec_stereo_sample_def spec_clip_i16_def)

text \<open>
  C3, amended to what the code does, in every floating-point arithmetic. Let the
  device be running and its buffer have room for the frames. Then
  \<^verbatim>\<open>audio_output_write_localized\<close> returns with the volume unchanged, with success
  when the device accepts the frames, and the left sample of every frame \<open>i\<close> is
  \<^verbatim>\<open>(int16_t)((int16_t)(m[i] * gain_L) * volume)\<close>: the product of the mono sample with
  the panning gain is converted to \<^verbatim>\<open>int16_t\<close>, the converted value is multiplied by
  the volume, and the product is converted again; likewise on the right. The
  panning gains are \<open>gain_L = ((1 - pan) * 0.5 + 0.5) * (attn * confidence)\<close> and
  \<open>gain_R = ((1 + pan) * 0.5 + 0.5) * (attn * confidence)\<close>, the volume not included.
  The conversions are applied to the products as they are, whatever their values.
  The samples of the buffer behind the frames are left as they were.
\<close>

theorem stereo_sample_converted_twice:
  assumes run: "ao_running c" and i: "i < samples"
    and room: "2 * samples \<le> length (output_buffer c)"
  shows "\<exists>st c'.
           audio_output_write_localized fp (Some c) (Some d) samples (Some l) True fw
             = (st, Some c') \<and>
           (0 \<le> fw \<or> fw = - EPIPE \<longrightarrow> st = MICARRAY_SUCCESS) \<and>
           volume c' = volume c \<and>
           output_buffer c' ! (2 * i)
             = f_int16 fp (f_mul fp
                 (f_real fp (real_of_int (sint
                    (f_int16 fp (f_mul fp (f_real fp (real_of_int (sint (d ! i))))
                                          (fst (stereo_gains fp l)))))))
                 (volume c)) \<and>
           output_buffer c' ! (2 * i + 1)
             = f_int16 fp (f_mul fp
                 (f_real fp (real_of_int (sint
                    (f_int16 fp (f_mul fp (f_real fp (real_of_int (sint (d ! i))))
                                          (snd (stereo_gains fp l)))))))
                 (volume c)) \<and>
           (\<forall>k\<ge>2 * samples. output_buffer c' ! k = output_buffer c ! k) \<and>
           fst (stereo_gains fp l)
             = f_mul fp (f_add fp (f_mul fp (f_sub fp (f_real fp 1) (stereo_pan fp l))
                                            (f_real fp (1 / 2)))
                                  (f_real fp (1 / 2)))
                        (f_mul fp (stereo_attenuation fp l) (confidence l)) \<and>
           snd (stereo_gains fp l)
             = f_mul fp (f_add fp (f_mul fp (f_add fp (f_real fp 1) (stereo_pan fp l))
                                            (f_real fp (1 / 2)))
                                  (f_real fp (1 / 2)))
                        (f_mul fp (stereo_attenuation fp l) (confidence l))"
proof -
  let ?p = "apply_stereo_panning fp d samples l"
  from write_localized_buffer [OF run, of fp d samples l fw]
  obtain st c' where
    res: "audio_output_write_localized fp (Some c) (Some d) samples (Some l) True fw
            = (st, Some c')"
    and buf: "output_buffer c'
                = write_frames fp (volume c) (fst ?p) (snd ?p) samples (output_buffer c)"
    and vol: "volume c' = volume c"
    and ok: "0 \<le> fw \<or> fw = - EPIPE \<longrightarrow> st = MICARRAY_SUCCESS"
    by blast
  from write_frames_nth [OF i room, of fp "volume c" "fst ?p" "snd ?p"] buf
       panning_nth [OF i, of fp d l]
  have out: "output_buffer c' ! (2 * i)
             = f_int16 fp (f_mul fp
                 (f_real fp (real_of_int (sint
                    (f_int16 fp (f_mul fp (f_real fp (real_of_int (sint (d ! i))))
                                          (fst (stereo_gains fp l)))))))
                 (volume c))"
       "output_buffer c' ! (2 * i + 1)
             = f_int16 fp (f_mul fp
                 (f_real fp (real_of_int (sint
                    (f_int16 fp (f_mul fp (f_real fp (real_of_int (sint (d ! i))))
                                          (snd (stereo_gains fp l)))))))
                 (volume c))"
    by simp_all
  have rest: "\<forall>k\<ge>2 * samples. output_buffer c' ! k = output_buffer c ! k"
    using buf by (simp add: write_frames_other)
  have gains: "fst (stereo_gains fp l)
             = f_mul fp (f_add fp (f_mul fp (f_sub fp (f_real fp 1) (stereo_pan fp l))
                                            (f_real fp (1 / 2)))
                                  (f_real fp (1 / 2)))
                        (f_mul fp (stereo_attenuation fp l) (confidence l))"
       "snd (stereo_gains fp l)
             = f_mul fp (f_add fp (f_mul fp (f_add fp (f_real fp 1) (stereo_pan fp l))
                                            (f_real fp (1 / 2)))
                                  (f_real fp (1 / 2)))
                        (f_mul fp (stereo_attenuation fp l) (confidence l))"
    by (simp_all add: stereo_gains_def Let_def)
  from res ok vol out rest gains show ?thesis by blast
qed

theorem stereo_sample_converted_twice_witness:
  "ao_running mixer_ctx \<and> (0 :: nat) < 1 \<and> 2 * 1 \<le> length (output_buffer mixer_ctx) \<and>
   audio_output_write_localized exact_fpu (Some mixer_ctx) (Some [3]) 1 (Some half_location)
       True 1
     = (MICARRAY_SUCCESS, Some (mixer_ctx\<lparr> output_buffer := [0, 0] \<rparr>)) \<and>
   stereo_gains exact_fpu half_location = (1 / 2, 1 / 2) \<and>
   ([0, 0] :: int16 list) ! (2 * 0)
     = f_int16 exact_fpu (f_mul exact_fpu
         (f_real exact_fpu (real_of_int (sint
            (f_int16 exact_fpu (f_mul exact_fpu (f_real exact_fpu (real_of_int (sint ([3 :: int16] ! 0))))
                                  (1 / 2))))))
         (3 / 4))"
proof -
  have run: "ao_running mixer_ctx" and i: "(0 :: nat) < 1"
    and room: "2 * 1 \<le> length (output_buffer mixer_ctx)"
    by (simp_all add: mixer_ctx_def)
  from stereo_sample_converted_twice [OF run i room, of exact_fpu "[3]" half_location 1]
  obtain st c' where
    res: "audio_output_write_localized exact_fpu (Some mixer_ctx) (Some [3]) 1
            (Some half_location) True 1 = (st, Some c')"
    and out: "output_buffer c' ! (2 * 0)
       = f_int16 exact_fpu (f_mul exact_fpu
           (f_real exact_fpu (real_of_int (sint
              (f_int16 exact_fpu (f_mul exact_fpu
                  (f_real exact_fpu (real_of_int (sint ([3 :: int16] ! 0))))
                  (fst (stereo_gains exact_fpu half_location)))))))
           (volume mixer_ctx))"
    by blast
  from res half_write have "c' = mixer_ctx\<lparr> output_buffer := [0, 0] \<rparr>" by simp
  with out have "([0, 0] :: int16 list) ! (2 * 0)
     = f_int16 exact_fpu (f_mul exact_fpu
         (f_real exact_fpu (real_of_int (sint
            (f_int16 exact_fpu (f_mul exact_fpu (f_real exact_fpu (real_of_int (sint ([3 :: int16] ! 0))))
                                  (1 / 2))))))
         (3 / 4))"
    by (simp add: half_gains) (simp add: mixer_ctx_def)
  with run i room half_write half_gains show ?thesis by blast
qed

subsection \<open>Array loops\<close>

lemma for_update_Suc:
  "for_update off (Suc n) f a =
     (for_update off n f a)[off + n := f n (for_update off n f a ! (off + n))]"
  by (simp add: for_update_def)

lemma for_update_0 [simp]: "for_update off 0 f a = a"
  by (simp add: for_update_def)

lemma for_update_length [simp]: "length (for_update off n f a) = length a"
  by (induction n) (simp_all add: for_update_Suc)

lemma for_update_nth:
  "off + n \<le> length a \<Longrightarrow>
   for_update off n f a ! k =
     (if off \<le> k \<and> k < off + n then f (k - off) (a ! k) else a ! k)"
proof (induction n arbitrary: k)
  case 0
  then show ?case by auto
next
  case (Suc n)
  then have IH: "\<And>j. for_update off n f a ! j =
      (if off \<le> j \<and> j < off + n then f (j - off) (a ! j) else a ! j)"
    by simp
  show ?case
  proof (cases "k = off + n")
    case True
    with Suc.prems show ?thesis by (simp add: for_update_Suc IH)
  next
    case False
    then show ?thesis by (auto simp: for_update_Suc IH)
  qed
qed

lemma for_update_cong:
  "(\<And>i. i < n \<Longrightarrow> f i = g i) \<Longrightarrow>
   for_update off n (\<lambda>i _. f i) a = for_update off n (\<lambda>i _. g i) a"
  by (induction n) (simp_all add: for_update_Suc)

lemma for_update_const:
  "length a = n \<Longrightarrow> for_update 0 n (\<lambda>i _. g i) a = map g [0..<n]"
  by (rule nth_equalityI) (simp_all add: for_update_nth)

lemma hann_0: "hann exact_fpu sz 0 = 0"
  by (simp add: hann_def)

lemma apply_hanning_window_length [simp]:
  "length (apply_hanning_window fp data sz) = length data"
  by (simp add: apply_hanning_window_def)

lemma apply_hanning_window_nth:
  "nat sz \<le> length data \<Longrightarrow> k < nat sz \<Longrightarrow>
   apply_hanning_window fp data sz ! k = f_mul fp (data ! k) (hann fp sz k)"
  by (simp add: apply_hanning_window_def for_update_nth)

subsection \<open>Training on too few samples\<close>

lemma c_int_as_size:
  assumes "0 \<le> sint (w :: c_int)"
  shows "size_of_int (sint w) = nat (sint w)"
proof -
  have "sint w < 2 ^ 31" using sint_lt [of w] by simp
  with assms have "sint w mod 2 ^ 64 = sint w" by simp
  then show ?thesis by (simp add: size_of_int_def)
qed


text \<open>
  C10. When \<^verbatim>\<open>noise_reduction_update_noise_profile\<close> is called with non-null
  arguments and fewer samples than the frame size, it returns
  \<^verbatim>\<open>MICARRAY_SUCCESS\<close>; the noise spectrum (of \<open>frame_size / 2 + 1\<close> bins, as
  \<^verbatim>\<open>noise_reduction_init\<close> allocates it) is zero in every bin; and nothing else in the
  context changes, the flag \<open>noise_profile_ready\<close> in particular: a profile that was
  ready before is still reported ready, with an all-zero spectrum. This holds in
  every arithmetic: the zeros are those of the \<^verbatim>\<open>memset\<close>.
\<close>

theorem short_training_zeroes_profile:
  assumes short: "int samples < sint (frame_size (nr_config c))"
    and bins: "length (noise_spectrum c) = num_bins (sint (frame_size (nr_config c)))"
  shows "noise_reduction_update_noise_profile fp (Some c) (Some d) samples =
           Some (MICARRAY_SUCCESS,
                 Some (c\<lparr> noise_spectrum :=
                            replicate (num_bins (sint (frame_size (nr_config c))))
                              (f_real fp 0) \<rparr>)) \<and>
         noise_profile_ready
           (c\<lparr> noise_spectrum :=
                 replicate (num_bins (sint (frame_size (nr_config c)))) (f_real fp 0) \<rparr>)
           = noise_profile_ready c"
proof -
  let ?F = "sint (frame_size (nr_config c))"
  let ?c0 = "c\<lparr> noise_spectrum := replicate (num_bins ?F) (f_real fp 0) \<rparr>"
  have "for_update 0 (num_bins ?F) (\<lambda>_ _. f_real fp 0) (noise_spectrum c)
          = map (\<lambda>_. f_real fp 0) [0..<num_bins ?F]"
    using bins by (rule for_update_const)
  then have zero: "for_update 0 (num_bins ?F) (\<lambda>_ _. f_real fp 0) (noise_spectrum c)
          = replicate (num_bins ?F) (f_real fp 0)"
    by (simp add: map_replicate_const)
  from short have "0 \<le> ?F" by simp
  then have "size_of_int ?F = nat ?F" by (rule c_int_as_size)
  moreover have "nat ?F < 2 ^ 64" using sint_lt [of "frame_size (nr_config c)"] by simp
  ultimately have "\<not> (0 + size_of_int ?F) mod 2 ^ 64 \<le> samples"
    using short by simp
  then have loop: "profile_loop fp d samples (?c0, 0, 0) = Some (?c0, 0, 0)"
    by (subst profile_loop.simps) simp
  show ?thesis
    by (simp add: noise_reduction_update_noise_profile_def Let_def zero loop)
qed

lemma num_bins_4: "num_bins 4 = 3"
  by (simp add: num_bins_def signed_divide_int_def)

theorem short_training_zeroes_profile_witness:
  "int (3 :: nat) < sint (frame_size (nr_config (trained_ctx ss_config [(0, 0), (0, 0), (0, 0)]))) \<and>
   length (noise_spectrum (trained_ctx ss_config [(0, 0), (0, 0), (0, 0)]))
     = num_bins (sint (frame_size (nr_config (trained_ctx ss_config [(0, 0), (0, 0), (0, 0)])))) \<and>
   noise_spectrum (trained_ctx ss_config [(0, 0), (0, 0), (0, 0)]) = [100, 2, 3] \<and>
   noise_profile_ready (trained_ctx ss_config [(0, 0), (0, 0), (0, 0)]) \<and>
   noise_reduction_update_noise_profile exact_fpu
       (Some (trained_ctx ss_config [(0, 0), (0, 0), (0, 0)])) (Some [5, 6, 7]) 3 =
     Some (MICARRAY_SUCCESS,
           Some ((trained_ctx ss_config [(0, 0), (0, 0), (0, 0)])
                   \<lparr> noise_spectrum := [0, 0, 0] \<rparr>)) \<and>
   noise_profile_ready
     ((trained_ctx ss_config [(0, 0), (0, 0), (0, 0)])\<lparr> noise_spectrum := [0, 0, 0] \<rparr>)"
proof -
  let ?c = "trained_ctx ss_config [(0, 0), (0, 0), (0, 0)]"
  have short: "int (3 :: nat) < sint (frame_size (nr_config ?c))"
    by (simp add: trained_ctx_def ss_config_def)
  have F: "sint (frame_size (nr_config ?c)) = 4"
    by (simp add: trained_ctx_def ss_config_def)
  have bins: "length (noise_spectrum ?c) = num_bins (sint (frame_size (nr_config ?c)))"
    by (simp add: F num_bins_4) (simp add: trained_ctx_def)
  from short_training_zeroes_profile [OF short bins, of exact_fpu "[5, 6, 7]"]
  show ?thesis
    using short bins by (simp add: F num_bins_4 numeral_3_eq_3) (simp add: trained_ctx_def)
qed

subsection \<open>Spectral subtraction, bin by bin\<close>




lemma subtract_bin_fields [simp]:
  "nr_config (subtract_bin fp i ctx) = nr_config ctx"
  "noise_spectrum (subtract_bin fp i ctx) = noise_spectrum ctx"
  "noise_profile_ready (subtract_bin fp i ctx) = noise_profile_ready ctx"
  "length (fft_output (subtract_bin fp i ctx)) = length (fft_output ctx)"
  "length (magnitude_spectrum (subtract_bin fp i ctx)) = length (magnitude_spectrum ctx)"
  "length (phase_spectrum (subtract_bin fp i ctx)) = length (phase_spectrum ctx)"
  by (simp_all add: subtract_bin_def Let_def)

lemma subtract_bin_other:
  "k \<noteq> i \<Longrightarrow> fft_output (subtract_bin fp i ctx) ! k = fft_output ctx ! k"
  "k \<noteq> i \<Longrightarrow> magnitude_spectrum (subtract_bin fp i ctx) ! k = magnitude_spectrum ctx ! k"
  "k \<noteq> i \<Longrightarrow> phase_spectrum (subtract_bin fp i ctx) ! k = phase_spectrum ctx ! k"
  by (simp_all add: subtract_bin_def Let_def)

text \<open>What the body of the loop writes for its own bin when the profile is ready:
  its three results depend on the bin's input, the bin's noise estimate and the
  configuration only.\<close>

lemma subtract_bin_own:
  assumes "noise_profile_ready c"
    and "i < length (fft_output c)" "i < length (magnitude_spectrum c)"
    "i < length (phase_spectrum c)"
  shows "fft_output (subtract_bin fp i c) ! i
           = (f_mul fp (f_mul fp (bin_magnitude fp (fft_output c ! i))
                                 (bin_gain fp (nr_config c) (noise_spectrum c ! i)
                                    (bin_magnitude fp (fft_output c ! i))))
                       (f_cos fp (bin_phase fp (fft_output c ! i))),
              f_mul fp (f_mul fp (bin_magnitude fp (fft_output c ! i))
                                 (bin_gain fp (nr_config c) (noise_spectrum c ! i)
                                    (bin_magnitude fp (fft_output c ! i))))
                       (f_sin fp (bin_phase fp (fft_output c ! i))))"
    and "magnitude_spectrum (subtract_bin fp i c) ! i = bin_magnitude fp (fft_output c ! i)"
    and "phase_spectrum (subtract_bin fp i c) ! i = bin_phase fp (fft_output c ! i)"
  using assms by (simp_all add: subtract_bin_def Let_def)

lemma subtract_bins_fields:
  "nr_config (fold (subtract_bin fp) [0..<n] ctx) = nr_config ctx \<and>
   noise_spectrum (fold (subtract_bin fp) [0..<n] ctx) = noise_spectrum ctx \<and>
   noise_profile_ready (fold (subtract_bin fp) [0..<n] ctx) = noise_profile_ready ctx \<and>
   length (fft_output (fold (subtract_bin fp) [0..<n] ctx)) = length (fft_output ctx) \<and>
   length (magnitude_spectrum (fold (subtract_bin fp) [0..<n] ctx))
     = length (magnitude_spectrum ctx) \<and>
   length (phase_spectrum (fold (subtract_bin fp) [0..<n] ctx)) = length (phase_spectrum ctx) \<and>
   (\<forall>k\<ge>n. fft_output (fold (subtract_bin fp) [0..<n] ctx) ! k = fft_output ctx ! k)"
proof (induction n)
  case 0
  then show ?case by simp
next
  case (Suc n)
  have "\<forall>k\<ge>Suc n. fft_output (subtract_bin fp n (fold (subtract_bin fp) [0..<n] ctx)) ! k
            = fft_output (fold (subtract_bin fp) [0..<n] ctx) ! k"
    by (simp add: subtract_bin_other)
  with Suc show ?case by simp
qed

lemma subtract_bins_nth:
  assumes "noise_profile_ready ctx" and "k < n" and "n \<le> length (fft_output ctx)"
    and "n \<le> length (magnitude_spectrum ctx)" and "n \<le> length (phase_spectrum ctx)"
  shows "fft_output (fold (subtract_bin fp) [0..<n] ctx) ! k
           = fft_output (subtract_bin fp k ctx) ! k \<and>
         magnitude_spectrum (fold (subtract_bin fp) [0..<n] ctx) ! k
           = magnitude_spectrum (subtract_bin fp k ctx) ! k \<and>
         phase_spectrum (fold (subtract_bin fp) [0..<n] ctx) ! k
           = phase_spectrum (subtract_bin fp k ctx) ! k"
  using assms
proof (induction n)
  case 0
  then show ?case by simp
next
  case (Suc n)
  let ?c = "fold (subtract_bin fp) [0..<n] ctx"
  note f = subtract_bins_fields [of fp n ctx]
  show ?case
  proof (cases "k = n")
    case True
    from Suc.prems f have l: "n < length (fft_output ?c)" "n < length (magnitude_spectrum ?c)"
      "n < length (phase_spectrum ?c)" and r: "noise_profile_ready ?c"
      by simp_all
    from Suc.prems have l0: "n < length (fft_output ctx)" "n < length (magnitude_spectrum ctx)"
      "n < length (phase_spectrum ctx)"
      by simp_all
    from subtract_bin_own [OF r l, of fp] subtract_bin_own [OF Suc.prems(1) l0, of fp] f True
    show ?thesis by simp
  next
    case False
    with Suc.prems have "k < n" by simp
    with Suc have "fft_output ?c ! k = fft_output (subtract_bin fp k ctx) ! k \<and>
         magnitude_spectrum ?c ! k = magnitude_spectrum (subtract_bin fp k ctx) ! k \<and>
         phase_spectrum ?c ! k = phase_spectrum (subtract_bin fp k ctx) ! k"
      by simp
    with False show ?thesis by (simp add: subtract_bin_other)
  qed
qed

lemma spectral_subtraction_bin:
  assumes "noise_profile_ready ctx" and "k < num_bins F"
    and "num_bins F \<le> length (fft_output ctx)"
    and "num_bins F \<le> length (magnitude_spectrum ctx)"
    and "num_bins F \<le> length (phase_spectrum ctx)"
  shows "fft_output (spectral_subtraction fp ctx F) ! k
           = (f_mul fp (f_mul fp (bin_magnitude fp (fft_output ctx ! k))
                                 (bin_gain fp (nr_config ctx) (noise_spectrum ctx ! k)
                                    (bin_magnitude fp (fft_output ctx ! k))))
                       (f_cos fp (bin_phase fp (fft_output ctx ! k))),
              f_mul fp (f_mul fp (bin_magnitude fp (fft_output ctx ! k))
                                 (bin_gain fp (nr_config ctx) (noise_spectrum ctx ! k)
                                    (bin_magnitude fp (fft_output ctx ! k))))
                       (f_sin fp (bin_phase fp (fft_output ctx ! k))))"
    and "magnitude_spectrum (spectral_subtraction fp ctx F) ! k
           = bin_magnitude fp (fft_output ctx ! k)"
    and "phase_spectrum (spectral_subtraction fp ctx F) ! k = bin_phase fp (fft_output ctx ! k)"
proof -
  from assms have l: "k < length (fft_output ctx)" "k < length (magnitude_spectrum ctx)"
    "k < length (phase_spectrum ctx)"
    by simp_all
  note own = subtract_bin_own [OF assms(1) l, of fp]
  note nth = subtract_bins_nth [OF assms, of fp]
  show "fft_output (spectral_subtraction fp ctx F) ! k
           = (f_mul fp (f_mul fp (bin_magnitude fp (fft_output ctx ! k))
                                 (bin_gain fp (nr_config ctx) (noise_spectrum ctx ! k)
                                    (bin_magnitude fp (fft_output ctx ! k))))
                       (f_cos fp (bin_phase fp (fft_output ctx ! k))),
              f_mul fp (f_mul fp (bin_magnitude fp (fft_output ctx ! k))
                                 (bin_gain fp (nr_config ctx) (noise_spectrum ctx ! k)
                                    (bin_magnitude fp (fft_output ctx ! k))))
                       (f_sin fp (bin_phase fp (fft_output ctx ! k))))"
    unfolding spectral_subtraction_def using nth own(1) by simp
  show "magnitude_spectrum (spectral_subtraction fp ctx F) ! k
           = bin_magnitude fp (fft_output ctx ! k)"
    unfolding spectral_subtraction_def using nth own(2) by simp
  show "phase_spectrum (spectral_subtraction fp ctx F) ! k = bin_phase fp (fft_output ctx ! k)"
    unfolding spectral_subtraction_def using nth own(3) by simp
qed

subsection \<open>In exact arithmetic the output bin is the input bin times the gain\<close>

lemma sqrt_sum_squares_factor:
  assumes "a \<noteq> 0"
  shows "sqrt (a * a + b * b) = \<bar>a\<bar> * sqrt (1 + (b / a)\<^sup>2)"
proof -
  have "a * a + b * b = a\<^sup>2 * (1 + (b / a)\<^sup>2)"
    using assms by (simp add: power2_eq_square field_simps)
  then show ?thesis by (simp add: real_sqrt_mult)
qed

lemma polar_arctan:
  assumes "a \<noteq> 0"
  shows "sqrt (a * a + b * b) * cos (arctan (b / a)) = \<bar>a\<bar>"
    and "sqrt (a * a + b * b) * sin (arctan (b / a)) = \<bar>a\<bar> * (b / a)"
proof -
  have pos: "0 < sqrt (1 + (b / a)\<^sup>2)"
    by (simp add: add_pos_nonneg)
  show "sqrt (a * a + b * b) * cos (arctan (b / a)) = \<bar>a\<bar>"
    using pos by (simp add: sqrt_sum_squares_factor [OF assms] cos_arctan)
  show "sqrt (a * a + b * b) * sin (arctan (b / a)) = \<bar>a\<bar> * (b / a)"
    using pos by (simp add: sqrt_sum_squares_factor [OF assms] sin_arctan)
qed

lemma polar_atan2:
  "sqrt (a * a + b * b) * cos (c_atan2 b a) = a \<and>
   sqrt (a * a + b * b) * sin (c_atan2 b a) = b"
proof -
  consider "0 < a" | "a < 0" "0 \<le> b" | "a < 0" "b < 0" | "a = 0" "0 < b" | "a = 0" "b < 0"
    | "a = 0" "b = 0"
    by linarith
  then show ?thesis
  proof cases
    case 1
    then have "a \<noteq> 0" by simp
    from polar_arctan [OF this, of b] 1 show ?thesis by (simp add: c_atan2_def)
  next
    case 2
    then have "a \<noteq> 0" by simp
    from polar_arctan [OF this, of b] 2 show ?thesis by (simp add: c_atan2_def)
  next
    case 3
    then have "a \<noteq> 0" by simp
    from polar_arctan [OF this, of b] 3 show ?thesis by (simp add: c_atan2_def)
  next
    case 4
    then show ?thesis by (simp add: c_atan2_def)
  next
    case 5
    then show ?thesis by (simp add: c_atan2_def)
  next
    case 6
    then show ?thesis by (simp add: c_atan2_def)
  qed
qed

text \<open>Without rounding, the polar form \<open>(mag * g * cos phase, mag * g * sin phase)\<close> of
  a bin \<open>X\<close> is \<open>g * X\<close>: for a gain \<open>g \<ge> 0\<close> the phase of the bin is kept and its
  magnitude is multiplied by the gain.\<close>

lemma exact_polar_scaled:
  "(f_mul exact_fpu (f_mul exact_fpu (bin_magnitude exact_fpu X) g)
                    (f_cos exact_fpu (bin_phase exact_fpu X)),
    f_mul exact_fpu (f_mul exact_fpu (bin_magnitude exact_fpu X) g)
                    (f_sin exact_fpu (bin_phase exact_fpu X)))
   = (g * fst X, g * snd X)"
proof -
  let ?m = "sqrt (fst X * fst X + snd X * snd X)"
  from polar_atan2 [of "fst X" "snd X"]
  have "?m * cos (c_atan2 (snd X) (fst X)) = fst X" "?m * sin (c_atan2 (snd X) (fst X)) = snd X"
    by simp_all
  then have "?m * g * cos (c_atan2 (snd X) (fst X)) = g * fst X"
    "?m * g * sin (c_atan2 (snd X) (fst X)) = g * snd X"
    by (simp_all add: mult.assoc mult.left_commute)
  then show ?thesis
    by (simp add: bin_magnitude_def bin_phase_def)
qed

lemma exact_scaled_magnitude:
  assumes "0 \<le> g"
  shows "bin_magnitude exact_fpu (g * fst X, g * snd X) = bin_magnitude exact_fpu X * g"
proof -
  have "g * fst X * (g * fst X) + g * snd X * (g * snd X)
          = (g * g) * (fst X * fst X + snd X * snd X)"
    by (simp add: algebra_simps)
  then have "sqrt (g * fst X * (g * fst X) + g * snd X * (g * snd X))
          = \<bar>g\<bar> * sqrt (fst X * fst X + snd X * snd X)"
    by (simp add: real_sqrt_mult)
  with assms show ?thesis
    by (simp add: bin_magnitude_def)
qed

subsection \<open>The spectral gain\<close>




text \<open>In exact arithmetic the bin written is the bin read times the gain, so
  that, the gain being non-negative, the phase of the bin is kept and its
  magnitude is multiplied by the gain.\<close>

lemma exact_spectral_subtraction_scales:
  assumes "noise_profile_ready ctx" and "k < num_bins F"
    and "num_bins F \<le> length (fft_output ctx)"
    and "num_bins F \<le> length (magnitude_spectrum ctx)"
    and "num_bins F \<le> length (phase_spectrum ctx)"
  shows "fft_output (spectral_subtraction exact_fpu ctx F) ! k
           = (bin_gain exact_fpu (nr_config ctx) (noise_spectrum ctx ! k)
                (bin_magnitude exact_fpu (fft_output ctx ! k)) * fst (fft_output ctx ! k),
              bin_gain exact_fpu (nr_config ctx) (noise_spectrum ctx ! k)
                (bin_magnitude exact_fpu (fft_output ctx ! k)) * snd (fft_output ctx ! k))"
  unfolding spectral_subtraction_bin(1) [OF assms] by (rule exact_polar_scaled)

subsection \<open>A turn of the processing loop without spectral subtraction\<close>

lemma to_copy_exact:
  assumes "exact_counts fp" and "a \<le> 2 ^ 24" and "0 \<le> b" and "b \<le> 2 ^ 24"
  shows "f_size fp (f_min fp (f_real fp (real a)) (f_real fp (real_of_int b))) = min a (nat b)"
proof -
  from assms(3) have r: "real_of_int b = real (nat b)" by simp
  from assms(3,4) have "nat b \<le> 2 ^ 24" by (simp add: nat_le_iff)
  with assms(1,2) show ?thesis unfolding r exact_counts_def by blast
qed

lemma output_samples_exact:
  assumes "exact_counts fp" and "a \<le> 2 ^ 24" and "0 \<le> b" and "b \<le> 2 ^ 24"
  shows "f_size fp (f_min fp (f_real fp (real_of_int b)) (f_real fp (real a))) = min (nat b) a"
proof -
  from assms(3) have r: "real_of_int b = real (nat b)" by simp
  from assms(3,4) have "nat b \<le> 2 ^ 24" by (simp add: nat_le_iff)
  with assms(1,2) show ?thesis unfolding r exact_counts_def by blast
qed

lemma windowed_copy:
  assumes "length fi = nat F"
  shows "apply_hanning_window fp (for_update 0 (nat F) (\<lambda>i _. ib ! i) fi) F
           = map (\<lambda>j. f_mul fp (ib ! j) (hann fp F j)) [0..<nat F]"
  using assms
  by (intro nth_equalityI) (simp_all add: apply_hanning_window_nth for_update_nth)

text \<open>The synthesis of a frame, once the accumulator is full: the spectrum that
  the forward plan has written goes to the inverse plan as it is.\<close>

lemma process_frame_bypass:
  assumes alg: "algorithm (nr_config c) \<noteq> ''spectral_subtraction''"
    and len: "length (fft_input c) = nat (sint (frame_size (nr_config c)))"
    and inv: "\<And>X. length (inverse_plan c X) = nat (sint (frame_size (nr_config c)))"
    and ovl: "length (overlap_buffer c) = nat (sint (overlap (nr_config c)))"
    and ov: "nat (sint (overlap (nr_config c))) \<le> nat (sint (frame_size (nr_config c)))"
  shows "process_frame fp c =
           c\<lparr> fft_input :=
                 map (resynthesis fp (forward_plan c) (inverse_plan c)
                        (sint (frame_size (nr_config c))) (input_buffer c) (overlap_buffer c))
                     [0..<nat (sint (frame_size (nr_config c)))],
               fft_output :=
                 forward_plan c
                   (map (\<lambda>j. f_mul fp (input_buffer c ! j)
                                (hann fp (sint (frame_size (nr_config c))) j))
                        [0..<nat (sint (frame_size (nr_config c)))]) \<rparr>"
proof -
  let ?F = "sint (frame_size (nr_config c))"
  let ?W = "map (\<lambda>j. f_mul fp (input_buffer c ! j) (hann fp ?F j)) [0..<nat ?F]"
  let ?S = "inverse_plan c (forward_plan c ?W)"
  let ?Z = "for_update 0 (nat (sint (overlap (nr_config c))))
              (\<lambda>i v. f_add fp v (overlap_buffer c ! i))
              (apply_hanning_window fp
                 (for_update 0 (nat ?F) (\<lambda>i v. f_div fp v (f_real fp (real_of_int ?F))) ?S) ?F)"
  have W: "apply_hanning_window fp
             (for_update 0 (nat ?F) (\<lambda>i _. input_buffer c ! i) (fft_input c)) ?F = ?W"
    using len by (rule windowed_copy)
  have frame: "process_frame fp c = c\<lparr> fft_input := ?Z, fft_output := forward_plan c ?W \<rparr>"
    using alg by (simp add: process_frame_def Let_def W)
  have S: "length ?S = nat ?F" by (rule inv)
  have "?Z = map (resynthesis fp (forward_plan c) (inverse_plan c) ?F (input_buffer c)
                    (overlap_buffer c)) [0..<nat ?F]"
  proof (rule nth_equalityI)
    show "length ?Z = length (map (resynthesis fp (forward_plan c) (inverse_plan c) ?F
                                     (input_buffer c) (overlap_buffer c)) [0..<nat ?F])"
      using S by simp
  next
    fix i assume "i < length ?Z"
    then have i: "i < nat ?F" using S by simp
    then show "?Z ! i = map (resynthesis fp (forward_plan c) (inverse_plan c) ?F
                               (input_buffer c) (overlap_buffer c)) [0..<nat ?F] ! i"
      using S ov ovl
      by (simp add: for_update_nth apply_hanning_window_nth resynthesis_def Let_def)
  qed
  with frame show ?thesis by simp
qed

text \<open>
  One turn of the loop in a well-formed state, for an algorithm name that is not
  \<^verbatim>\<open>"spectral_subtraction"\<close>: the state after the turn, in closed form. \<open>n\<close> is the
  number of samples copied into the accumulator, \<open>acc\<close> the accumulator after the
  copy.
\<close>

lemma bypass_turn:
  fixes c :: "'f noise_reduction_context" and fp :: "'f fpu"
    and samples processed :: nat and inp outp :: "int16 list" and in_place :: bool
  defines "F \<equiv> sint (frame_size (nr_config c))"
  defines "ov \<equiv> sint (overlap (nr_config c))"
  defines "n \<equiv> min (samples - processed) (nat (sint (frame_size (nr_config c)) - buffer_pos c))"
  defines "acc \<equiv> for_update (nat (buffer_pos c)) n
                    (\<lambda>i _. scale_sample fp ((if in_place then outp else inp) ! (processed + i)))
                    (input_buffer c)"
  defines "z \<equiv> resynthesis fp (forward_plan c) (inverse_plan c)
                  (sint (frame_size (nr_config c))) acc (overlap_buffer c)"
  assumes arith: "exact_counts fp" and inv: "nr_inv c"
    and alg: "algorithm (nr_config c) \<noteq> ''spectral_subtraction''"
    and small: "samples \<le> 2 ^ 24"
  shows "process_iteration fp inp in_place samples (c, processed, outp) =
           (if buffer_pos c + int n < F
            then (c\<lparr> input_buffer := acc, buffer_pos := buffer_pos c + int n \<rparr>,
                  processed + n, outp)
            else (c\<lparr> input_buffer :=
                        for_update 0 (nat ov) (\<lambda>i _. acc ! (nat (F - ov) + i)) acc,
                      buffer_pos := ov,
                      fft_input := map z [0..<nat F],
                      fft_output :=
                        forward_plan c (map (\<lambda>j. f_mul fp (acc ! j) (hann fp F j)) [0..<nat F]),
                      overlap_buffer := map (\<lambda>i. z (nat (F - ov) + i)) [0..<nat ov] \<rparr>,
                  processed + n,
                  for_update processed (min (nat (F - ov)) (samples - processed))
                    (\<lambda>i _. quantize fp (z i)) outp))"
proof -
  let ?F = "sint (frame_size (nr_config c))" and ?ov = "sint (overlap (nr_config c))"
  from inv have F2: "2 \<le> ?F" and FS: "?F \<le> 2 ^ 24" and ov0: "0 \<le> ?ov" and ovF: "?ov < ?F"
    and il: "length (input_buffer c) = nat ?F" and ol: "length (overlap_buffer c) = nat ?ov"
    and fl: "length (fft_input c) = nat ?F" and bp0: "0 \<le> buffer_pos c"
    and bpF: "buffer_pos c < ?F" and pl: "\<And>X. length (inverse_plan c X) = nat ?F"
    by (simp_all add: nr_inv_def)
  have tc: "f_size fp (f_min fp (f_real fp (real (samples - processed)))
                         (f_real fp (real_of_int (?F - buffer_pos c)))) = n"
    unfolding n_def using arith small bp0 bpF FS by (intro to_copy_exact) simp_all
  have "samples - (processed + n - n) = samples - processed" by simp
  then have os: "f_size fp (f_min fp (f_real fp (real_of_int (?F - ?ov)))
                         (f_real fp (real (samples - (processed + n - n)))))
              = min (nat (?F - ?ov)) (samples - processed)"
    using output_samples_exact [OF arith, of "samples - processed" "?F - ?ov"] small ov0 ovF FS
    by simp
  let ?c1 = "c\<lparr> input_buffer := acc, buffer_pos := buffer_pos c + int n \<rparr>"
  let ?c2 = "process_frame fp ?c1"
  have step: "process_iteration fp inp in_place samples (c, processed, outp) =
      (if ?F \<le> buffer_pos ?c1
       then (?c2\<lparr> overlap_buffer :=
                     for_update 0 (nat ?ov) (\<lambda>i _. fft_input ?c2 ! (nat (?F - ?ov) + i))
                       (overlap_buffer ?c2),
                   input_buffer :=
                     for_update 0 (nat (?F - (?F - ?ov)))
                       (\<lambda>i _. input_buffer ?c2 ! (nat (?F - ?ov) + i)) (input_buffer ?c2),
                   buffer_pos := buffer_pos ?c2 - (?F - ?ov) \<rparr>,
             processed + n,
             for_update (processed + n - n) (min (nat (?F - ?ov)) (samples - processed))
               (\<lambda>i _. quantize fp (fft_input ?c2 ! i)) outp)
       else (?c1, processed + n, outp))"
    unfolding process_iteration_def prod.case Let_def tc os acc_def [symmetric] ..
  have nF: "buffer_pos c + int n \<le> ?F" using bp0 bpF by (simp add: n_def)
  show ?thesis
  proof (cases "buffer_pos c + int n < ?F")
    case True
    then show ?thesis unfolding step F_def by simp
  next
    case False
    with nF have full: "buffer_pos c + int n = ?F" by simp
    have al: "length acc = nat ?F" using il by (simp add: acc_def)
    have frame: "?c2 =
        ?c1\<lparr> fft_input := map z [0..<nat ?F],
              fft_output := forward_plan c (map (\<lambda>j. f_mul fp (acc ! j) (hann fp ?F j))
                                              [0..<nat ?F]) \<rparr>"
      using process_frame_bypass [of ?c1 fp] alg fl pl ol ov0 ovF
      by (simp add: z_def)
    have save: "for_update 0 (nat ?ov) (\<lambda>i _. map z [0..<nat ?F] ! (nat (?F - ?ov) + i))
                  (overlap_buffer c)
                = map (\<lambda>i. z (nat (?F - ?ov) + i)) [0..<nat ?ov]"
    proof (rule nth_equalityI)
      show "length (for_update 0 (nat ?ov) (\<lambda>i _. map z [0..<nat ?F] ! (nat (?F - ?ov) + i))
                      (overlap_buffer c))
            = length (map (\<lambda>i. z (nat (?F - ?ov) + i)) [0..<nat ?ov])"
        using ol by simp
    next
      fix i assume "i < length (for_update 0 (nat ?ov)
                      (\<lambda>i _. map z [0..<nat ?F] ! (nat (?F - ?ov) + i)) (overlap_buffer c))"
      then have i: "i < nat ?ov" using ol by simp
      with ov0 ovF have "nat (?F - ?ov) + i < nat ?F" by linarith
      with i ol show "for_update 0 (nat ?ov)
                        (\<lambda>i _. map z [0..<nat ?F] ! (nat (?F - ?ov) + i)) (overlap_buffer c) ! i
            = map (\<lambda>i. z (nat (?F - ?ov) + i)) [0..<nat ?ov] ! i"
        by (simp add: for_update_nth)
    qed
    have quant: "for_update processed (min (nat (?F - ?ov)) (samples - processed))
                   (\<lambda>i _. quantize fp (map z [0..<nat ?F] ! i)) outp
                 = for_update processed (min (nat (?F - ?ov)) (samples - processed))
                     (\<lambda>i _. quantize fp (z i)) outp"
    proof (rule for_update_cong)
      fix i assume "i < min (nat (?F - ?ov)) (samples - processed)"
      with ov0 have "i < nat (?F - ?ov)" "nat (?F - ?ov) \<le> nat ?F" by simp_all
      then have "i < nat ?F" by (rule less_le_trans)
      then show "quantize fp (map z [0..<nat ?F] ! i) = quantize fp (z i)" by simp
    qed
    have shift: "nat (?F - (?F - ?ov)) = nat ?ov" by simp
    have same: "processed + n - n = processed" by simp
    from False full show ?thesis
      unfolding step F_def ov_def same shift frame
      by (simp add: save quant)
  qed
qed

lemma bypass_turn_inv:
  fixes c :: "'f noise_reduction_context"
  assumes arith: "exact_counts fp" and inv: "nr_inv c"
    and alg: "algorithm (nr_config c) \<noteq> ''spectral_subtraction''"
    and small: "samples \<le> 2 ^ 24" and turn: "processed < samples"
    and step: "process_iteration fp inp in_place samples (c, processed, outp) = (c', p', out')"
  shows "nr_inv c'" and "processed < p'" and "p' \<le> samples" and "length out' = length outp"
    and "nr_config c' = nr_config c" and "forward_plan c' = forward_plan c"
    and "inverse_plan c' = inverse_plan c" and "noise_spectrum c' = noise_spectrum c"
    and "noise_profile_ready c' = noise_profile_ready c"
proof -
  let ?F = "sint (frame_size (nr_config c))" and ?ov = "sint (overlap (nr_config c))"
  let ?n = "min (samples - processed) (nat (?F - buffer_pos c))"
  from inv have f: "2 \<le> ?F" "?F \<le> 2 ^ 24" "0 \<le> ?ov" "?ov < ?F"
    "length (input_buffer c) = nat ?F" "length (overlap_buffer c) = nat ?ov"
    "length (fft_input c) = nat ?F" "0 \<le> buffer_pos c" "buffer_pos c < ?F"
    "\<And>X. length (inverse_plan c X) = nat ?F"
    by (simp_all add: nr_inv_def)
  from f turn have n: "0 < ?n" "processed + ?n \<le> samples" "buffer_pos c + int ?n \<le> ?F"
    by simp_all
  let ?acc = "for_update (nat (buffer_pos c)) ?n
                (\<lambda>i _. scale_sample fp ((if in_place then outp else inp) ! (processed + i)))
                (input_buffer c)"
  let ?z = "resynthesis fp (forward_plan c) (inverse_plan c) ?F ?acc (overlap_buffer c)"
  note eq = bypass_turn [OF arith inv alg small, where processed = processed
      and in_place = in_place and outp = outp and inp = inp, unfolded step]
  have all: "nr_inv c' \<and> processed < p' \<and> p' \<le> samples \<and> length out' = length outp \<and>
      nr_config c' = nr_config c \<and> forward_plan c' = forward_plan c \<and>
      inverse_plan c' = inverse_plan c \<and> noise_spectrum c' = noise_spectrum c \<and>
      noise_profile_ready c' = noise_profile_ready c"
  proof (cases "buffer_pos c + int ?n < ?F")
    case True
    from eq [unfolded if_P [OF True]]
    have c': "c' = c\<lparr> input_buffer := ?acc, buffer_pos := buffer_pos c + int ?n \<rparr>"
      and p': "p' = processed + ?n" and out': "out' = outp"
      by simp_all
    have "nr_inv c'" unfolding c' using f True by (simp add: nr_inv_def)
    moreover have "processed < p'" "p' \<le> samples" unfolding p' using n by simp_all
    moreover have "length out' = length outp" unfolding out' by simp
    moreover have "nr_config c' = nr_config c" "forward_plan c' = forward_plan c"
      "inverse_plan c' = inverse_plan c" "noise_spectrum c' = noise_spectrum c"
      "noise_profile_ready c' = noise_profile_ready c"
      unfolding c' by simp_all
    ultimately show ?thesis by blast
  next
    case False
    from eq [unfolded if_not_P [OF False]]
    have c': "c' = c\<lparr> input_buffer :=
                        for_update 0 (nat ?ov) (\<lambda>i _. ?acc ! (nat (?F - ?ov) + i)) ?acc,
                      buffer_pos := ?ov,
                      fft_input := map ?z [0..<nat ?F],
                      fft_output :=
                        forward_plan c (map (\<lambda>j. f_mul fp (?acc ! j) (hann fp ?F j))
                                          [0..<nat ?F]),
                      overlap_buffer := map (\<lambda>i. ?z (nat (?F - ?ov) + i)) [0..<nat ?ov] \<rparr>"
      and p': "p' = processed + ?n"
      and out': "out' = for_update processed (min (nat (?F - ?ov)) (samples - processed))
                          (\<lambda>i _. quantize fp (?z i)) outp"
      by simp_all
    have "nr_inv c'" unfolding c' using f by (simp add: nr_inv_def)
    moreover have "processed < p'" "p' \<le> samples" unfolding p' using n by simp_all
    moreover have "length out' = length outp" unfolding out' by simp
    moreover have "nr_config c' = nr_config c" "forward_plan c' = forward_plan c"
      "inverse_plan c' = inverse_plan c" "noise_spectrum c' = noise_spectrum c"
      "noise_profile_ready c' = noise_profile_ready c"
      unfolding c' by simp_all
    ultimately show ?thesis by blast
  qed
  from all show "nr_inv c'" "processed < p'" "p' \<le> samples" "length out' = length outp"
    "nr_config c' = nr_config c" "forward_plan c' = forward_plan c"
    "inverse_plan c' = inverse_plan c" "noise_spectrum c' = noise_spectrum c"
    "noise_profile_ready c' = noise_profile_ready c"
    by blast+
qed

text \<open>The loop ends: every turn consumes at least one sample and keeps the state
  well formed.\<close>

lemma bypass_loop_returns:
  fixes c :: "'f noise_reduction_context"
  assumes arith: "exact_counts fp" and small: "samples \<le> 2 ^ 24"
  shows "nr_inv c \<Longrightarrow> algorithm (nr_config c) \<noteq> ''spectral_subtraction''
         \<Longrightarrow> processed \<le> samples
         \<Longrightarrow> \<exists>c' out. process_loop fp inp in_place samples (c, processed, outp)
                          = Some (c', samples, out) \<and>
                        nr_inv c' \<and> length out = length outp \<and> nr_config c' = nr_config c"
proof (induction "samples - processed" arbitrary: c processed outp rule: less_induct)
  case less
  show ?case
  proof (cases "processed < samples")
    case False
    with less.prems have "processed = samples" by simp
    then have "process_loop fp inp in_place samples (c, processed, outp)
                 = Some (c, samples, outp)"
      by (subst process_loop.simps) simp
    with less.prems show ?thesis by simp
  next
    case True
    obtain c1 p1 out1 where
      step: "process_iteration fp inp in_place samples (c, processed, outp) = (c1, p1, out1)"
      by (cases "process_iteration fp inp in_place samples (c, processed, outp)") auto
    note f = bypass_turn_inv [OF arith less.prems(1,2) small True step]
    from f(2,3) have "samples - p1 < samples - processed" by simp
    moreover from less.prems(2) f(5) have "algorithm (nr_config c1) \<noteq> ''spectral_subtraction''"
      by simp
    ultimately obtain c' out where
      run: "process_loop fp inp in_place samples (c1, p1, out1) = Some (c', samples, out)"
      and r: "nr_inv c'" "length out = length out1" "nr_config c' = nr_config c1"
      using less.hyps [where processed = p1 and c = c1 and outp = out1] f(1,3) by blast
    have "process_loop fp inp in_place samples (c, processed, outp)
            = process_loop fp inp in_place samples (c1, p1, out1)"
      using True by (subst process_loop.simps) (simp add: step)
    with run r f(4,5) show ?thesis by simp
  qed
qed

lemma bypass_process_returns:
  fixes c :: "'f noise_reduction_context"
  assumes "exact_counts fp" and "samples \<le> 2 ^ 24" and "nr_inv c"
    and "algorithm (nr_config c) \<noteq> ''spectral_subtraction''"
  shows "\<exists>c' out. noise_reduction_process fp (Some c) (Some inp) (Some outp) in_place samples
                    = Some (MICARRAY_SUCCESS, Some out, Some c') \<and>
                  nr_inv c' \<and> length out = length outp"
proof -
  from bypass_loop_returns [OF assms(1,2,3,4), where processed = 0 and inp = inp
         and in_place = in_place and outp = outp]
  obtain c' out where "process_loop fp inp in_place samples (c, 0, outp) = Some (c', samples, out)"
    and "nr_inv c'" "length out = length outp"
    by auto
  then show ?thesis by (simp add: noise_reduction_process_def)
qed

lemma noise_init_inv:
  assumes init: "noise_reduction_init fp True fftw (Some cfg) = (MICARRAY_SUCCESS, Some c)"
    and F: "2 \<le> sint (frame_size cfg)" "sint (frame_size cfg) \<le> 2 ^ 24"
    and ov: "0 \<le> sint (overlap cfg)" "sint (overlap cfg) < sint (frame_size cfg)"
    and plan: "\<And>X. length (inverse_plan c X) = nat (sint (frame_size cfg))"
  shows "nr_inv c" and "nr_config c = cfg" and "buffer_pos c = 0"
    and "overlap_buffer c = replicate (nat (sint (overlap cfg))) (f_real fp 0)"
proof -
  from init have c: "nr_config c = cfg"
    "input_buffer c = replicate (nat (sint (frame_size cfg))) (f_real fp 0)"
    "overlap_buffer c = replicate (nat (sint (overlap cfg))) (f_real fp 0)"
    "length (fft_input c) = nat (sint (frame_size cfg))"
    "buffer_pos c = 0"
    by (auto simp: noise_reduction_init_def MICARRAY_SUCCESS_def MICARRAY_ERROR_INIT_def
             split: option.splits)
  with F ov plan show "nr_inv c" by (simp add: nr_inv_def)
  from c show "nr_config c = cfg" "buffer_pos c = 0"
    "overlap_buffer c = replicate (nat (sint (overlap cfg))) (f_real fp 0)"
    by simp_all
qed

subsection \<open>An algorithm name other than \<^verbatim>\<open>"spectral_subtraction"\<close>\<close>

lemma dft_c2r_length [simp]: "length (dft_c2r n X) = n"
  by (simp add: dft_c2r_def)

lemma fresh_init:
  "noise_reduction_init exact_fpu True dft_library (Some bypass_config)
     = (MICARRAY_SUCCESS, Some (fresh_ctx bypass_config))"
  by (simp add: noise_reduction_init_def dft_library_def bypass_config_def ss_config_def
                fresh_ctx_def trained_ctx_def num_bins_4 numeral_eq_Suc)

lemma bypass_facts:
  "algorithm (nr_config (fresh_ctx bypass_config)) \<noteq> ''spectral_subtraction''"
  "sint (frame_size (nr_config (fresh_ctx bypass_config))) = 4"
  "sint (overlap (nr_config (fresh_ctx bypass_config))) = 2"
  "buffer_pos (fresh_ctx bypass_config) = 0"
  "overlap_buffer (fresh_ctx bypass_config) = [0, 0]"
  by (simp_all add: fresh_ctx_def trained_ctx_def bypass_config_def ss_config_def)

lemma fresh_inv: "nr_inv (fresh_ctx bypass_config)"
  by (simp add: nr_inv_def fresh_ctx_def trained_ctx_def bypass_config_def ss_config_def)

lemma quantize_0: "quantize exact_fpu 0 = 0"
  by (simp add: quantize_def c_trunc_def)

text \<open>The conversions of the samples and the window on values that binary32
  represents exactly: \<open>16384 / 32768\<close>; \<open>0.5 * 32767 = 16383.5\<close>, converted to 16383;
  the clamp to \<open>[-1, 1]\<close> before the conversion; the window of size 3, which is
  \<open>0, 1, 0\<close>.\<close>

lemma scale_sample_half: "scale_sample exact_fpu 16384 = 1 / 2"
  by (simp add: scale_sample_def)

lemma quantize_examples:
  "sint (quantize exact_fpu (1 / 2)) = 16383"
  "sint (quantize exact_fpu 2) = 32767"
  "sint (quantize exact_fpu (- 2)) = - 32767"
  by (simp_all add: quantize_def c_trunc_def)

lemma hann_3: "map (hann exact_fpu 3) [0, 1, 2] = [0, 1, 0]"
  by (simp add: hann_def)

text \<open>In exact arithmetic the first sample of a synthesised frame is the saved
  overlap sample, because the Hann window is 0 at index 0.\<close>

lemma resynthesis_0:
  "0 < length ov \<Longrightarrow> resynthesis exact_fpu r2c c2r F acc ov 0 = ov ! 0"
  by (simp add: resynthesis_def Let_def hann_0)

text \<open>A fresh denoiser with frames of 4 samples, overlap 2 and the algorithm
  \<^verbatim>\<open>"none"\<close>, given the four samples \<open>1000, 2000, 3000, 4000\<close> and an output array
  that holds \<open>7, 7, 7, 7\<close>: the loop runs once.\<close>

lemma fresh_bypass_run:
  "\<exists>c' out. noise_reduction_process exact_fpu (Some (fresh_ctx bypass_config))
                (Some [1000, 2000, 3000, 4000]) (Some [7, 7, 7, 7]) False 4
              = Some (MICARRAY_SUCCESS, Some out, Some c') \<and>
            process_iteration exact_fpu [1000, 2000, 3000, 4000] False 4
                (fresh_ctx bypass_config, 0, [7, 7, 7, 7]) = (c', 4, out) \<and>
            length out = 4 \<and> out ! 0 = 0 \<and> out ! 2 = 7 \<and> out ! 3 = 7 \<and> buffer_pos c' = 2"
proof -
  let ?c = "fresh_ctx bypass_config"
  let ?inp = "[1000, 2000, 3000, 4000] :: int16 list"
  let ?outp = "[7, 7, 7, 7] :: int16 list"
  note turn = bypass_turn [OF exact_counts_exact fresh_inv bypass_facts(1),
      where samples = 4 and processed = 0 and in_place = False and inp = ?inp and outp = ?outp]
  obtain c' p' out where
    step: "process_iteration exact_fpu ?inp False 4 (?c, 0, ?outp) = (c', p', out)"
    by (cases "process_iteration exact_fpu ?inp False 4 (?c, 0, ?outp)") auto
  from turn step have p': "p' = 4" and pos: "buffer_pos c' = 2"
    and out: "out = for_update 0 2
                (\<lambda>i _. quantize exact_fpu
                   (resynthesis exact_fpu (forward_plan ?c) (inverse_plan ?c) 4
                      (for_update 0 4 (\<lambda>i _. scale_sample exact_fpu (?inp ! i)) (input_buffer ?c))
                      (overlap_buffer ?c) i))
                ?outp"
    by (simp_all add: bypass_facts)
  have nth: "out ! k = (if k < 2 then quantize exact_fpu
                   (resynthesis exact_fpu (forward_plan ?c) (inverse_plan ?c) 4
                      (for_update 0 4 (\<lambda>i _. scale_sample exact_fpu (?inp ! i)) (input_buffer ?c))
                      (overlap_buffer ?c) k) else ?outp ! k)" for k
    unfolding out by (simp add: for_update_nth)
  have "out ! 0 = 0" "out ! 2 = 7" "out ! 3 = 7" "length out = 4"
    by (simp_all add: nth resynthesis_0 bypass_facts quantize_0) (simp add: out)
  moreover have "process_loop exact_fpu ?inp False 4 (?c, 0, ?outp) = Some (c', 4, out)"
    by (subst process_loop.simps, simp add: step p', subst process_loop.simps, simp)
  then have "noise_reduction_process exact_fpu (Some ?c) (Some ?inp) (Some ?outp) False 4
               = Some (MICARRAY_SUCCESS, Some out, Some c')"
    by (simp add: noise_reduction_process_def)
  ultimately show ?thesis using step p' pos by blast
qed

text \<open>
  C4, as the specification has it: with an algorithm name that is not
  \<^verbatim>\<open>"spectral_subtraction"\<close> the output samples equal the input samples. In the code
  only the call of \<^verbatim>\<open>spectral_subtraction\<close> depends on the name; the frame is still
  windowed, transformed forth and back, windowed again and requantised. A fresh
  denoiser with frames of 4 samples, overlap 2 and the algorithm \<^verbatim>\<open>"none"\<close>, given the
  input \<open>1000, 2000, 3000, 4000\<close>, returns success and has written \<open>0\<close> as the first
  output sample, because the Hann window is 0 at index 0 (\<open>0.5 * (1 - cos 0)\<close>, also
  in binary32).
\<close>

theorem passthrough_counterexample:
  "algorithm bypass_config \<noteq> ''spectral_subtraction'' \<and>
   noise_reduction_init exact_fpu True dft_library (Some bypass_config)
     = (MICARRAY_SUCCESS, Some (fresh_ctx bypass_config)) \<and>
   status_of (noise_reduction_process exact_fpu (Some (fresh_ctx bypass_config))
                (Some [1000, 2000, 3000, 4000]) (Some [7, 7, 7, 7]) False 4)
     = Some MICARRAY_SUCCESS \<and>
   output_of (noise_reduction_process exact_fpu (Some (fresh_ctx bypass_config))
                (Some [1000, 2000, 3000, 4000]) (Some [7, 7, 7, 7]) False 4) ! 0 = 0 \<and>
   output_of (noise_reduction_process exact_fpu (Some (fresh_ctx bypass_config))
                (Some [1000, 2000, 3000, 4000]) (Some [7, 7, 7, 7]) False 4)
     \<noteq> [1000, 2000, 3000, 4000]"
proof -
  from fresh_bypass_run obtain c' out where
    run: "noise_reduction_process exact_fpu (Some (fresh_ctx bypass_config))
                (Some [1000, 2000, 3000, 4000]) (Some [7, 7, 7, 7]) False 4
              = Some (MICARRAY_SUCCESS, Some out, Some c')"
    and first: "out ! 0 = 0"
    by blast
  from first have "out \<noteq> [1000, 2000, 3000, 4000]" by auto
  moreover have "algorithm bypass_config \<noteq> ''spectral_subtraction''"
    by (simp add: bypass_config_def ss_config_def)
  ultimately show ?thesis
    using first fresh_init by (simp add: run status_of_def output_of_def)
qed

text \<open>
  C4, amended to what the code does, in every floating-point arithmetic in which
  counts up to \<open>2 ^ 24\<close> are exact. For an algorithm name other than
  \<^verbatim>\<open>"spectral_subtraction"\<close>, \<^verbatim>\<open>noise_reduction_process\<close> skips the spectral subtraction
  alone. Take a well-formed denoiser state \<open>c\<close> (frame size \<open>F\<close>, overlap \<open>ov\<close>, hop
  \<open>F - ov\<close>), at most \<open>2 ^ 24\<close> samples, an output array with room for them, and any
  turn of the processing loop, at \<open>processed < samples\<close>. The turn copies
  \<open>n = min (samples - processed) (F - buffer_pos)\<close> samples, scaled by \<open>1/32768\<close>,
  into the accumulator (\<open>acc\<close>) and advances \<open>processed\<close> by \<open>n \<ge> 1\<close>.
  \<^item> If the accumulator is not full yet, nothing else happens: the output and the
    saved overlap are as before.
  \<^item> If it is full, the frame \<open>z\<close> is synthesised: \<open>acc\<close> is Hann-windowed, transformed
    by the forward plan, the spectrum is handed unchanged to the inverse plan, the
    result is divided by \<open>F\<close> and windowed again, and the saved overlap tail is added
    to its first \<open>ov\<close> samples. The first \<open>min (F - ov) (samples - processed)\<close> samples of
    \<open>z\<close> are written to the output at \<open>processed\<close>, each converted by
    \<open>(int16_t)(clamp(z[i], -1, 1) * 32767)\<close>; no other output sample changes. The tail
    \<open>z[F - ov ..< F]\<close> becomes the saved overlap, the last \<open>ov\<close> samples of the
    accumulator move to its front, and \<open>buffer_pos\<close> becomes \<open>ov\<close>.
  The state stays well formed, the loop ends with \<open>processed = samples\<close>, and a
  call returns \<^verbatim>\<open>MICARRAY_SUCCESS\<close> with an output array of the same length. The output
  is the windowed resynthesis of the input, not the input.
\<close>

theorem bypass_resynthesises_frames:
  fixes c c' :: "'f noise_reduction_context" and fp :: "'f fpu"
    and samples processed processed' :: nat and inp outp out' :: "int16 list"
    and in_place :: bool
  defines "F \<equiv> sint (frame_size (nr_config c))"
  defines "ov \<equiv> sint (overlap (nr_config c))"
  defines "n \<equiv> min (samples - processed) (nat (sint (frame_size (nr_config c)) - buffer_pos c))"
  defines "acc \<equiv> for_update (nat (buffer_pos c)) n
                    (\<lambda>i _. scale_sample fp ((if in_place then outp else inp) ! (processed + i)))
                    (input_buffer c)"
  defines "z \<equiv> resynthesis fp (forward_plan c) (inverse_plan c)
                  (sint (frame_size (nr_config c))) acc (overlap_buffer c)"
  defines "m \<equiv> min (nat (sint (frame_size (nr_config c)) - sint (overlap (nr_config c))))
                    (samples - processed)"
  assumes arith: "exact_counts fp" and inv: "nr_inv c"
    and alg: "algorithm (nr_config c) \<noteq> ''spectral_subtraction''"
    and small: "samples \<le> 2 ^ 24" and room: "samples \<le> length outp"
    and turn: "processed < samples"
    and step: "process_iteration fp inp in_place samples (c, processed, outp)
                 = (c', processed', out')"
  shows "processed' = processed + n \<and> 0 < n \<and> processed' \<le> samples \<and>
         nr_inv c' \<and> length out' = length outp \<and>
         nr_config c' = nr_config c \<and> noise_spectrum c' = noise_spectrum c \<and>
         noise_profile_ready c' = noise_profile_ready c \<and>
         (buffer_pos c + int n < F \<longrightarrow>
            out' = outp \<and> input_buffer c' = acc \<and> overlap_buffer c' = overlap_buffer c \<and>
            buffer_pos c' = buffer_pos c + int n) \<and>
         (buffer_pos c + int n = F \<longrightarrow>
            (\<forall>i<m. out' ! (processed + i) = quantize fp (z i)) \<and>
            (\<forall>k. k < processed \<or> processed + m \<le> k \<longrightarrow> out' ! k = outp ! k) \<and>
            fft_output c' = forward_plan c (map (\<lambda>j. f_mul fp (acc ! j) (hann fp F j)) [0..<nat F]) \<and>
            overlap_buffer c' = map (\<lambda>i. z (nat (F - ov) + i)) [0..<nat ov] \<and>
            (\<forall>i<nat ov. input_buffer c' ! i = acc ! (nat (F - ov) + i)) \<and>
            buffer_pos c' = ov) \<and>
         (buffer_pos c + int n < F \<or> buffer_pos c + int n = F) \<and>
         (\<exists>c'' out. process_loop fp inp in_place samples (c, processed, outp)
                       = Some (c'', samples, out) \<and>
                     nr_inv c'' \<and> length out = length outp) \<and>
         (\<exists>c'' out. noise_reduction_process fp (Some c) (Some inp) (Some outp) in_place samples
                       = Some (MICARRAY_SUCCESS, Some out, Some c'') \<and>
                     nr_inv c'' \<and> length out = length outp)"
proof -
  let ?F = "sint (frame_size (nr_config c))" and ?ov = "sint (overlap (nr_config c))"
  from inv have f: "2 \<le> ?F" "0 \<le> ?ov" "?ov < ?F" "length (input_buffer c) = nat ?F"
    "0 \<le> buffer_pos c" "buffer_pos c < ?F"
    by (simp_all add: nr_inv_def)
  from f turn have n: "0 < n" "processed + n \<le> samples" "buffer_pos c + int n \<le> ?F"
    by (simp_all add: n_def)
  have al: "length acc = nat ?F" using f by (simp add: acc_def)
  note i = bypass_turn_inv [OF arith inv alg small turn step]
  note eq = bypass_turn [OF arith inv alg small, where processed = processed
      and in_place = in_place and outp = outp and inp = inp, unfolded step,
      folded n_def, folded acc_def, folded z_def]
  have p': "processed' = processed + n" using eq by (simp split: if_splits)
  have part: "out' = outp \<and> input_buffer c' = acc \<and> overlap_buffer c' = overlap_buffer c \<and>
              buffer_pos c' = buffer_pos c + int n"
    if "buffer_pos c + int n < ?F"
    using eq [unfolded if_P [OF that]] by simp
  have full: "(\<forall>i<m. out' ! (processed + i) = quantize fp (z i)) \<and>
            (\<forall>k. k < processed \<or> processed + m \<le> k \<longrightarrow> out' ! k = outp ! k) \<and>
            fft_output c' = forward_plan c (map (\<lambda>j. f_mul fp (acc ! j) (hann fp ?F j))
                                              [0..<nat ?F]) \<and>
            overlap_buffer c' = map (\<lambda>i. z (nat (?F - ?ov) + i)) [0..<nat ?ov] \<and>
            (\<forall>i<nat ?ov. input_buffer c' ! i = acc ! (nat (?F - ?ov) + i)) \<and>
            buffer_pos c' = ?ov"
    if "buffer_pos c + int n = ?F"
  proof -
    from that have "\<not> buffer_pos c + int n < ?F" by simp
    note e = eq [unfolded if_not_P [OF this]]
    from e have out': "out' = for_update processed m (\<lambda>i _. quantize fp (z i)) outp"
      and ib: "input_buffer c' = for_update 0 (nat ?ov) (\<lambda>i _. acc ! (nat (?F - ?ov) + i)) acc"
      and rest: "fft_output c' = forward_plan c (map (\<lambda>j. f_mul fp (acc ! j) (hann fp ?F j))
                                              [0..<nat ?F])"
        "overlap_buffer c' = map (\<lambda>i. z (nat (?F - ?ov) + i)) [0..<nat ?ov]"
        "buffer_pos c' = ?ov"
      by (simp_all add: m_def)
    have "processed + m \<le> length outp" using room turn by (simp add: m_def)
    then have o: "out' ! k = (if processed \<le> k \<and> k < processed + m
                              then quantize fp (z (k - processed)) else outp ! k)" for k
      unfolding out' by (simp add: for_update_nth)
    have "nat ?ov \<le> length acc" using al f by simp
    then have a: "input_buffer c' ! k = (if k < nat ?ov then acc ! (nat (?F - ?ov) + k)
                                          else acc ! k)" for k
      unfolding ib by (simp add: for_update_nth)
    from o a rest show ?thesis by simp
  qed
  from n(3) have cases: "buffer_pos c + int n < ?F \<or> buffer_pos c + int n = ?F" by linarith
  have loop: "\<exists>c'' out. process_loop fp inp in_place samples (c, processed, outp)
                       = Some (c'', samples, out) \<and>
                     nr_inv c'' \<and> length out = length outp"
    using bypass_loop_returns [OF arith small inv alg, where processed = processed
            and inp = inp and in_place = in_place and outp = outp] turn
    by auto
  note call = bypass_process_returns [OF arith small inv alg, where inp = inp and outp = outp
                and in_place = in_place]
  from p' n i(1,4,5,8,9) part full cases loop call show ?thesis
    unfolding F_def ov_def by blast
qed

text \<open>The witness: the fresh denoiser of the counterexample. Its first turn
  completes a frame; the first output sample is 0, the samples from the hop on are
  not written, and \<open>buffer_pos\<close> is left at the overlap.\<close>

theorem bypass_resynthesises_frames_witness:
  "exact_counts exact_fpu \<and> nr_inv (fresh_ctx bypass_config) \<and>
   algorithm (nr_config (fresh_ctx bypass_config)) \<noteq> ''spectral_subtraction'' \<and>
   (4 :: nat) \<le> 2 ^ 24 \<and> 4 \<le> length [7, 7, 7, 7 :: int16] \<and> (0 :: nat) < 4 \<and>
   fst (snd (process_iteration exact_fpu [1000, 2000, 3000, 4000] False 4
               (fresh_ctx bypass_config, 0, [7, 7, 7, 7]))) = 4 \<and>
   snd (snd (process_iteration exact_fpu [1000, 2000, 3000, 4000] False 4
               (fresh_ctx bypass_config, 0, [7, 7, 7, 7]))) ! 0 = 0 \<and>
   snd (snd (process_iteration exact_fpu [1000, 2000, 3000, 4000] False 4
               (fresh_ctx bypass_config, 0, [7, 7, 7, 7]))) ! 2 = 7 \<and>
   buffer_pos (fst (process_iteration exact_fpu [1000, 2000, 3000, 4000] False 4
               (fresh_ctx bypass_config, 0, [7, 7, 7, 7]))) = 2"
proof -
  let ?c = "fresh_ctx bypass_config"
  let ?inp = "[1000, 2000, 3000, 4000] :: int16 list"
  let ?outp = "[7, 7, 7, 7] :: int16 list"
  let ?r = "process_iteration exact_fpu ?inp False 4 (?c, 0, ?outp)"
  have small: "(4 :: nat) \<le> 2 ^ 24" and room: "4 \<le> length ?outp" and turn: "(0 :: nat) < 4"
    by simp_all
  have step: "?r = (fst ?r, fst (snd ?r), snd (snd ?r))" by simp
  note t = bypass_resynthesises_frames [OF exact_counts_exact fresh_inv bypass_facts(1)
             small room turn step]
  have n: "min (4 - 0) (nat (sint (frame_size (nr_config ?c)) - buffer_pos ?c)) = (4 :: nat)"
    by (simp add: bypass_facts)
  from t have p: "fst (snd ?r) = 4" using n by simp
  have full: "buffer_pos ?c + int (min (4 - 0) (nat (sint (frame_size (nr_config ?c))
                - buffer_pos ?c))) = sint (frame_size (nr_config ?c))"
    by (simp add: bypass_facts)
  from t full have pos: "buffer_pos (fst ?r) = 2" by (simp add: bypass_facts)
  from t full have
    w: "\<forall>i < min (nat (sint (frame_size (nr_config ?c)) - sint (overlap (nr_config ?c)))) (4 - 0).
          snd (snd ?r) ! (0 + i)
            = quantize exact_fpu
                (resynthesis exact_fpu (forward_plan ?c) (inverse_plan ?c)
                   (sint (frame_size (nr_config ?c)))
                   (for_update (nat (buffer_pos ?c))
                      (min (4 - 0) (nat (sint (frame_size (nr_config ?c)) - buffer_pos ?c)))
                      (\<lambda>i _. scale_sample exact_fpu ((if False then ?outp else ?inp) ! (0 + i)))
                      (input_buffer ?c))
                   (overlap_buffer ?c) i)"
    and u: "\<forall>k. k < 0 \<or> 0 + min (nat (sint (frame_size (nr_config ?c))
                     - sint (overlap (nr_config ?c)))) (4 - 0) \<le> k
              \<longrightarrow> snd (snd ?r) ! k = ?outp ! k"
    by blast+
  from w have "snd (snd ?r) ! 0 = 0"
    by (simp add: bypass_facts resynthesis_0 quantize_0)
  moreover from u have "snd (snd ?r) ! 2 = 7" by (simp add: bypass_facts)
  ultimately show ?thesis
    using exact_counts_exact fresh_inv bypass_facts(1) p pos by simp
qed

end
